theory Spec2Isabelle
  imports Main "HOL-Library.Sublist"
begin

section \<open>The Solaris Zones compute driver: exceptions, backend calls and the world\<close>

text \<open>
  The driver (\<^verbatim>\<open>solariszones/driver.py\<close>, \<^verbatim>\<open>zone_config.py\<close>, \<^verbatim>\<open>utils.py\<close>) is
  Python code that talks to three collaborators: the zone manager over RAD, the volume
  service, and command-line tools. Its methods are modelled as functions that take the
  world and return a result together with the world they leave behind.

  \<^item> An exception is a value of \<open>error\<close>; a method returns \<open>error + 'a\<close> with \<open>Inl\<close> for
    a raise. Where the driver wraps an exception \<open>ex\<close> into one of its own with
    \<^verbatim>\<open>reason=utils.zonemgr_strerror(ex)\<close>, the reason is \<open>Strerror ex\<close>; a literal message
    is \<open>Reason\<close>. Only subclasses of Python's \<^verbatim>\<open>Exception\<close> are modelled, so \<^verbatim>\<open>except Exception\<close>
    and a bare \<^verbatim>\<open>except\<close> catch every \<open>error\<close>.
  \<^item> Every interaction with a collaborator is a \<open>call\<close>. The world keeps the \<open>trace\<close> of
    calls issued so far, in order.
  \<^item> What a collaborator answers is not in the repository, so it is left to the world:
    \<open>fails\<close> says whether a call raises (given the calls made before it), and
    \<open>reply_bool\<close>, \<open>reply_text\<close>, \<open>reply_volume\<close>, \<open>reply_kstat\<close> and \<open>reply_connection\<close>
    give the value of a call that does not raise.
  \<^item> \<open>fc_hbas\<close> is the driver's cache \<^verbatim>\<open>self._fc_hbas\<close>; \<open>my_ip\<close>, \<open>zones_suspend_path\<close>,
    \<open>nfs_username\<close> and \<open>nfs_groupname\<close> are the configuration options of those names, and
    \<open>uid\<close> and \<open>gid\<close> what \<^verbatim>\<open>os.getuid()\<close> and \<^verbatim>\<open>os.getgid()\<close> return.
  \<^item> The persistent zone configuration is modelled concretely, because the driver's
    transaction protocol is about its content: \<open>config\<close> is the committed configuration
    of each zone and \<open>pending\<close> the snapshot an open edit session works on.
\<close>

datatype error =
    ObjectError string
  | NotFoundError
  | ProcessExecutionError string
  | OSError string
  | KeyError string
  | IndexError string
  | TypeError string
  | AttributeError string
  | RuntimeError string
  | NotImplementedError string
  | UnboundLocalError string
  | NovaException string
  | MemoryAlignmentIncorrect string string string
  | ImageUnacceptable string
  | InstanceNotFound string
  | InstanceSuspendFailure reason
  | InstancePowerOnFailure string
  | InvalidVolume string
  | VolumeDriverNotFound string
  | MigrationPreCheckError string
  | ResizeError string
  | VolumeError string
and reason = Reason string | Strerror error

datatype property = Property (pname: string) (pvalue: string)

datatype resource = Resource (rtype: string) (rprops: "property list")

datatype call =
    GetZone string
  | ZoneState string
  | ZoneBrand string
  | EditConfig string
  | CommitConfig string
  | CancelConfig string
  | GetResources string resource
  | GetResourceProperties string resource "string list"
  | AddResource string resource
  | SetResourceProperties string resource "property list"
  | RemoveResources string resource
  | ClearResourceProperties string resource "string list"
  | ZoneSuspend string
  | ZoneAttach string "string list"
  | ZoneDetach string
  | VolumeGet string
  | VolumeCreate int string string string
  | VolumeExtend string int
  | VolumeDetach string
  | VolumeDelete string
  | VolumeAttach string string string
  | InitializeConnection string
  | BdmGetByVolumeId string
  | BdmSave string string
  | InstanceSave
  | KstatUpdate
  | KstatGet string
  | KstatGetMap string
  | Execute "string list"
  | Sleep nat
  | Helper string "string list"

text \<open>
  The value of a statistic in a kstat snapshot, by its type in \<^verbatim>\<open>KSTAT_TYPE\<close>: a string, a
  list of strings, an integer, a list of integers, or a nested kstat with a map of its
  own. A map is a Python dictionary, kept as a list of pairs in iteration order.
\<close>

datatype kval =
    KStr string
  | KStrs "string list"
  | KInt int
  | KInts "int list"
  | KKstat "(string \<times> kval) list"

record volume_rec =
  vol_id :: string
  display_name :: string
  display_description :: string
  status :: string

record hba =
  port_name :: "string option"
  port_state :: "string option"
  node_name :: "string option"

text \<open>
  The connection descriptor of a volume, \<^verbatim>\<open>connection_info\<close>, with the keys the driver
  reads; a key that may be missing is an option. A value found under a key of
  \<^verbatim>\<open>connection_info['data']\<close> is a string, an integer, a list of strings or a list of
  integers.
\<close>

datatype pyval = PStr string | PInt int | PStrs "string list" | PInts "int list"

record connection_info =
  driver_volume_type :: string
  volume_path :: "string option"
  serial :: "string option"
  data :: "(string \<rightharpoonup> pyval) option"

record world =
  trace :: "call list"
  fails :: "call list \<Rightarrow> call \<Rightarrow> error option"
  reply_bool :: "call list \<Rightarrow> call \<Rightarrow> bool"
  reply_text :: "call list \<Rightarrow> call \<Rightarrow> string"
  reply_volume :: "call list \<Rightarrow> call \<Rightarrow> volume_rec"
  reply_kstat :: "call list \<Rightarrow> call \<Rightarrow> (string \<times> kval) list"
  reply_connection :: "call list \<Rightarrow> call \<Rightarrow> connection_info"
  config :: "string \<Rightarrow> resource list"
  pending :: "string \<Rightarrow> resource list option"
  fc_hbas :: "hba list"
  my_ip :: string
  zones_suspend_path :: string
  nfs_username :: "string option"
  nfs_groupname :: "string option"
  uid :: int
  gid :: int

text \<open>
  \<open>invoke c\<close> issues the call \<open>c\<close>: the call is appended to the trace whether it raises
  or not, and it raises exactly when the world says so.
\<close>

definition invoke :: "call \<Rightarrow> world \<Rightarrow> (error + unit) \<times> world" where
  "invoke c w =
     ((case fails w (trace w) c of Some e \<Rightarrow> Inl e | None \<Rightarrow> Inr ()),
      w\<lparr>trace := trace w @ [c]\<rparr>)"

text \<open>The results of a call that did not raise, read at the history before the call.\<close>

definition ask_bool :: "call \<Rightarrow> world \<Rightarrow> (error + bool) \<times> world" where
  "ask_bool c w =
     (case invoke c w of
        (Inl e, w') \<Rightarrow> (Inl e, w')
      | (Inr _, w') \<Rightarrow> (Inr (reply_bool w (trace w) c), w'))"

definition ask_text :: "call \<Rightarrow> world \<Rightarrow> (error + string) \<times> world" where
  "ask_text c w =
     (case invoke c w of
        (Inl e, w') \<Rightarrow> (Inl e, w')
      | (Inr _, w') \<Rightarrow> (Inr (reply_text w (trace w) c), w'))"

definition ask_volume :: "call \<Rightarrow> world \<Rightarrow> (error + volume_rec) \<times> world" where
  "ask_volume c w =
     (case invoke c w of
        (Inl e, w') \<Rightarrow> (Inl e, w')
      | (Inr _, w') \<Rightarrow> (Inr (reply_volume w (trace w) c), w'))"

definition ask_kstat :: "call \<Rightarrow> world \<Rightarrow> (error + (string \<times> kval) list) \<times> world" where
  "ask_kstat c w =
     (case invoke c w of
        (Inl e, w') \<Rightarrow> (Inl e, w')
      | (Inr _, w') \<Rightarrow> (Inr (reply_kstat w (trace w) c), w'))"

definition ask_connection :: "call \<Rightarrow> world \<Rightarrow> (error + connection_info) \<times> world" where
  "ask_connection c w =
     (case invoke c w of
        (Inl e, w') \<Rightarrow> (Inl e, w')
      | (Inr _, w') \<Rightarrow> (Inr (reply_connection w (trace w) c), w'))"

section \<open>Instances and flavors\<close>

text \<open>
  The fields of Nova's \<^verbatim>\<open>Flavor\<close> and \<^verbatim>\<open>Instance\<close> objects that the modelled methods
  read or write. \<^verbatim>\<open>instance.name\<close> is \<open>name\<close>, \<^verbatim>\<open>flavor['name']\<close> is \<open>flavor_name\<close>
  and \<^verbatim>\<open>flavor.root_gb\<close> is \<open>flavor_root_gb\<close>; \<open>config_drive\<close> is the value of
  \<^verbatim>\<open>configdrive.required_by(instance)\<close>. Dictionaries are maps; a nullable field is an
  option.
\<close>

record flavor =
  flavor_name :: string
  extra_specs :: "string \<rightharpoonup> string"
  flavor_root_gb :: int

record nova_instance =
  name :: string
  uuid :: string
  display_name_of :: string
  memory_mb :: int
  vcpus :: int
  root_gb :: int
  task_state :: "string option"
  system_metadata :: "string \<rightharpoonup> string"
  instance_flavor :: flavor
  image_ref :: "string option"
  root_device_name :: string
  host :: string
  node :: string
  launched_on :: string
  config_drive :: bool

definition ZONE_BRAND_SOLARIS :: string where
  "ZONE_BRAND_SOLARIS = ''solaris''"

definition ZONE_BRAND_SOLARIS_KZ :: string where
  "ZONE_BRAND_SOLARIS_KZ = ''solaris-kz''"

text \<open>Python's \<^verbatim>\<open>str\<close> of an integer, in decimal.\<close>

definition digit_char :: "nat \<Rightarrow> char" where
  "digit_char n = ''0123456789'' ! n"

function str_nat :: "nat \<Rightarrow> string" where
  "str_nat n = (if n < 10 then [digit_char n] else str_nat (n div 10) @ [digit_char (n mod 10)])"
  by pat_completeness auto
termination
  by (relation "measure id") auto

definition str_int :: "int \<Rightarrow> string" where
  "str_int i = (if i < 0 then CHR ''-'' # str_nat (nat (- i)) else str_nat (nat i))"

text \<open>A Python string or \<^verbatim>\<open>None\<close> used as a condition: \<^verbatim>\<open>None\<close> and \<^verbatim>\<open>''\<close> are false.\<close>

definition truthy :: "string option \<Rightarrow> bool" where
  "truthy v = (case v of None \<Rightarrow> False | Some s \<Rightarrow> s \<noteq> [])"

text \<open>\<^verbatim>\<open>extra_specs.get('zonecfg:brand', ZONE_BRAND_SOLARIS)\<close>.\<close>

definition flavor_brand :: "flavor \<Rightarrow> string" where
  "flavor_brand fl =
     (case extra_specs fl ''zonecfg:brand'' of None \<Rightarrow> ZONE_BRAND_SOLARIS | Some b \<Rightarrow> b)"

definition get_flavor :: "nova_instance \<Rightarrow> flavor" where
  "get_flavor inst = instance_flavor inst"

text \<open>
  \<^verbatim>\<open>_validate_flavor\<close>: a kernel zone's memory must be a multiple of 256 MB. Python's
  \<^verbatim>\<open>%\<close> with a positive right operand is \<open>mod\<close> on \<open>int\<close>, and the \<^verbatim>\<open>if\<close> is taken when
  the remainder is not zero.
\<close>

definition MEMORY_ALIGNMENT_IN_MB :: int where
  "MEMORY_ALIGNMENT_IN_MB = 256"

definition validate_flavor :: "nova_instance \<Rightarrow> error + string" where
  "validate_flavor inst =
     (let fl = get_flavor inst; brand = flavor_brand fl in
      if brand = ZONE_BRAND_SOLARIS_KZ
      then (if memory_mb inst mod MEMORY_ALIGNMENT_IN_MB \<noteq> 0
            then Inl (MemoryAlignmentIncorrect (flavor_name fl) (str_int (memory_mb inst)) ''256'')
            else Inr brand)
      else Inr brand)"

section \<open>Sequencing, \<^verbatim>\<open>try\<close>/\<^verbatim>\<open>except\<close> and \<^verbatim>\<open>finally\<close>\<close>

text \<open>
  Statements in sequence: \<open>andthen m f\<close> runs \<open>m\<close> and, unless it raised, hands its
  value to \<open>f\<close>. The state reached is kept when an exception is raised, as in Python.
  \<open>catch m h\<close> is \<^verbatim>\<open>try: m except Exception as ex: h(ex)\<close>; \<open>swallow m\<close> is a handler
  that only logs; \<open>try_finally m fin\<close> runs \<open>fin\<close> on both exits, and an exception raised by
  \<open>fin\<close> replaces the outcome of \<open>m\<close>.
\<close>

definition ok :: "'a \<Rightarrow> 's \<Rightarrow> (error + 'a) \<times> 's" where
  "ok x s = (Inr x, s)"

definition raise :: "error \<Rightarrow> 's \<Rightarrow> (error + 'a) \<times> 's" where
  "raise e s = (Inl e, s)"

definition andthen ::
  "('s \<Rightarrow> (error + 'a) \<times> 's) \<Rightarrow> ('a \<Rightarrow> 's \<Rightarrow> (error + 'b) \<times> 's) \<Rightarrow> 's \<Rightarrow> (error + 'b) \<times> 's" where
  "andthen m f s = (case m s of (Inl e, s') \<Rightarrow> (Inl e, s') | (Inr x, s') \<Rightarrow> f x s')"

definition catch ::
  "('s \<Rightarrow> (error + 'a) \<times> 's) \<Rightarrow> (error \<Rightarrow> 's \<Rightarrow> (error + 'a) \<times> 's) \<Rightarrow> 's \<Rightarrow> (error + 'a) \<times> 's" where
  "catch m h s = (case m s of (Inl e, s') \<Rightarrow> h e s' | (Inr x, s') \<Rightarrow> (Inr x, s'))"

definition swallow :: "('s \<Rightarrow> (error + unit) \<times> 's) \<Rightarrow> 's \<Rightarrow> (error + unit) \<times> 's" where
  "swallow m = catch m (\<lambda>ex. ok ())"

definition try_finally ::
  "('s \<Rightarrow> (error + 'a) \<times> 's) \<Rightarrow> ('s \<Rightarrow> (error + unit) \<times> 's) \<Rightarrow> 's \<Rightarrow> (error + 'a) \<times> 's" where
  "try_finally m fin s =
     (case m s of
        (r, s') \<Rightarrow> (case fin s' of (Inl e, s'') \<Rightarrow> (Inl e, s'') | (Inr _, s'') \<Rightarrow> (r, s'')))"

text \<open>
  A driver method whose body no claim looks into is one opaque call: it is recorded in
  the trace under its name and raises when the world says so.
\<close>

definition helper :: "string \<Rightarrow> string list \<Rightarrow> world \<Rightarrow> (error + unit) \<times> world" where
  "helper m args = invoke (Helper m args)"

text \<open>
  A driver method that does nothing but write to the log, such as \<^verbatim>\<open>_unplug_vifs\<close>, is
  recorded in the trace, so that its place in the order of events can be observed, and
  never raises.
\<close>

definition mark :: "string \<Rightarrow> string list \<Rightarrow> world \<Rightarrow> (error + unit) \<times> world" where
  "mark m args w = (Inr (), w\<lparr>trace := trace w @ [Helper m args]\<rparr>)"

section \<open>\<^verbatim>\<open>spawn\<close>\<close>

text \<open>
  \<^verbatim>\<open>spawn\<close> validates the flavor first. What follows is kept at the granularity of the
  methods it calls: fetching and validating the image (or copying a raw image for a
  kernel zone), the directory for the system-configuration profiles, the config drive
  (a failure of \<^verbatim>\<open>make_drive\<close> is only logged), then, inside \<^verbatim>\<open>try\<close>, \<^verbatim>\<open>_create_config\<close>,
  \<^verbatim>\<open>_install\<close> or \<^verbatim>\<open>_attach\<close>, \<^verbatim>\<open>_power_on\<close> and the config-drive cleanup. On an exception
  it attempts \<^verbatim>\<open>_uninstall\<close> and \<^verbatim>\<open>_delete_config\<close> and re-raises; the profile directory
  is removed in \<^verbatim>\<open>finally\<close>. \<open>spawn_image\<close> returns whether \<^verbatim>\<open>install_image_path\<close> was set.
\<close>

definition spawn_image :: "nova_instance \<Rightarrow> string \<Rightarrow> string \<Rightarrow> world \<Rightarrow> (error + bool) \<times> world" where
  "spawn_image inst container_format brand =
     (if truthy (image_ref inst)
      then andthen (helper ''_fetch_image'' [name inst]) (\<lambda>_.
           if container_format = ''ovf''
           then andthen (helper ''_validate_image'' [name inst]) (\<lambda>_. ok True)
           else if brand \<noteq> ZONE_BRAND_SOLARIS_KZ
           then raise (ImageUnacceptable ''Raw devices are compatible only with kernel zones'')
           else andthen (helper ''create_instance_dir'' [name inst]) (\<lambda>_.
                andthen (catch (helper ''copy_file'' [name inst])
                           (\<lambda>ex. raise (ImageUnacceptable ''Could not copy image to instance path'')))
                  (\<lambda>_. ok False)))
      else ok False)"

definition spawn_configdrive :: "nova_instance \<Rightarrow> world \<Rightarrow> (error + unit) \<times> world" where
  "spawn_configdrive inst =
     (if config_drive inst
      then andthen (helper ''InstanceMetadata'' [name inst]) (\<lambda>_.
           andthen (helper ''ConfigDriveBuilder'' [name inst]) (\<lambda>_.
           swallow (helper ''make_drive'' [name inst])))
      else ok ())"

definition spawn_try :: "nova_instance \<Rightarrow> bool \<Rightarrow> bool \<Rightarrow> world \<Rightarrow> (error + unit) \<times> world" where
  "spawn_try inst install_image_path power_on =
     andthen (helper ''_create_config'' [name inst]) (\<lambda>_.
     andthen (if install_image_path then helper ''_install'' [name inst]
              else helper ''_attach'' [name inst]) (\<lambda>_.
     andthen (if power_on then helper ''_power_on'' [name inst] else ok ()) (\<lambda>_.
     if config_drive inst
     then andthen (ask_bool (Helper ''_waitfor_copydone'' [name inst])) (\<lambda>unset.
          if unset then helper ''_unset_configdrive'' [name inst] else ok ())
     else ok ())))"

definition spawn_cleanup :: "nova_instance \<Rightarrow> error \<Rightarrow> world \<Rightarrow> (error + unit) \<times> world" where
  "spawn_cleanup inst ex =
     andthen (swallow (helper ''_uninstall'' [name inst])) (\<lambda>_.
     andthen (swallow (helper ''_delete_config'' [name inst])) (\<lambda>_.
     raise ex))"

definition spawn :: "nova_instance \<Rightarrow> string \<Rightarrow> bool \<Rightarrow> world \<Rightarrow> (error + unit) \<times> world" where
  "spawn inst container_format power_on =
     (case validate_flavor inst of
        Inl e \<Rightarrow> raise e
      | Inr brand \<Rightarrow>
          andthen (spawn_image inst container_format brand) (\<lambda>install_image_path.
          andthen (helper ''tempfile.mkdtemp'' []) (\<lambda>_.
          andthen (helper ''os.chmod'' []) (\<lambda>_.
          andthen (spawn_configdrive inst) (\<lambda>_.
          try_finally (catch (spawn_try inst install_image_path power_on) (spawn_cleanup inst))
                  (helper ''shutil.rmtree'' []))))))"

section \<open>The zone configuration behind RAD\<close>

text \<open>
  The zone object's configuration methods. They are calls like any other (recorded,
  and raising when the world says so); when they do not raise they act on the
  configuration as \<^verbatim>\<open>zonemgr(3RAD)\<close> documents it: \<^verbatim>\<open>editConfig\<close> takes a snapshot of
  the committed configuration, the mutators change the snapshot, \<^verbatim>\<open>commitConfig\<close> makes
  the snapshot the committed configuration and \<^verbatim>\<open>cancelConfig\<close> discards it. A mutator
  outside an edit session is refused (\<open>NOT_EDITING\<close>), as is a second \<^verbatim>\<open>editConfig\<close>
  (\<open>ALREADY_EDITING\<close>). A call that raises changes nothing.

  A filter \<^verbatim>\<open>Resource(type, props)\<close> selects the resources of that type that carry all
  of \<open>props\<close>; \<^verbatim>\<open>props=None\<close> is the empty list.
\<close>

definition working_copy :: "string \<Rightarrow> world \<Rightarrow> resource list" where
  "working_copy z w = (case pending w z of Some c \<Rightarrow> c | None \<Rightarrow> config w z)"

definition matches :: "resource \<Rightarrow> resource \<Rightarrow> bool" where
  "matches f r = (rtype r = rtype f \<and> list_all (\<lambda>p. p \<in> set (rprops r)) (rprops f))"

fun set_property :: "property \<Rightarrow> property list \<Rightarrow> property list" where
  "set_property p [] = [p]"
| "set_property p (q # qs) = (if pname q = pname p then p # qs else q # set_property p qs)"

definition set_properties :: "property list \<Rightarrow> resource \<Rightarrow> resource" where
  "set_properties ps r = Resource (rtype r) (fold set_property ps (rprops r))"

definition clear_properties :: "string list \<Rightarrow> resource \<Rightarrow> resource" where
  "clear_properties ns r =
     Resource (rtype r)
       (map (\<lambda>p. if pname p \<in> set ns then Property (pname p) [] else p) (rprops r))"

fun update_first :: "('a \<Rightarrow> bool) \<Rightarrow> ('a \<Rightarrow> 'a) \<Rightarrow> 'a list \<Rightarrow> 'a list option" where
  "update_first P f [] = None"
| "update_first P f (x # xs) =
     (if P x then Some (f x # xs)
      else (case update_first P f xs of None \<Rightarrow> None | Some ys \<Rightarrow> Some (x # ys)))"

definition set_pending :: "string \<Rightarrow> resource list option \<Rightarrow> world \<Rightarrow> world" where
  "set_pending z c w = w\<lparr>pending := (pending w)(z := c)\<rparr>"

text \<open>What a configuration call that was not made to raise does to the zone.\<close>

fun backend :: "call \<Rightarrow> world \<Rightarrow> (error + unit) \<times> world" where
  "backend (EditConfig z) w =
     (case pending w z of
        None \<Rightarrow> (Inr (), set_pending z (Some (config w z)) w)
      | Some c \<Rightarrow> (Inl (ObjectError ''ALREADY_EDITING''), w))"
| "backend (CommitConfig z) w =
     (case pending w z of
        None \<Rightarrow> (Inl (ObjectError ''NOT_EDITING''), w)
      | Some c \<Rightarrow> (Inr (), set_pending z None (w\<lparr>config := (config w)(z := c)\<rparr>)))"
| "backend (CancelConfig z) w = (Inr (), set_pending z None w)"
| "backend (AddResource z r) w =
     (case pending w z of
        None \<Rightarrow> (Inl (ObjectError ''NOT_EDITING''), w)
      | Some c \<Rightarrow> (Inr (), set_pending z (Some (c @ [r])) w))"
| "backend (SetResourceProperties z f ps) w =
     (case pending w z of
        None \<Rightarrow> (Inl (ObjectError ''NOT_EDITING''), w)
      | Some c \<Rightarrow>
          (case update_first (matches f) (set_properties ps) c of
             None \<Rightarrow> (Inl (ObjectError ''RESOURCE_NOT_FOUND''), w)
           | Some c' \<Rightarrow> (Inr (), set_pending z (Some c') w)))"
| "backend (RemoveResources z f) w =
     (case pending w z of
        None \<Rightarrow> (Inl (ObjectError ''NOT_EDITING''), w)
      | Some c \<Rightarrow> (Inr (), set_pending z (Some (filter (\<lambda>r. \<not> matches f r) c)) w))"
| "backend (ClearResourceProperties z f ns) w =
     (case pending w z of
        None \<Rightarrow> (Inl (ObjectError ''NOT_EDITING''), w)
      | Some c \<Rightarrow>
          (case update_first (matches f) (clear_properties ns) c of
             None \<Rightarrow> (Inl (ObjectError ''RESOURCE_NOT_FOUND''), w)
           | Some c' \<Rightarrow> (Inr (), set_pending z (Some c') w)))"
| "backend c w = (Inr (), w)"

definition zone_call :: "call \<Rightarrow> world \<Rightarrow> (error + unit) \<times> world" where
  "zone_call c = andthen (invoke c) (\<lambda>_. backend c)"

text \<open>
  The two reads: \<^verbatim>\<open>getResources(filter)\<close> and \<^verbatim>\<open>getResourceProperties(filter, names)\<close>.
  They see the snapshot while a session is open. The second one refuses when no resource
  matches the filter.
\<close>

definition getResources :: "string \<Rightarrow> resource \<Rightarrow> world \<Rightarrow> (error + resource list) \<times> world" where
  "getResources z f =
     andthen (invoke (GetResources z f)) (\<lambda>_ w.
     (Inr (filter (matches f) (working_copy z w)), w))"

definition getResourceProperties ::
  "string \<Rightarrow> resource \<Rightarrow> string list \<Rightarrow> world \<Rightarrow> (error + property list) \<times> world" where
  "getResourceProperties z f ns =
     andthen (invoke (GetResourceProperties z f ns)) (\<lambda>_ w.
     case find (matches f) (working_copy z w) of
       None \<Rightarrow> (Inl (ObjectError ''RESOURCE_NOT_FOUND''), w)
     | Some r \<Rightarrow> (Inr (filter (\<lambda>p. pname p \<in> set ns) (rprops r)), w))"

section \<open>\<^verbatim>\<open>utils.lookup_resource\<close> and \<^verbatim>\<open>utils.lookup_resource_property\<close>\<close>

text \<open>
  Both turn \<^verbatim>\<open>rad.client.ObjectError\<close> into \<^verbatim>\<open>None\<close>, let every other exception through,
  and return the first element of the answer, or \<^verbatim>\<open>None\<close> when the answer is empty.
\<close>

definition lookup_resource :: "string \<Rightarrow> string \<Rightarrow> world \<Rightarrow> (error + resource option) \<times> world" where
  "lookup_resource zone resource =
     catch (andthen (getResources zone (Resource resource [])) (\<lambda>val.
            ok (case val of [] \<Rightarrow> None | r # _ \<Rightarrow> Some r)))
           (\<lambda>ex. case ex of ObjectError c \<Rightarrow> ok None | _ \<Rightarrow> raise ex)"

definition lookup_resource_property ::
  "string \<Rightarrow> string \<Rightarrow> string \<Rightarrow> property list \<Rightarrow> world \<Rightarrow> (error + string option) \<times> world" where
  "lookup_resource_property zone resource prop filt =
     catch (andthen (getResourceProperties zone (Resource resource filt) [prop]) (\<lambda>val.
            ok (case val of [] \<Rightarrow> None | p # _ \<Rightarrow> Some (pvalue p))))
           (\<lambda>ex. case ex of ObjectError c \<Rightarrow> ok None | _ \<Rightarrow> raise ex)"

section \<open>\<^verbatim>\<open>ZoneConfig\<close>, the context manager\<close>

text \<open>
  A \<^verbatim>\<open>ZoneConfig\<close> object holds the zone (\<open>zc_zone\<close>, a handle on its name) and the
  flag \<^verbatim>\<open>editing\<close>.

  \<^verbatim>\<open>__enter__\<close> calls \<^verbatim>\<open>editConfig\<close> and sets the flag. Its \<^verbatim>\<open>except\<close> branch evaluates
  \<^verbatim>\<open>utils.utils.zonemgr_strerror(ex)\<close>; the module \<^verbatim>\<open>utils\<close> has no attribute \<^verbatim>\<open>utils\<close>, so
  what leaves \<^verbatim>\<open>__enter__\<close> when \<^verbatim>\<open>editConfig\<close> raises is an \<^verbatim>\<open>AttributeError\<close>.

  \<^verbatim>\<open>__exit__\<close> receives the exception of the body, if any. With an exception and the flag
  set it calls \<^verbatim>\<open>cancelConfig\<close> and re-raises with a bare \<^verbatim>\<open>raise\<close>; otherwise it calls
  \<^verbatim>\<open>commitConfig\<close>, and when that raises, \<^verbatim>\<open>cancelConfig\<close>, and re-raises the commit's
  exception. It returns \<^verbatim>\<open>None\<close>, so it never suppresses the body's exception.
\<close>

record zone_config =
  zc_zone :: string
  editing :: bool

definition ZoneConfig_init :: "string \<Rightarrow> zone_config" where
  "ZoneConfig_init z = \<lparr>zc_zone = z, editing = False\<rparr>"

definition ZoneConfig_enter :: "zone_config \<Rightarrow> world \<Rightarrow> (error + zone_config) \<times> world" where
  "ZoneConfig_enter self =
     catch (andthen (zone_call (EditConfig (zc_zone self))) (\<lambda>_. ok (self\<lparr>editing := True\<rparr>)))
           (\<lambda>ex. raise (AttributeError ''module utils has no attribute utils''))"

definition ZoneConfig_exit :: "zone_config \<Rightarrow> error option \<Rightarrow> world \<Rightarrow> (error + unit) \<times> world" where
  "ZoneConfig_exit self exc =
     (case exc of
        Some e \<Rightarrow>
          if editing self
          then andthen (zone_call (CancelConfig (zc_zone self))) (\<lambda>_. raise e)
          else catch (zone_call (CommitConfig (zc_zone self)))
                 (\<lambda>ex. andthen (zone_call (CancelConfig (zc_zone self))) (\<lambda>_. raise ex))
      | None \<Rightarrow>
          catch (zone_call (CommitConfig (zc_zone self)))
            (\<lambda>ex. andthen (zone_call (CancelConfig (zc_zone self))) (\<lambda>_. raise ex)))"

text \<open>
  \<^verbatim>\<open>with ZoneConfig(zone) as zc: body\<close>. The body does not run when \<^verbatim>\<open>__enter__\<close> raises.
  An exception of \<^verbatim>\<open>__exit__\<close> replaces the body's; otherwise the body's outcome stands.
\<close>

definition with_ZoneConfig ::
  "string \<Rightarrow> (zone_config \<Rightarrow> world \<Rightarrow> (error + 'a) \<times> world) \<Rightarrow> world \<Rightarrow> (error + 'a) \<times> world" where
  "with_ZoneConfig z body w =
     (case ZoneConfig_enter (ZoneConfig_init z) w of
        (Inl e, w1) \<Rightarrow> (Inl e, w1)
      | (Inr zc, w1) \<Rightarrow>
          (case body zc w1 of
             (Inl e, w2) \<Rightarrow>
               (case ZoneConfig_exit zc (Some e) w2 of
                  (Inl e', w3) \<Rightarrow> (Inl e', w3)
                | (Inr _, w3) \<Rightarrow> (Inl e, w3))
           | (Inr x, w2) \<Rightarrow>
               (case ZoneConfig_exit zc None w2 of
                  (Inl e', w3) \<Rightarrow> (Inl e', w3)
                | (Inr _, w3) \<Rightarrow> (Inr x, w3))))"

text \<open>
  The methods of \<^verbatim>\<open>ZoneConfig\<close>. Their \<^verbatim>\<open>except\<close> branches log and re-raise, except for
  \<^verbatim>\<open>addresource\<close> with \<^verbatim>\<open>ignore_exists\<close>, which answers \<open>RESOURCE_ALREADY_EXISTS\<close> by setting
  the properties on the existing resource.
\<close>

definition setprop :: "zone_config \<Rightarrow> string \<Rightarrow> string \<Rightarrow> string \<Rightarrow> world \<Rightarrow> (error + unit) \<times> world" where
  "setprop self resource prop v =
     andthen (lookup_resource_property (zc_zone self) resource prop []) (\<lambda>current.
     if current \<noteq> None \<and> current = Some v then ok ()
     else if current = None
     then zone_call (AddResource (zc_zone self) (Resource resource [Property prop v]))
     else zone_call (SetResourceProperties (zc_zone self) (Resource resource []) [Property prop v]))"

definition addresource ::
  "zone_config \<Rightarrow> string \<Rightarrow> property list \<Rightarrow> bool \<Rightarrow> world \<Rightarrow> (error + unit) \<times> world" where
  "addresource self resource props ignore_exists =
     catch (zone_call (AddResource (zc_zone self) (Resource resource props)))
       (\<lambda>ex. if ignore_exists \<and> ex = ObjectError ''RESOURCE_ALREADY_EXISTS''
             then zone_call (SetResourceProperties (zc_zone self) (Resource resource []) props)
             else raise ex)"

definition removeresources :: "zone_config \<Rightarrow> string \<Rightarrow> property list \<Rightarrow> world \<Rightarrow> (error + unit) \<times> world" where
  "removeresources self resource props =
     zone_call (RemoveResources (zc_zone self) (Resource resource props))"

definition clear_resource_props ::
  "zone_config \<Rightarrow> string \<Rightarrow> string list \<Rightarrow> world \<Rightarrow> (error + unit) \<times> world" where
  "clear_resource_props self resource props =
     zone_call (ClearResourceProperties (zc_zone self) (Resource resource []) props)"

text \<open>
  The body of an edit session, as the statements it can consist of: calls of the four
  methods, a direct \<^verbatim>\<open>zc.zone.setResourceProperties\<close> (as \<^verbatim>\<open>_set_boot_device\<close> does), and
  any other statement that raises. The statements run in order up to the first exception.
\<close>

datatype statement =
    Setprop string string string
  | Addresource string "property list" bool
  | Removeresources string "property list"
  | Clear_resource_props string "string list"
  | Zone_setResourceProperties resource "property list"
  | Raise error

fun exec :: "statement \<Rightarrow> zone_config \<Rightarrow> world \<Rightarrow> (error + unit) \<times> world" where
  "exec (Setprop r p v) zc = setprop zc r p v"
| "exec (Addresource r ps i) zc = addresource zc r ps i"
| "exec (Removeresources r ps) zc = removeresources zc r ps"
| "exec (Clear_resource_props r ns) zc = clear_resource_props zc r ns"
| "exec (Zone_setResourceProperties f ps) zc = zone_call (SetResourceProperties (zc_zone zc) f ps)"
| "exec (Raise e) zc = raise e"

fun run :: "statement list \<Rightarrow> zone_config \<Rightarrow> world \<Rightarrow> (error + unit) \<times> world" where
  "run [] zc = ok ()"
| "run (st # sts) zc = andthen (exec st zc) (\<lambda>_. run sts zc)"

section \<open>Zones by name and their power state\<close>

text \<open>
  \<^verbatim>\<open>_get_zone_by_name\<close> asks RAD for the zone object: \<^verbatim>\<open>NotFoundError\<close> becomes \<^verbatim>\<open>None\<close>,
  any other exception propagates. The zone object is a handle on the zone's name, so it
  is modelled by that name; \<^verbatim>\<open>zone.state\<close> and \<^verbatim>\<open>zone.brand\<close> are remote property
  reads, hence calls.
\<close>

definition get_zone_by_name :: "string \<Rightarrow> world \<Rightarrow> (error + string option) \<times> world" where
  "get_zone_by_name n w =
     (case invoke (GetZone n) w of
        (Inl e, w') \<Rightarrow> if e = NotFoundError then (Inr None, w') else (Inl e, w')
      | (Inr _, w') \<Rightarrow> (Inr (Some n), w'))"

datatype power_state = NOSTATE | RUNNING | SHUTDOWN

definition ZONE_STATE_RUNNING :: string where
  "ZONE_STATE_RUNNING = ''running''"

text \<open>The dictionary \<^verbatim>\<open>SOLARISZONES_POWER_STATE\<close>.\<close>

definition SOLARISZONES_POWER_STATE :: "string \<rightharpoonup> power_state" where
  "SOLARISZONES_POWER_STATE =
     [''configured'' \<mapsto> NOSTATE, ''incomplete'' \<mapsto> NOSTATE, ''unavailable'' \<mapsto> NOSTATE,
      ''installed'' \<mapsto> SHUTDOWN, ''ready'' \<mapsto> RUNNING, ''running'' \<mapsto> RUNNING,
      ''shutting_down'' \<mapsto> RUNNING, ''down'' \<mapsto> RUNNING, ''mounted'' \<mapsto> NOSTATE]"

definition get_state :: "string \<Rightarrow> world \<Rightarrow> (error + power_state) \<times> world" where
  "get_state zone =
     andthen (ask_text (ZoneState zone)) (\<lambda>s.
     case SOLARISZONES_POWER_STATE s of None \<Rightarrow> raise (KeyError s) | Some p \<Rightarrow> ok p)"

section \<open>\<^verbatim>\<open>destroy\<close>\<close>

text \<open>
  Methods that change the instance object work on the pair of the instance and the
  world. \<open>lift\<close> runs a method that only touches the world.
\<close>

definition lift ::
  "(world \<Rightarrow> (error + 'a) \<times> world) \<Rightarrow> nova_instance \<times> world \<Rightarrow> (error + 'a) \<times> nova_instance \<times> world" where
  "lift m s = (case m (snd s) of (r, w') \<Rightarrow> (r, (fst s, w')))"

definition RESIZE_REVERTING :: string where
  "RESIZE_REVERTING = ''resize_reverting''"

definition RESIZED :: string where
  "RESIZED = ''resized''"

definition VNC_CONSOLE_BASE_FMRI :: string where
  "VNC_CONSOLE_BASE_FMRI = ''svc:/application/openstack/nova/zone-vnc-console''"

text \<open>\<^verbatim>\<open>_has_vnc_console_service\<close>: whether \<^verbatim>\<open>svcs\<close> on the console service succeeds.\<close>

definition has_vnc_console_service :: "nova_instance \<Rightarrow> world \<Rightarrow> (error + bool) \<times> world" where
  "has_vnc_console_service inst =
     catch (andthen (invoke (Execute [''/usr/bin/svcs'', ''-H'', ''-o'', ''state'',
                                       VNC_CONSOLE_BASE_FMRI @ '':'' @ name inst]))
              (\<lambda>_. ok True))
           (\<lambda>ex. ok False)"

text \<open>
  The first \<^verbatim>\<open>try\<close> of \<^verbatim>\<open>destroy\<close>: the console service is disabled and deleted when
  there is one, and any exception is dropped.
\<close>

definition destroy_console :: "nova_instance \<Rightarrow> world \<Rightarrow> (error + unit) \<times> world" where
  "destroy_console inst =
     swallow (andthen (has_vnc_console_service inst) (\<lambda>has.
              if has
              then andthen (helper ''_disable_vnc_console_service'' [name inst]) (\<lambda>_.
                   helper ''_delete_vnc_console_service'' [name inst])
              else ok ()))"

text \<open>
  The second \<^verbatim>\<open>try\<close>: power off a running zone, uninstall a shut-down one, delete the
  configuration of an unconfigured one, remove the config drive (only \<^verbatim>\<open>OSError\<close> is
  caught there) and the instance directory. An exception is logged and dropped.
\<close>

definition remove_configdrive :: "nova_instance \<Rightarrow> world \<Rightarrow> (error + unit) \<times> world" where
  "remove_configdrive inst =
     (if config_drive inst
      then catch (helper ''os.remove'' [''/var/share/nova/configdrives/config_drive-'' @ name inst])
                 (\<lambda>ex. case ex of OSError m \<Rightarrow> ok () | _ \<Rightarrow> raise ex)
      else ok ())"

definition destroy_zone :: "nova_instance \<Rightarrow> string \<Rightarrow> world \<Rightarrow> (error + unit) \<times> world" where
  "destroy_zone inst zone =
     swallow (
       andthen (get_state zone) (\<lambda>s1.
       andthen (if s1 = RUNNING then helper ''_power_off'' [name inst, ''HARD''] else ok ()) (\<lambda>_.
       andthen (get_state zone) (\<lambda>s2.
       andthen (if s2 = SHUTDOWN then helper ''_uninstall'' [name inst] else ok ()) (\<lambda>_.
       andthen (get_state zone) (\<lambda>s3.
       andthen (if s3 = NOSTATE then helper ''_delete_config'' [name inst] else ok ()) (\<lambda>_.
       andthen (remove_configdrive inst) (\<lambda>_.
       helper ''delete_instance_dir'' [name inst]))))))))"

text \<open>
  The last loop: for each of the two tags, a volume recorded in the system metadata is
  deleted and the tag removed; when the deletion raises, the tag stays.
\<close>

definition delete_tagged_volume ::
  "string \<Rightarrow> nova_instance \<times> world \<Rightarrow> (error + unit) \<times> nova_instance \<times> world" where
  "delete_tagged_volume tag s =
     (case system_metadata (fst s) tag of
        None \<Rightarrow> ok () s
      | Some volid \<Rightarrow>
          if volid = [] then ok () s
          else (case invoke (VolumeDelete volid) (snd s) of
                  (Inl e, w') \<Rightarrow> (Inr (), (fst s, w'))
                | (Inr _, w') \<Rightarrow>
                    (Inr (), ((fst s)\<lparr>system_metadata := (system_metadata (fst s))(tag := None)\<rparr>, w'))))"

definition destroy_volumes ::
  "nova_instance \<times> world \<Rightarrow> (error + unit) \<times> nova_instance \<times> world" where
  "destroy_volumes =
     andthen (delete_tagged_volume ''old_instance_volid'') (\<lambda>_.
     delete_tagged_volume ''new_instance_volid'')"

text \<open>
  \<^verbatim>\<open>destroy\<close>. The first test reads \<^verbatim>\<open>instance.system_metadata['old_vm_state']\<close> with a
  subscript, which raises \<^verbatim>\<open>KeyError\<close> on a missing key, and only when the task state is
  \<^verbatim>\<open>resize_reverting\<close> (the right operand of \<^verbatim>\<open>and\<close>). The evacuation test moves the
  instance back to the host it came from, saves it and returns.
\<close>

definition destroy_evacuated ::
  "string \<Rightarrow> nova_instance \<times> world \<Rightarrow> (error + unit) \<times> nova_instance \<times> world" where
  "destroy_evacuated evac_from s =
     lift (invoke InstanceSave)
       ((fst s)\<lparr>host := evac_from, node := evac_from,
                 system_metadata := (system_metadata (fst s))(''evac_from'' := None)\<rparr>, snd s)"

definition destroy_rest ::
  "nova_instance \<times> world \<Rightarrow> (error + unit) \<times> nova_instance \<times> world" where
  "destroy_rest s =
     (let inst = fst s in
      andthen (lift (destroy_console inst)) (\<lambda>_.
      andthen (lift (get_zone_by_name (name inst))) (\<lambda>zone.
      case zone of
        None \<Rightarrow> ok ()
      | Some z \<Rightarrow>
          andthen (lift (destroy_zone inst z)) (\<lambda>_.
          if task_state inst = Some RESIZE_REVERTING then ok () else destroy_volumes))) s)"

definition destroy_unless_evacuated ::
  "nova_instance \<times> world \<Rightarrow> (error + unit) \<times> nova_instance \<times> world" where
  "destroy_unless_evacuated s =
     (case system_metadata (fst s) ''evac_from'' of
        None \<Rightarrow> destroy_rest s
      | Some evac_from \<Rightarrow>
          if task_state (fst s) = None then destroy_evacuated evac_from s
          else destroy_rest s)"

definition destroy :: "nova_instance \<times> world \<Rightarrow> (error + unit) \<times> nova_instance \<times> world" where
  "destroy s =
     (if task_state (fst s) = Some RESIZE_REVERTING
      then (case system_metadata (fst s) ''old_vm_state'' of
              None \<Rightarrow> raise (KeyError ''old_vm_state'') s
            | Some old \<Rightarrow> if old = RESIZED then ok () s else destroy_unless_evacuated s)
      else destroy_unless_evacuated s)"

section \<open>Observing a run\<close>

text \<open>
  \<open>calls_since w w'\<close> are the calls issued on the way from \<open>w\<close> to \<open>w'\<close>. \<open>is_commit\<close>
  and \<open>is_mutation\<close> classify calls on the zone configuration.
\<close>

definition calls_since :: "world \<Rightarrow> world \<Rightarrow> call list" where
  "calls_since w w' = drop (length (trace w)) (trace w')"

fun is_commit :: "call \<Rightarrow> bool" where
  "is_commit (CommitConfig z) = True"
| "is_commit c = False"

fun is_mutation :: "call \<Rightarrow> bool" where
  "is_mutation (AddResource z r) = True"
| "is_mutation (SetResourceProperties z f ps) = True"
| "is_mutation (RemoveResources z f) = True"
| "is_mutation (ClearResourceProperties z f ns) = True"
| "is_mutation c = False"

text \<open>
  \<open>edits w w'\<close>: on the way from \<open>w\<close> to \<open>w'\<close> the committed configurations and the
  behaviour of the collaborators stayed as they were, and no \<^verbatim>\<open>commitConfig\<close> was called.
\<close>

definition edits :: "world \<Rightarrow> world \<Rightarrow> bool" where
  "edits w w' = (config w' = config w \<and> fails w' = fails w \<and>
     (\<exists>cs. trace w' = trace w @ cs \<and> \<not> list_ex is_commit cs))"

section \<open>\<^verbatim>\<open>suspend\<close>\<close>

text \<open>\<^verbatim>\<open>os.path.join\<close> of two components on a POSIX system.\<close>

definition os_path_join :: "string \<Rightarrow> string \<Rightarrow> string" where
  "os_path_join a b =
     (if b \<noteq> [] \<and> hd b = CHR ''/'' then b
      else if a = [] \<or> last a = CHR ''/'' then a @ b
      else a @ ''/'' @ b)"

definition suspend_path :: "world \<Rightarrow> string" where
  "suspend_path w = os_path_join (zones_suspend_path w) ''%{zonename}''"

text \<open>\<^verbatim>\<open>_set_suspend\<close> adds the \<open>suspend\<close> resource with the path, in an edit session.\<close>

definition set_suspend :: "nova_instance \<Rightarrow> world \<Rightarrow> (error + unit) \<times> world" where
  "set_suspend inst =
     andthen (get_zone_by_name (name inst)) (\<lambda>z.
     case z of
       None \<Rightarrow> raise (InstanceNotFound (name inst))
     | Some zone \<Rightarrow> (\<lambda>w.
         with_ZoneConfig zone
           (\<lambda>zc. addresource zc ''suspend'' [Property ''path'' (suspend_path w)] False) w))"

text \<open>
  The first part of the \<^verbatim>\<open>try\<close> block of \<^verbatim>\<open>suspend\<close>: the \<open>suspend\<close> resource is added when
  there is none, and replaced when its path is not the configured one.
\<close>

definition ensure_suspend_resource :: "nova_instance \<Rightarrow> string \<Rightarrow> world \<Rightarrow> (error + unit) \<times> world" where
  "ensure_suspend_resource inst zone =
     andthen (lookup_resource zone ''suspend'') (\<lambda>res.
     case res of
       None \<Rightarrow> set_suspend inst
     | Some r \<Rightarrow>
         andthen (lookup_resource_property zone ''suspend'' ''path'' []) (\<lambda>p w.
         if p \<noteq> Some (suspend_path w)
         then andthen (with_ZoneConfig zone (\<lambda>zc. removeresources zc ''suspend'' []))
                (\<lambda>_. set_suspend inst) w
         else ok () w))"

text \<open>
  \<^verbatim>\<open>suspend\<close>: the zone must exist, be a kernel zone and be running. Then, inside \<^verbatim>\<open>try\<close>,
  the statements in the order of the source: the suspend resource, \<^verbatim>\<open>zone.suspend()\<close>,
  \<^verbatim>\<open>self._unplug_vifs(instance)\<close>. Any exception of the block is wrapped into
  \<^verbatim>\<open>InstanceSuspendFailure\<close>.
\<close>

definition suspend_try :: "nova_instance \<Rightarrow> string \<Rightarrow> world \<Rightarrow> (error + unit) \<times> world" where
  "suspend_try inst zone =
     andthen (ensure_suspend_resource inst zone) (\<lambda>_.
     andthen (invoke (ZoneSuspend zone)) (\<lambda>_.
     mark ''_unplug_vifs'' [name inst]))"

definition suspend :: "nova_instance \<Rightarrow> world \<Rightarrow> (error + unit) \<times> world" where
  "suspend inst =
     andthen (get_zone_by_name (name inst)) (\<lambda>z.
     case z of
       None \<Rightarrow> raise (InstanceNotFound (name inst))
     | Some zone \<Rightarrow>
         andthen (ask_text (ZoneBrand zone)) (\<lambda>brand.
         if brand \<noteq> ZONE_BRAND_SOLARIS_KZ
         then raise (InstanceSuspendFailure (Reason ''branded zones do not currently support suspend''))
         else andthen (get_state zone) (\<lambda>st.
              if st \<noteq> RUNNING
              then raise (InstanceSuspendFailure (Reason ''Instance is not running.''))
              else catch (suspend_try inst zone)
                     (\<lambda>ex. raise (InstanceSuspendFailure (Strerror ex))))))"

text \<open>
  \<open>precedes a b cs\<close>: in the list of calls \<open>cs\<close>, some \<open>a\<close> comes before some \<open>b\<close>.
\<close>

fun precedes :: "'a \<Rightarrow> 'a \<Rightarrow> 'a list \<Rightarrow> bool" where
  "precedes a b [] = False"
| "precedes a b (c # cs) = (if c = a then b \<in> set cs else precedes a b cs)"

text \<open>
  \<open>adds P w w'\<close>: the trace of \<open>w'\<close> is the trace of \<open>w\<close> followed by calls that all
  satisfy \<open>P\<close>. \<open>is_helper\<close> holds of the calls of driver methods kept opaque.
\<close>

definition adds :: "(call \<Rightarrow> bool) \<Rightarrow> world \<Rightarrow> world \<Rightarrow> bool" where
  "adds P w w' = (\<exists>cs. trace w' = trace w @ cs \<and> list_all P cs)"

fun is_helper :: "call \<Rightarrow> bool" where
  "is_helper (Helper m a) = True"
| "is_helper c = False"

section \<open>Block devices and connection descriptors\<close>

text \<open>
  An entry of the block device mapping pairs a mount device with the connection
  descriptor of its volume. \<^verbatim>\<open>block_device_info\<close> may be \<^verbatim>\<open>None\<close>, and so may its
  \<open>block_device_mapping\<close>.
\<close>

record bdm_entry =
  mount_device :: string
  entry_connection_info :: connection_info

record block_device_info =
  block_device_mapping :: "bdm_entry list option"

text \<open>Python's \<^verbatim>\<open>str\<close> of such a value.\<close>

fun quote_all :: "string list \<Rightarrow> string" where
  "quote_all [] = []"
| "quote_all [x] = [CHR 0x27] @ x @ [CHR 0x27]"
| "quote_all (x # xs) = [CHR 0x27] @ x @ [CHR 0x27] @ '', '' @ quote_all xs"

fun py_str :: "pyval \<Rightarrow> string" where
  "py_str (PStr s) = s"
| "py_str (PInt i) = str_int i"
| "py_str (PStrs xs) = ''['' @ quote_all xs @ '']''"
| "py_str (PInts xs) = ''['' @ concat (map (\<lambda>i. str_int i) (take 1 xs))
                            @ concat (map (\<lambda>i. '', '' @ str_int i) (drop 1 xs)) @ '']''"

section \<open>\<^verbatim>\<open>migrate_disk_and_power_off\<close>\<close>

text \<open>\<^verbatim>\<open>s.rpartition('/')[2]\<close>: what follows the last slash, or all of \<open>s\<close>.\<close>

definition after_last_slash :: "string \<Rightarrow> string" where
  "after_last_slash s = rev (takeWhile (\<lambda>c. c \<noteq> CHR ''/'') (rev s))"

text \<open>The \<^verbatim>\<open>for\<close> loop that looks for the root device among the mappings.\<close>

fun find_root_ci :: "string \<Rightarrow> bdm_entry list \<Rightarrow> connection_info option" where
  "find_root_ci rootmp [] = None"
| "find_root_ci rootmp (entry # bmap) =
     (if after_last_slash (mount_device entry) = rootmp then Some (entry_connection_info entry)
      else find_root_ci rootmp bmap)"

text \<open>
  The id of the root volume: for iSCSI \<^verbatim>\<open>root_ci['data']['volume_id']\<close> and, on
  \<^verbatim>\<open>KeyError\<close>, \<^verbatim>\<open>root_ci.get('serial')\<close>; otherwise \<^verbatim>\<open>root_ci['serial']\<close>.
\<close>

definition root_volume_id :: "connection_info \<Rightarrow> error + string option" where
  "root_volume_id root_ci =
     (if driver_volume_type root_ci = ''iscsi''
      then (case data root_ci of
              None \<Rightarrow> Inr (serial root_ci)
            | Some d \<Rightarrow> (case d ''volume_id'' of
                           None \<Rightarrow> Inr (serial root_ci)
                         | Some v \<Rightarrow> Inr (Some (py_str v))))
      else (case serial root_ci of None \<Rightarrow> Inl (KeyError ''serial'') | Some v \<Rightarrow> Inr (Some v)))"

text \<open>Time passing (\<^verbatim>\<open>greenthread.sleep\<close>) is recorded and never raises.\<close>

definition sleep :: "nat \<Rightarrow> world \<Rightarrow> world" where
  "sleep n w = w\<lparr>trace := trace w @ [Sleep n]\<rparr>"

text \<open>
  The polling loop \<^verbatim>\<open>while True\<close>: it ends when the volume service raises or reports a
  status other than \<open>creating\<close>, and otherwise runs on. \<open>None\<close> is a loop that never ends.
\<close>

partial_function (option) wait_while_creating ::
  "string \<Rightarrow> world \<Rightarrow> ((error + volume_rec) \<times> world) option" where
  "wait_while_creating vid w =
     (case ask_volume (VolumeGet vid) w of
        (Inl e, w1) \<Rightarrow> Some (Inl e, w1)
      | (Inr v, w1) \<Rightarrow>
          if status v \<noteq> ''creating'' then Some (Inr v, w1)
          else wait_while_creating vid (sleep 1 w1))"

text \<open>\<^verbatim>\<open>_cleanup_migrate_disk\<close> deletes the new volume; a failure is only logged.\<close>

definition cleanup_migrate_disk :: "volume_rec \<Rightarrow> world \<Rightarrow> (error + unit) \<times> world" where
  "cleanup_migrate_disk v = swallow (invoke (VolumeDelete (vol_id v)))"

text \<open>
  The part of \<^verbatim>\<open>migrate_disk_and_power_off\<close> after the three checks, up to the polling
  loop: power off, find the root volume, clone it, record both ids in the system
  metadata. \<open>Inr None\<close> is the early \<^verbatim>\<open>return disk_info\<close> (with \<^verbatim>\<open>disk_info = None\<close>) and also
  the case in which no disk work is needed; \<open>Inr (Some v)\<close> carries the new volume.
\<close>

definition clone_root_volume ::
  "bool \<Rightarrow> string \<Rightarrow> block_device_info option \<Rightarrow> nova_instance \<times> world
     \<Rightarrow> (error + volume_rec option) \<times> nova_instance \<times> world" where
  "clone_root_volume samehost brand bdi s =
     (case bdi of
        None \<Rightarrow> raise (AttributeError ''NoneType has no attribute get'') s
      | Some info \<Rightarrow>
     (case block_device_mapping info of
        None \<Rightarrow> raise (TypeError ''NoneType is not iterable'') s
      | Some bmap \<Rightarrow>
     (case find_root_ci (root_device_name (fst s)) bmap of
        None \<Rightarrow>
          if samehost \<and> brand = ZONE_BRAND_SOLARIS then ok None s
          else raise (ResizeError ''Cannot find an attached root device.'') s
      | Some root_ci \<Rightarrow>
     (case root_volume_id root_ci of
        Inl e \<Rightarrow> raise e s
      | Inr None \<Rightarrow> raise (ResizeError ''Cannot find an attached root device.'') s
      | Inr (Some volume_id) \<Rightarrow>
          andthen (lift (ask_volume (VolumeGet volume_id))) (\<lambda>vinfo.
          andthen (lift (ask_volume (VolumeCreate (root_gb (fst s)) (display_name vinfo @ ''-resized'')
                                       (display_description vinfo) (vol_id vinfo)))) (\<lambda>newvolume s'.
          ok (Some newvolume)
             ((fst s')\<lparr>system_metadata := (system_metadata (fst s'))
                         (''old_instance_volid'' \<mapsto> volume_id,
                          ''new_instance_volid'' \<mapsto> vol_id newvolume)\<rparr>, snd s'))) s))))"

definition migrate_disks ::
  "bool \<Rightarrow> string \<Rightarrow> flavor \<Rightarrow> block_device_info option \<Rightarrow> nova_instance \<times> world
     \<Rightarrow> ((error + volume_rec option) \<times> nova_instance \<times> world) option" where
  "migrate_disks samehost brand fl bdi s =
     (case lift (helper ''power_off'' [name (fst s)]) s of
        (Inl e, s1) \<Rightarrow> Some (Inl e, s1)
      | (Inr _, s1) \<Rightarrow>
          if flavor_root_gb fl > root_gb (fst s1) \<or> \<not> samehost
          then (case clone_root_volume samehost brand bdi s1 of
                  (Inl e, s2) \<Rightarrow> Some (Inl e, s2)
                | (Inr None, s2) \<Rightarrow> Some (Inr None, s2)
                | (Inr (Some newvolume), s2) \<Rightarrow>
                    (case wait_while_creating (vol_id newvolume) (snd s2) of
                       None \<Rightarrow> None
                     | Some (Inl e, w3) \<Rightarrow> Some (Inl e, (fst s2, w3))
                     | Some (Inr volume, w3) \<Rightarrow>
                         if flavor_root_gb fl > root_gb (fst s2)
                         then (case catch (invoke (VolumeExtend (vol_id newvolume) (flavor_root_gb fl)))
                                      (\<lambda>ex. andthen (cleanup_migrate_disk newvolume) (\<lambda>_. raise ex)) w3 of
                                 (Inl e, w4) \<Rightarrow> Some (Inl e, (fst s2, w4))
                               | (Inr _, w4) \<Rightarrow> Some (Inr (Some newvolume), (fst s2, w4)))
                         else Some (Inr (Some newvolume), (fst s2, w3))))
          else Some (Inr None, s1))"

text \<open>
  \<^verbatim>\<open>migrate_disk_and_power_off\<close>. \<^verbatim>\<open>samehost\<close> compares the destination with the host's
  address and is noted in the system metadata. Three checks follow, in this order:
  a zone that is not a kernel zone cannot move to another host, the new flavor must name
  the same brand (\<^verbatim>\<open>flavor['extra_specs'].get('zonecfg:brand')\<close>, with no default), and
  the root disk must not shrink. The first two raise \<^verbatim>\<open>MigrationPreCheckError\<close>, the third
  \<^verbatim>\<open>ResizeError\<close>.
\<close>

definition note_samehost :: "bool \<Rightarrow> nova_instance \<Rightarrow> nova_instance" where
  "note_samehost samehost inst =
     (if samehost
      then inst\<lparr>system_metadata := (system_metadata inst)(''resize_samehost'' \<mapsto> ''True'')\<rparr>
      else inst)"

definition migrate_disk_and_power_off ::
  "string \<Rightarrow> flavor \<Rightarrow> block_device_info option \<Rightarrow> nova_instance \<times> world
     \<Rightarrow> ((error + volume_rec option) \<times> nova_instance \<times> world) option" where
  "migrate_disk_and_power_off dest fl bdi s =
     (let samehost = (dest = my_ip (snd s));
          inst = note_samehost samehost (fst s);
          brand = flavor_brand (get_flavor inst)
      in if brand \<noteq> ZONE_BRAND_SOLARIS_KZ \<and> \<not> samehost
         then Some (Inl (MigrationPreCheckError
                      ''branded zones do not currently support resize to a different host.''),
                    (inst, snd s))
         else if extra_specs fl ''zonecfg:brand'' \<noteq> Some brand
         then Some (Inl (MigrationPreCheckError ''Unable to change brand of zone during resize.''),
                    (inst, snd s))
         else if root_gb inst > flavor_root_gb fl
         then Some (Inl (ResizeError ''Unable to resize to a smaller boot volume.''), (inst, snd s))
         else migrate_disks samehost brand fl bdi (inst, snd s))"

section \<open>Text as the command-line tools print it\<close>

text \<open>
  The string methods the driver applies to the output of the tools, for text whose
  characters are code points below 256: \<^verbatim>\<open>str.splitlines\<close> (a line ends at LF, CR, CR LF,
  VT, FF, FS, GS, RS or NEL; no empty last line), \<^verbatim>\<open>str.strip\<close> and \<^verbatim>\<open>str.split\<close> without
  arguments (white space is TAB to CR, FS to US, SPACE, NEL and NBSP), \<^verbatim>\<open>in\<close> on strings,
  and \<^verbatim>\<open>str.replace\<close> of one character by nothing. \<^verbatim>\<open>str.startswith\<close> is \<open>prefix\<close>.
\<close>

definition is_space :: "char \<Rightarrow> bool" where
  "is_space c = (c \<in> set [CHR 0x09, CHR 0x0A, CHR 0x0B, CHR 0x0C, CHR 0x0D, CHR 0x1C, CHR 0x1D,
                           CHR 0x1E, CHR 0x1F, CHR 0x20, CHR 0x85, CHR 0xA0])"

definition is_linebreak :: "char \<Rightarrow> bool" where
  "is_linebreak c = (c \<in> set [CHR 0x0A, CHR 0x0B, CHR 0x0C, CHR 0x0D, CHR 0x1C, CHR 0x1D,
                               CHR 0x1E, CHR 0x85])"

fun splitlines_from :: "string \<Rightarrow> string \<Rightarrow> string list" where
  "splitlines_from acc [] = (if acc = [] then [] else [rev acc])"
| "splitlines_from acc [c] = (if is_linebreak c then [rev acc] else [rev (c # acc)])"
| "splitlines_from acc (c # d # cs) =
     (if c = CHR 0x0D \<and> d = CHR 0x0A then rev acc # splitlines_from [] cs
      else if is_linebreak c then rev acc # splitlines_from [] (d # cs)
      else splitlines_from (c # acc) (d # cs))"

definition splitlines :: "string \<Rightarrow> string list" where
  "splitlines s = splitlines_from [] s"

definition strip :: "string \<Rightarrow> string" where
  "strip s = rev (dropWhile is_space (rev (dropWhile is_space s)))"

fun split_from :: "string \<Rightarrow> string \<Rightarrow> string list" where
  "split_from acc [] = (if acc = [] then [] else [rev acc])"
| "split_from acc (c # cs) =
     (if is_space c then (if acc = [] then split_from [] cs else rev acc # split_from [] cs)
      else split_from (c # acc) cs)"

definition split :: "string \<Rightarrow> string list" where
  "split s = split_from [] s"

fun contains :: "string \<Rightarrow> string \<Rightarrow> bool" where
  "contains p [] = (p = [])"
| "contains p (c # cs) = (prefix p (c # cs) \<or> contains p cs)"

definition remove_char :: "char \<Rightarrow> string \<Rightarrow> string" where
  "remove_char c s = filter (\<lambda>d. d \<noteq> c) s"

text \<open>
  \<^verbatim>\<open>processutils.execute\<close>: the command is a call; when it does not raise, its standard
  output is what the world replies.
\<close>

definition execute :: "string list \<Rightarrow> world \<Rightarrow> (error + string) \<times> world" where
  "execute cmd = ask_text (Execute cmd)"

text \<open>\<^verbatim>\<open>except processutils.ProcessExecutionError\<close>: only that exception is handled.\<close>

definition except_ProcessExecutionError ::
  "(world \<Rightarrow> (error + 'a) \<times> world) \<Rightarrow> (world \<Rightarrow> (error + 'a) \<times> world) \<Rightarrow> world \<Rightarrow> (error + 'a) \<times> world" where
  "except_ProcessExecutionError m h =
     catch m (\<lambda>ex. case ex of ProcessExecutionError stderr \<Rightarrow> h | _ \<Rightarrow> raise ex)"

section \<open>Fibre Channel ports of the host\<close>

text \<open>
  \<^verbatim>\<open>_get_fc_hbas\<close> parses the output of \<^verbatim>\<open>fcinfo hba-port\<close>. The dictionary \<^verbatim>\<open>hba\<close> has at
  most the keys \<open>port_name\<close>, \<open>port_state\<close> and \<open>node_name\<close>; \<^verbatim>\<open>len(hba) == 3\<close> says that all
  three are there. A line \<^verbatim>\<open>Port Mode:\<close> with a mode other than \<open>Initiator\<close> leaves the loop
  with \<^verbatim>\<open>break\<close>; the other three recognised lines \<^verbatim>\<open>continue\<close>; any other line, and
  \<^verbatim>\<open>Port Mode: Initiator\<close>, reach the test that appends a complete entry. The state of a
  port is recorded and not looked at: offline ports are entries like online ones.
\<close>

definition no_hba :: hba where
  "no_hba = \<lparr>port_name = None, port_state = None, node_name = None\<rparr>"

definition complete :: "hba \<Rightarrow> bool" where
  "complete h = (port_name h \<noteq> None \<and> port_state h \<noteq> None \<and> node_name h \<noteq> None)"

fun parse_hba_ports :: "string list \<Rightarrow> hba \<Rightarrow> hba list \<Rightarrow> hba list" where
  "parse_hba_ports [] hba hbas = hbas"
| "parse_hba_ports (l # ls) hba hbas =
     (let line = strip l in
      if prefix ''HBA Port WWN:'' line
      then parse_hba_ports ls (no_hba\<lparr>port_name := Some (last (split line))\<rparr>) hbas
      else if prefix ''Port Mode:'' line
      then (if last (split line) \<noteq> ''Initiator'' then hbas
            else if complete hba then parse_hba_ports ls no_hba (hbas @ [hba])
            else parse_hba_ports ls hba hbas)
      else if prefix ''State:'' line
      then parse_hba_ports ls (hba\<lparr>port_state := Some (last (split line))\<rparr>) hbas
      else if prefix ''Node WWN:'' line
      then parse_hba_ports ls (hba\<lparr>node_name := Some (last (split line))\<rparr>) hbas
      else if complete hba then parse_hba_ports ls no_hba (hbas @ [hba])
      else parse_hba_ports ls hba hbas)"

text \<open>
  \<^verbatim>\<open>_get_fc_hbas\<close>: a non-empty cache is returned as it is; when \<^verbatim>\<open>fcinfo\<close> fails the
  result is the empty list (and the cache is not written); otherwise the parsed list is
  cached and returned. \<^verbatim>\<open>out\<close> is the output of a command that succeeded, so it is never
  \<^verbatim>\<open>None\<close> and the \<^verbatim>\<open>RuntimeError\<close> of the source cannot be raised.
\<close>

definition get_fc_hbas :: "world \<Rightarrow> (error + hba list) \<times> world" where
  "get_fc_hbas w =
     (if fc_hbas w \<noteq> [] then (Inr (fc_hbas w), w)
      else except_ProcessExecutionError
             (andthen (execute [''/usr/sbin/fcinfo'', ''hba-port'']) (\<lambda>out w'.
                let hbas = parse_hba_ports (splitlines out) no_hba []
                in (Inr hbas, w'\<lparr>fc_hbas := hbas\<rparr>)))
             (ok []) w)"

text \<open>
  \<^verbatim>\<open>_get_fc_wwpns\<close>: the port names of the entries whose state is \<open>online\<close>. The two
  subscripts raise \<^verbatim>\<open>KeyError\<close> on an entry without the key.
\<close>

fun online_wwpns :: "hba list \<Rightarrow> error + string list" where
  "online_wwpns [] = Inr []"
| "online_wwpns (h # hs) =
     (case port_state h of
        None \<Rightarrow> Inl (KeyError ''port_state'')
      | Some st \<Rightarrow>
          if st = ''online''
          then (case port_name h of
                  None \<Rightarrow> Inl (KeyError ''port_name'')
                | Some p \<Rightarrow> (case online_wwpns hs of Inl e \<Rightarrow> Inl e | Inr ps \<Rightarrow> Inr (p # ps)))
          else online_wwpns hs)"

definition get_fc_wwpns :: "world \<Rightarrow> (error + string list) \<times> world" where
  "get_fc_wwpns =
     andthen get_fc_hbas (\<lambda>hbas.
     case online_wwpns hbas of Inl e \<Rightarrow> raise e | Inr wwpns \<Rightarrow> ok wwpns)"

section \<open>\<^verbatim>\<open>_suri_from_volume_info\<close>\<close>

text \<open>Subscripts: \<^verbatim>\<open>d[k]\<close> on a dictionary and \<^verbatim>\<open>v[0]\<close> on a value.\<close>

definition subscript :: "(string \<rightharpoonup> pyval) \<Rightarrow> string \<Rightarrow> error + pyval" where
  "subscript d k = (case d k of None \<Rightarrow> Inl (KeyError k) | Some v \<Rightarrow> Inr v)"

fun first_item :: "pyval \<Rightarrow> error + pyval" where
  "first_item (PStrs (x # xs)) = Inr (PStr x)"
| "first_item (PInts (i # is)) = Inr (PInt i)"
| "first_item (PStr (c # cs)) = Inr (PStr [c])"
| "first_item (PInt i) = Inl (TypeError ''int object is not subscriptable'')"
| "first_item v = Inl (IndexError ''index out of range'')"

text \<open>\<^verbatim>\<open>'%d' % v\<close> wants a number.\<close>

fun format_d :: "pyval \<Rightarrow> error + string" where
  "format_d (PInt i) = Inr (str_int i)"
| "format_d v = Inl (TypeError ''%d format: a number is required'')"

definition from_result :: "error + 'a \<Rightarrow> 's \<Rightarrow> (error + 'a) \<times> 's" where
  "from_result r s = (r, s)"

text \<open>
  The Fibre Channel lookup, \<^verbatim>\<open>_lookup_fc_volume_suri\<close>: up to three rounds over the target
  names, each round followed by a pause of 2; the first line of a lookup's output that
  starts with \<open>lu:luname.naa.\<close> is the result; a lookup that fails is skipped; after three
  rounds without a result, \<^verbatim>\<open>InvalidVolume\<close>.
\<close>

fun as_wwns :: "pyval \<Rightarrow> string list" where
  "as_wwns (PStrs xs) = xs"
| "as_wwns (PInts xs) = map str_int xs"
| "as_wwns v = [py_str v]"

definition lookup_uri_fc :: "string \<Rightarrow> string \<Rightarrow> string list" where
  "lookup_uri_fc wwn lun =
     [''/usr/sbin/suriadm'', ''lookup-uri'', ''-p'', ''target=naa.'' @ wwn, ''-p'', ''lun='' @ lun]"

fun lookup_wwns :: "string list \<Rightarrow> string \<Rightarrow> world \<Rightarrow> (error + string option) \<times> world" where
  "lookup_wwns [] lun w = (Inr None, w)"
| "lookup_wwns (wwn # wwns) lun w =
     (case except_ProcessExecutionError
             (andthen (execute (lookup_uri_fc wwn lun)) (\<lambda>out.
              ok (find (prefix ''lu:luname.naa.'') (map strip (splitlines out)))))
             (ok None) w of
        (Inl e, w') \<Rightarrow> (Inl e, w')
      | (Inr (Some line), w') \<Rightarrow> (Inr (Some line), w')
      | (Inr None, w') \<Rightarrow> lookup_wwns wwns lun w')"

fun lookup_rounds :: "nat \<Rightarrow> string list \<Rightarrow> string \<Rightarrow> world \<Rightarrow> (error + string) \<times> world" where
  "lookup_rounds 0 wwns lun w =
     (Inl (InvalidVolume (''Unable to lookup URI of Fibre Channel volume with lun '' @ [CHR 0x27]
                            @ lun @ [CHR 0x27] @ ''.'')), w)"
| "lookup_rounds (Suc n) wwns lun w =
     (case lookup_wwns wwns lun w of
        (Inl e, w') \<Rightarrow> (Inl e, w')
      | (Inr (Some line), w') \<Rightarrow> (Inr line, w')
      | (Inr None, w') \<Rightarrow> lookup_rounds n wwns lun (sleep 2 w'))"

definition lookup_fc_volume_suri :: "pyval \<Rightarrow> pyval \<Rightarrow> world \<Rightarrow> (error + string) \<times> world" where
  "lookup_fc_volume_suri target_wwn target_lun =
     lookup_rounds 3 (as_wwns target_wwn) (py_str target_lun)"

text \<open>The rescan \<^verbatim>\<open>fcinfo remote-port -p wwpn\<close> on every online port.\<close>

fun rescan_ports :: "string list \<Rightarrow> world \<Rightarrow> (error + unit) \<times> world" where
  "rescan_ports [] = ok ()"
| "rescan_ports (wwpn # wwpns) =
     andthen (execute [''/usr/sbin/fcinfo'', ''remote-port'', ''-p'', wwpn]) (\<lambda>_.
     rescan_ports wwpns)"

definition suri_fibre_channel :: "connection_info \<Rightarrow> world \<Rightarrow> (error + string) \<times> world" where
  "suri_fibre_channel ci =
     (case data ci of
        None \<Rightarrow> raise (KeyError ''data'')
      | Some d \<Rightarrow>
          andthen (from_result (subscript d ''target_wwn'')) (\<lambda>target_wwn.
          andthen get_fc_hbas (\<lambda>hbas.
          if hbas = [] then raise (InvalidVolume ''No host Fibre Channel initiator found'')
          else andthen (from_result (subscript d ''target_lun'')) (\<lambda>target_lun.
               andthen get_fc_wwpns (\<lambda>wwpns.
               andthen (rescan_ports wwpns) (\<lambda>_.
               lookup_fc_volume_suri target_wwn target_lun))))))"

text \<open>
  The iSCSI branch: with \<open>target_iqns\<close> in the data, the target is listed and a lookup
  is made; the last line of its output that contains \<open>luname.naa.\<close> is the URI, and
  \<^verbatim>\<open>ProcessExecutionError\<close> of either command is only logged. Without a URI so far, the
  plain URI is built from the portal, the IQN and the LUN.
\<close>

definition suri_iscsi_luname :: "(string \<rightharpoonup> pyval) \<Rightarrow> world \<Rightarrow> (error + string option) \<times> world" where
  "suri_iscsi_luname d =
     (if d ''target_iqns'' \<noteq> None
      then andthen (from_result (case subscript d ''target_iqns'' of Inl e \<Rightarrow> Inl e
                                 | Inr v \<Rightarrow> first_item v)) (\<lambda>target.
           andthen (from_result (case subscript d ''target_luns'' of Inl e \<Rightarrow> Inl e
                                 | Inr v \<Rightarrow> first_item v)) (\<lambda>target_lun.
           except_ProcessExecutionError
             (andthen (execute [''/usr/sbin/iscsiadm'', ''list'', ''target'', ''-vS'', py_str target]) (\<lambda>_.
              andthen (execute [''/usr/sbin/suriadm'', ''lookup-uri'', ''-t'', ''iscsi'',
                                ''-p'', ''target='' @ py_str target,
                                ''-p'', ''lun='' @ py_str target_lun]) (\<lambda>out.
              ok (case filter (contains ''luname.naa.'') (map strip (splitlines out)) of
                    [] \<Rightarrow> None | ls \<Rightarrow> Some (last ls)))))
             (ok None)))
      else ok None)"

definition suri_iscsi :: "connection_info \<Rightarrow> world \<Rightarrow> (error + string) \<times> world" where
  "suri_iscsi ci =
     (case data ci of
        None \<Rightarrow> raise (KeyError ''data'')
      | Some d \<Rightarrow>
          andthen (suri_iscsi_luname d) (\<lambda>suri.
          case suri of
            Some line \<Rightarrow> ok line
          | None \<Rightarrow>
              andthen (from_result (subscript d ''target_portal'')) (\<lambda>portal.
              andthen (from_result (subscript d ''target_iqn'')) (\<lambda>iqn.
              andthen (from_result (subscript d ''target_lun'')) (\<lambda>lun.
              andthen (from_result (format_d lun)) (\<lambda>lun_d.
              ok (''iscsi://'' @ py_str portal @ ''/target.'' @ py_str iqn @ '',lun.'' @ lun_d)))))))"

text \<open>The NFS branch; \<^verbatim>\<open>a or b\<close> on an option that may be unset or empty.\<close>

definition or_else :: "string option \<Rightarrow> string \<Rightarrow> string" where
  "or_else a b = (case a of None \<Rightarrow> b | Some s \<Rightarrow> if s = [] then b else s)"

definition suri_nfs :: "connection_info \<Rightarrow> world \<Rightarrow> (error + string) \<times> world" where
  "suri_nfs ci w =
     (case data ci of
        None \<Rightarrow> raise (KeyError ''data'') w
      | Some d \<Rightarrow>
          (andthen (from_result (subscript d ''export'')) (\<lambda>export.
           case export of
             PStr e \<Rightarrow>
               andthen (from_result (subscript d ''name'')) (\<lambda>n.
               ok (''nfs://'' @ or_else (nfs_username w) (str_int (uid w)) @ '':''
                     @ or_else (nfs_groupname w) (str_int (gid w)) @ ''@''
                     @ remove_char CHR '':'' e @ ''/'' @ py_str n))
           | _ \<Rightarrow> raise (AttributeError ''replace''))) w)"

text \<open>\<^verbatim>\<open>_suri_from_volume_info\<close>: an unknown driver type is refused first.\<close>

definition suri_from_volume_info :: "connection_info \<Rightarrow> world \<Rightarrow> (error + string) \<times> world" where
  "suri_from_volume_info ci =
     (let driver_type = driver_volume_type ci in
      if driver_type \<notin> set [''iscsi'', ''fibre_channel'', ''local'', ''nfs'', ''file'']
      then raise (VolumeDriverNotFound driver_type)
      else if driver_type = ''local''
      then (case volume_path ci of None \<Rightarrow> raise (KeyError ''volume_path'')
            | Some p \<Rightarrow> ok (''dev:/dev/zvol/dsk/'' @ p))
      else if driver_type = ''file''
      then (case volume_path ci of None \<Rightarrow> raise (KeyError ''volume_path'')
            | Some p \<Rightarrow> ok (''file://root:root@'' @ p))
      else if driver_type = ''iscsi'' then suri_iscsi ci
      else if driver_type = ''nfs'' then suri_nfs ci
      else suri_fibre_channel ci)"

text \<open>\<open>is_lookup\<close> recognises a call of \<^verbatim>\<open>suriadm\<close>, the URI lookup tool.\<close>

fun is_lookup :: "call \<Rightarrow> bool" where
  "is_lookup (Execute cmd) = (cmd \<noteq> [] \<and> hd cmd = ''/usr/sbin/suriadm'')"
| "is_lookup c = False"

section \<open>CPU time from the kstat snapshots\<close>

text \<open>
  \<^verbatim>\<open>_kstat_data\<close>: the URI gets the prefix \<open>kstat:/\<close> when it lacks it; updating the
  snapshot and fetching the kstat object are inside \<^verbatim>\<open>try\<close>, and any exception there means
  \<^verbatim>\<open>None\<close>; \<^verbatim>\<open>getMap()\<close> is outside it. The result maps each name to the value of the
  statistic.
\<close>

definition kstat_data :: "string \<Rightarrow> world \<Rightarrow> (error + (string \<times> kval) list option) \<times> world" where
  "kstat_data uri0 =
     (let uri = (if prefix ''kstat:/'' uri0 then uri0 else ''kstat:/'' @ uri0) in
      andthen (catch (andthen (invoke KstatUpdate) (\<lambda>_.
                      andthen (invoke (KstatGet uri)) (\<lambda>_. ok True)))
                     (\<lambda>reason. ok False)) (\<lambda>found.
      if found
      then andthen (ask_kstat (KstatGetMap uri)) (\<lambda>m. ok (Some m))
      else ok None))"

text \<open>
  \<^verbatim>\<open>_sum_kstat_statistic\<close> adds up one statistic over the kstats of a CPU. Each value of
  \<^verbatim>\<open>kstat_data\<close> must be a kstat (\<^verbatim>\<open>ks.getMap()\<close>) that has the statistic
  (\<^verbatim>\<open>[statistic]\<close>); a value that cannot be added to an integer ends the loop with the
  result 0 (the \<^verbatim>\<open>TypeError\<close> branch).
\<close>

fun sum_values :: "kval list \<Rightarrow> string \<Rightarrow> int \<Rightarrow> error + int" where
  "sum_values [] statistic tot = Inr tot"
| "sum_values (ks # rest) statistic tot =
     (case ks of
        KKstat m \<Rightarrow>
          (case map_of m statistic of
             None \<Rightarrow> Inl (KeyError statistic)
           | Some (KInt v) \<Rightarrow> sum_values rest statistic (tot + v)
           | Some _ \<Rightarrow> Inr 0)
      | _ \<Rightarrow> Inl (AttributeError ''getMap''))"

definition sum_kstat_statistic :: "(string \<times> kval) list \<Rightarrow> string \<Rightarrow> error + int" where
  "sum_kstat_statistic ksdata statistic = sum_values (map snd ksdata) statistic 0"

text \<open>\<^verbatim>\<open>d.pop(k)\<close> and \<^verbatim>\<open>d[k]\<close> on such a dictionary.\<close>

definition pop :: "string \<Rightarrow> (string \<times> kval) list \<Rightarrow> error + (string \<times> kval) list" where
  "pop k d = (case map_of d k of None \<Rightarrow> Inl (KeyError k)
              | Some v \<Rightarrow> Inr (filter (\<lambda>e. fst e \<noteq> k) d))"

definition item :: "(string \<times> kval) list \<Rightarrow> string \<Rightarrow> error + kval" where
  "item d k = (case map_of d k of None \<Rightarrow> Inl (KeyError k) | Some v \<Rightarrow> Inr v)"

text \<open>
  How one pass through the body of the \<^verbatim>\<open>for _attempt in range(3)\<close> loop ends: with a
  \<^verbatim>\<open>return\<close>, with one of the \<^verbatim>\<open>continue\<close> statements (or by reaching the end of the body,
  when the generation numbers differ), or with \<^verbatim>\<open>break\<close>.
\<close>

datatype why = CpusUnavailable | NoCpuRead | FinalUnavailable | GenerationChanged

datatype outcome = Return int | Continue why | Break

text \<open>
  The inner loop over the CPUs ends in one of three ways: every CPU was read and the sum
  is known; a CPU's kstat could not be read and the zone is not running (\<^verbatim>\<open>return 0\<close>); or
  it could not be read and the zone is running (\<^verbatim>\<open>break\<close>, after which \<^verbatim>\<open>cpu\<close> is \<^verbatim>\<open>None\<close>).
\<close>

datatype cpus_read = Summed int | NotRunning | Unread

fun sum_cpus ::
  "string \<Rightarrow> string \<Rightarrow> string list \<Rightarrow> int \<Rightarrow> world \<Rightarrow> (error + cpus_read) \<times> world" where
  "sum_cpus zone uri [] tot w = (Inr (Summed tot), w)"
| "sum_cpus zone uri (n # ns) tot w =
     (case kstat_data (uri @ ''/'' @ n) w of
        (Inl e, w1) \<Rightarrow> (Inl e, w1)
      | (Inr None, w1) \<Rightarrow>
          (case ask_text (ZoneState zone) w1 of
             (Inl e, w2) \<Rightarrow> (Inl e, w2)
           | (Inr st, w2) \<Rightarrow>
               if st \<noteq> ZONE_STATE_RUNNING then (Inr NotRunning, w2) else (Inr Unread, w2))
      | (Inr (Some cpu), w1) \<Rightarrow>
          (case sum_kstat_statistic cpu ''cpu_nsec_kernel_cur'' of
             Inl e \<Rightarrow> (Inl e, w1)
           | Inr kern \<Rightarrow>
               (case sum_kstat_statistic cpu ''cpu_nsec_user_cur'' of
                  Inl e \<Rightarrow> (Inl e, w1)
                | Inr usr \<Rightarrow> sum_cpus zone uri ns (tot + kern + usr) w1)))"

text \<open>
  The end of a pass: the two generation numbers are compared, and when they are equal
  the accumulated user and kernel time of CPUs no longer there is added. \<^verbatim>\<open>initial\<close> may
  be \<^verbatim>\<open>None\<close>, which the subscript answers with \<^verbatim>\<open>TypeError\<close>; values that are not both
  integers cannot be added to the integer total.
\<close>

definition compare_generations ::
  "(string \<times> kval) list option \<Rightarrow> (string \<times> kval) list \<Rightarrow> int \<Rightarrow> error + outcome" where
  "compare_generations initial final tot =
     (case initial of
        None \<Rightarrow> Inl (TypeError ''NoneType object is not subscriptable'')
      | Some ini \<Rightarrow>
          (case item ini ''gen_num'' of
             Inl e \<Rightarrow> Inl e
           | Inr g0 \<Rightarrow>
               (case item final ''gen_num'' of
                  Inl e \<Rightarrow> Inl e
                | Inr g1 \<Rightarrow>
                    if g0 = g1
                    then (case item ini ''cpu_nsec_user'' of
                            Inl e \<Rightarrow> Inl e
                          | Inr u \<Rightarrow>
                              (case item ini ''cpu_nsec_kernel'' of
                                 Inl e \<Rightarrow> Inl e
                               | Inr k \<Rightarrow>
                                   (case (u, k) of
                                      (KInt a, KInt b) \<Rightarrow> Inr (Return (tot + (a + b)))
                                    | _ \<Rightarrow> Inl (TypeError ''unsupported operand type''))))
                    else Inr (Continue GenerationChanged))))"

definition cpu_uri :: "string \<Rightarrow> string" where
  "cpu_uri zone = ''kstat:/zones/'' @ zone @ ''/cpu''"

definition accum_uri :: "string \<Rightarrow> string" where
  "accum_uri zone = ''kstat:/zones/'' @ zone @ ''/cpu/accum/sys''"

text \<open>One pass through the body of the loop.\<close>

definition cpu_time_attempt :: "string \<Rightarrow> world \<Rightarrow> (error + outcome) \<times> world" where
  "cpu_time_attempt zone =
     andthen (kstat_data (accum_uri zone)) (\<lambda>initial.
     andthen (kstat_data (cpu_uri zone)) (\<lambda>cpus.
     case cpus of
       None \<Rightarrow>
         andthen (ask_text (ZoneState zone)) (\<lambda>st.
         if st \<noteq> ZONE_STATE_RUNNING then ok Break else ok (Continue CpusUnavailable))
     | Some cpus0 \<Rightarrow>
         andthen (from_result (pop ''pset_accum'' cpus0)) (\<lambda>cpus1.
         andthen (from_result (pop ''accum'' cpus1)) (\<lambda>cpus2.
         if cpus2 = [] then ok (Continue NoCpuRead)
         else andthen (sum_cpus zone (cpu_uri zone) (map fst cpus2) 0) (\<lambda>r.
              case r of
                NotRunning \<Rightarrow> ok (Return 0)
              | Unread \<Rightarrow> ok (Continue NoCpuRead)
              | Summed tot \<Rightarrow>
                  andthen (kstat_data (accum_uri zone)) (\<lambda>final.
                  case final of
                    None \<Rightarrow> ok (Continue FinalUnavailable)
                  | Some fin \<Rightarrow> from_result (compare_generations initial fin tot)))))))"

text \<open>
  The loop of at most three passes, and \<^verbatim>\<open>_get_cpu_time\<close>: 0 at once for a zone that is
  not running, 0 after \<^verbatim>\<open>break\<close>, and 0 when the passes are used up. (The zone object is a
  handle on the zone's name, so \<^verbatim>\<open>zone.name\<close> is never \<^verbatim>\<open>None\<close> here.)
\<close>

fun cpu_time_attempts :: "nat \<Rightarrow> string \<Rightarrow> world \<Rightarrow> (error + int) \<times> world" where
  "cpu_time_attempts 0 zone w = (Inr 0, w)"
| "cpu_time_attempts (Suc n) zone w =
     (case cpu_time_attempt zone w of
        (Inl e, w') \<Rightarrow> (Inl e, w')
      | (Inr (Return v), w') \<Rightarrow> (Inr v, w')
      | (Inr Break, w') \<Rightarrow> (Inr 0, w')
      | (Inr (Continue y), w') \<Rightarrow> cpu_time_attempts n zone w')"

definition get_cpu_time :: "string \<Rightarrow> world \<Rightarrow> (error + int) \<times> world" where
  "get_cpu_time zone =
     andthen (ask_text (ZoneState zone)) (\<lambda>st.
     if st \<noteq> ZONE_STATE_RUNNING then ok 0 else cpu_time_attempts 3 zone)"

text \<open>
  The words of the specification, to compare \<^verbatim>\<open>_get_cpu_time\<close> with. The per-CPU
  statistics of a pass are the snapshots read for the CPUs, one after the other
  (\<open>read_cpus\<close>, \<open>None\<close> when one of them is not available). The current time of a CPU is
  the sum of \<open>cpu_nsec_kernel_cur\<close> and \<open>cpu_nsec_user_cur\<close> over its kstats, when all of
  these are integers (\<open>current_nsec\<close>), and the aggregate is their sum over the CPUs
  (\<open>aggregate\<close>). \<open>retries k zone w\<close> is the world in which pass number \<open>k\<close> (from 0)
  starts when the passes before it ended with \<^verbatim>\<open>continue\<close>.
\<close>

fun read_cpus ::
  "string \<Rightarrow> string list \<Rightarrow> world \<Rightarrow> (string \<times> kval) list list option \<times> world" where
  "read_cpus uri [] w = (Some [], w)"
| "read_cpus uri (n # ns) w =
     (case kstat_data (uri @ ''/'' @ n) w of
        (Inr (Some cpu), w1) \<Rightarrow>
          (case read_cpus uri ns w1 of
             (Some cpus, w2) \<Rightarrow> (Some (cpu # cpus), w2)
           | (None, w2) \<Rightarrow> (None, w2))
      | (r, w1) \<Rightarrow> (None, w1))"

definition statistic_of :: "string \<Rightarrow> kval \<Rightarrow> int option" where
  "statistic_of statistic ks =
     (case ks of
        KKstat m \<Rightarrow> (case map_of m statistic of Some (KInt v) \<Rightarrow> Some v | _ \<Rightarrow> None)
      | _ \<Rightarrow> None)"

definition current_nsec :: "(string \<times> kval) list \<Rightarrow> int option" where
  "current_nsec cpu =
     (case those (map (statistic_of ''cpu_nsec_kernel_cur'') (map snd cpu)) of
        None \<Rightarrow> None
      | Some ks \<Rightarrow>
          (case those (map (statistic_of ''cpu_nsec_user_cur'') (map snd cpu)) of
             None \<Rightarrow> None
           | Some us \<Rightarrow> Some (sum_list ks + sum_list us)))"

definition aggregate :: "(string \<times> kval) list list \<Rightarrow> int option" where
  "aggregate cpus =
     (case those (map current_nsec cpus) of None \<Rightarrow> None | Some ts \<Rightarrow> Some (sum_list ts))"

fun retries :: "nat \<Rightarrow> string \<Rightarrow> world \<Rightarrow> world option" where
  "retries 0 zone w = Some w"
| "retries (Suc k) zone w =
     (case cpu_time_attempt zone w of
        (Inr (Continue y), w') \<Rightarrow> retries k zone w'
      | (r, w') \<Rightarrow> None)"

section \<open>\<^verbatim>\<open>finish_migration\<close> and its cleanup\<close>

text \<open>
  \<^verbatim>\<open>_set_num_cpu\<close> and \<^verbatim>\<open>_set_memory_cap\<close> set one property each, in an edit session; the
  resource and property names depend on the brand.
\<close>

definition set_num_cpu :: "string \<Rightarrow> int \<Rightarrow> string \<Rightarrow> world \<Rightarrow> (error + unit) \<times> world" where
  "set_num_cpu nm ncpus brand =
     andthen (get_zone_by_name nm) (\<lambda>z.
     case z of
       None \<Rightarrow> raise (InstanceNotFound nm)
     | Some zone \<Rightarrow>
         with_ZoneConfig zone (\<lambda>zc.
           setprop zc (if brand = ZONE_BRAND_SOLARIS then ''capped-cpu'' else ''virtual-cpu'')
             ''ncpus'' (str_int ncpus)))"

definition set_memory_cap :: "string \<Rightarrow> int \<Rightarrow> string \<Rightarrow> world \<Rightarrow> (error + unit) \<times> world" where
  "set_memory_cap nm mb brand =
     andthen (get_zone_by_name nm) (\<lambda>z.
     case z of
       None \<Rightarrow> raise (InstanceNotFound nm)
     | Some zone \<Rightarrow>
         with_ZoneConfig zone (\<lambda>zc.
           setprop zc ''capped-memory'' (if brand = ZONE_BRAND_SOLARIS then ''swap'' else ''physical'')
             (str_int mb @ ''M'')))"

text \<open>
  \<^verbatim>\<open>_initialize_volume_connection\<close> asks the volume service for the connection descriptor
  of a volume and writes the volume id into it as \<open>serial\<close>.
\<close>

definition initialize_volume_connection :: "string \<Rightarrow> world \<Rightarrow> (error + connection_info) \<times> world" where
  "initialize_volume_connection volume_id =
     andthen (ask_connection (InitializeConnection volume_id)) (\<lambda>ci.
     ok (ci\<lparr>serial := Some volume_id\<rparr>))"

text \<open>
  \<^verbatim>\<open>_set_boot_device\<close>, with its optional \<^verbatim>\<open>mountpoint\<close>: the zone is looked up, the storage
  URI is computed from the connection descriptor, and the configuration is edited in a
  session. For a kernel zone the session raises \<open>NotImplementedError\<close> when no mount point
  was given; otherwise the boot device gets the storage URI and the index of the mount
  point (\<^verbatim>\<open>_get_device_index\<close>, kept opaque). For any other brand the \<open>rootzpool\<close> resource
  is added with the URI as its storage, or updated when it exists already (the source
  passes the URI as a list value of one element).
\<close>

definition ROOTZPOOL_RESOURCE :: string where
  "ROOTZPOOL_RESOURCE = ''rootzpool''"

definition set_boot_device ::
  "string \<Rightarrow> connection_info \<Rightarrow> string \<Rightarrow> string option \<Rightarrow> world \<Rightarrow> (error + unit) \<times> world" where
  "set_boot_device nm ci brand mountpoint =
     andthen (get_zone_by_name nm) (\<lambda>z.
     case z of
       None \<Rightarrow> raise (InstanceNotFound nm)
     | Some zone \<Rightarrow>
         andthen (suri_from_volume_info ci) (\<lambda>suri.
         with_ZoneConfig zone (\<lambda>zc.
           if brand = ZONE_BRAND_SOLARIS_KZ
           then (case mountpoint of
                   None \<Rightarrow> raise (NotImplementedError ''must set mountpoint'')
                 | Some mp \<Rightarrow>
                     andthen (ask_text (Helper ''_get_device_index'' [mp])) (\<lambda>idx.
                     zone_call (SetResourceProperties zone
                       (Resource ''device'' [Property ''bootpri'' ''0'', Property ''id'' idx])
                       [Property ''storage'' suri])))
           else addresource zc ROOTZPOOL_RESOURCE [Property ''storage'' suri] True)))"

text \<open>
  \<^verbatim>\<open>_resize_disk_migration\<close> switches the root volume: it initialises the connection of
  the replacement, on the same host points the zone's boot device to it (a native zone
  is detached for that and attached again in \<^verbatim>\<open>finally\<close>), detaches the configured volume
  from the instance, attaches the replacement at the root device, and updates the block
  device mapping. The boot device is set without a mount point, and with the brand the
  zone reports. \<^verbatim>\<open>get_volume_connector\<close> is opaque here.
\<close>

definition switch_boot_device :: "nova_instance \<Rightarrow> connection_info \<Rightarrow> world \<Rightarrow> (error + unit) \<times> world" where
  "switch_boot_device inst ci =
     andthen (get_zone_by_name (name inst)) (\<lambda>z.
     case z of
       None \<Rightarrow> raise (InstanceNotFound (name inst))
     | Some zone \<Rightarrow>
         andthen (ask_text (ZoneBrand zone)) (\<lambda>b1.
         andthen (if b1 = ZONE_BRAND_SOLARIS then invoke (ZoneDetach zone) else ok ()) (\<lambda>_.
         try_finally
           (andthen (ask_text (ZoneBrand zone)) (\<lambda>b2.
            set_boot_device (name inst) ci b2 None))
           (andthen (ask_text (ZoneBrand zone)) (\<lambda>b3.
            if b3 = ZONE_BRAND_SOLARIS then invoke (ZoneAttach zone []) else ok ())))))"

definition resize_disk_migration ::
  "nova_instance \<Rightarrow> string \<Rightarrow> string \<Rightarrow> bool \<Rightarrow> world \<Rightarrow> (error + unit) \<times> world" where
  "resize_disk_migration inst configured replacement samehost =
     andthen (helper ''get_volume_connector'' [name inst]) (\<lambda>_.
     andthen (initialize_volume_connection replacement) (\<lambda>ci.
     andthen (if samehost then switch_boot_device inst ci else ok ()) (\<lambda>_.
     andthen (invoke (VolumeDetach configured)) (\<lambda>_.
     andthen (invoke (VolumeAttach replacement (uuid inst) (root_device_name inst))) (\<lambda>_.
     andthen (invoke (BdmGetByVolumeId configured)) (\<lambda>_.
     invoke (BdmSave configured replacement)))))))"

text \<open>
  \<^verbatim>\<open>_cleanup_finish_migration\<close>, first part: with a \<^verbatim>\<open>disk_info\<close>, the new volume is detached
  and deleted; then, when the system metadata records the original volume under
  \<open>old_instance_volid\<close>, that volume is attached again at the root device, the block
  device mapping is pointed back to it, and both notes are removed. None of these calls
  is guarded.
\<close>

definition reattach_original ::
  "string \<Rightarrow> nova_instance \<times> world \<Rightarrow> (error + unit) \<times> nova_instance \<times> world" where
  "reattach_original old_rvid s =
     (let inst = fst s in
      andthen (lift (helper ''get_volume_connector'' [name inst])) (\<lambda>_.
      andthen (lift (initialize_volume_connection old_rvid)) (\<lambda>ci.
      case system_metadata inst ''new_instance_volid'' of
        None \<Rightarrow> raise (KeyError ''new_instance_volid'')
      | Some new_rvid \<Rightarrow>
          andthen (lift (invoke (VolumeAttach old_rvid (uuid inst) (root_device_name inst)))) (\<lambda>_.
          andthen (lift (invoke (BdmGetByVolumeId new_rvid))) (\<lambda>_.
          andthen (lift (invoke (BdmSave new_rvid old_rvid))) (\<lambda>_ s'.
          ok () ((fst s')\<lparr>system_metadata := (system_metadata (fst s'))
                            (''new_instance_volid'' := None, ''old_instance_volid'' := None)\<rparr>,
                 snd s')))))) s)"

definition cleanup_volumes ::
  "volume_rec option \<Rightarrow> nova_instance \<times> world \<Rightarrow> (error + unit) \<times> nova_instance \<times> world" where
  "cleanup_volumes disk_info s =
     (case disk_info of
        None \<Rightarrow> ok () s
      | Some v \<Rightarrow>
          (andthen (lift (invoke (VolumeDetach (vol_id v)))) (\<lambda>_.
           andthen (lift (invoke (VolumeDelete (vol_id v)))) (\<lambda>_ s'.
           case system_metadata (fst s') ''old_instance_volid'' of
             None \<Rightarrow> ok () s'
           | Some old_rvid \<Rightarrow> if old_rvid = [] then ok () s' else reattach_original old_rvid s'))) s)"

text \<open>
  Second part: after a migration to another host the instance is destroyed and moved
  back, in the instance object, to the host it was launched on.
\<close>

definition cleanup_instance ::
  "bool \<Rightarrow> nova_instance \<times> world \<Rightarrow> (error + unit) \<times> nova_instance \<times> world" where
  "cleanup_instance samehost =
     (if samehost then ok ()
      else andthen destroy (\<lambda>_ s'.
           ok () ((fst s')\<lparr>host := launched_on (fst s'), node := launched_on (fst s')\<rparr>, snd s')))"

definition cleanup_finish_migration ::
  "volume_rec option \<Rightarrow> bool \<Rightarrow> nova_instance \<times> world \<Rightarrow> (error + unit) \<times> nova_instance \<times> world" where
  "cleanup_finish_migration disk_info samehost =
     andthen (cleanup_volumes disk_info) (\<lambda>_. cleanup_instance samehost)"

text \<open>
  \<^verbatim>\<open>finish_migration\<close>. Before \<^verbatim>\<open>try\<close>, with a \<^verbatim>\<open>disk_info\<close>, the root entry of the block
  device mapping is looked for; \<^verbatim>\<open>root_ci\<close> stays unbound when there is none, and using it
  raises \<^verbatim>\<open>UnboundLocalError\<close> (inside \<^verbatim>\<open>try\<close>). The entry is found by comparing
  \<^verbatim>\<open>mount_device\<close> with the root device name as it is.
\<close>

fun find_root_entry :: "string \<Rightarrow> bdm_entry list \<Rightarrow> bdm_entry option" where
  "find_root_entry rootmp [] = None"
| "find_root_entry rootmp (entry # bmap) =
     (if mount_device entry = rootmp then Some entry else find_root_entry rootmp bmap)"

definition root_serial :: "bdm_entry option \<Rightarrow> error + string" where
  "root_serial root =
     (case root of
        None \<Rightarrow> Inl (UnboundLocalError ''root_ci'')
      | Some entry \<Rightarrow>
          (case serial (entry_connection_info entry) of
             None \<Rightarrow> Inl (KeyError ''serial'')
           | Some v \<Rightarrow> Inr v))"

definition mapping_of :: "block_device_info option \<Rightarrow> error + bdm_entry list" where
  "mapping_of bdi =
     (case bdi of
        None \<Rightarrow> Inl (AttributeError ''NoneType has no attribute get'')
      | Some info \<Rightarrow>
          (case block_device_mapping info of
             None \<Rightarrow> Inl (TypeError ''NoneType is not iterable'')
           | Some bmap \<Rightarrow> Inr bmap))"

text \<open>The loop that attaches the volumes other than the root volume.\<close>

fun attach_other_volumes :: "nova_instance \<Rightarrow> string \<Rightarrow> bdm_entry list \<Rightarrow> world \<Rightarrow> (error + unit) \<times> world" where
  "attach_other_volumes inst rootmp [] = ok ()"
| "attach_other_volumes inst rootmp (entry # bmap) =
     andthen (if mount_device entry \<noteq> rootmp
              then helper ''attach_volume'' [name inst, mount_device entry] else ok ()) (\<lambda>_.
     attach_other_volumes inst rootmp bmap)"

text \<open>The two branches of the \<^verbatim>\<open>try\<close> block, and what follows them when \<^verbatim>\<open>power_on\<close> is set.\<close>

definition finish_samehost ::
  "nova_instance \<Rightarrow> string \<Rightarrow> volume_rec option \<Rightarrow> bdm_entry option \<Rightarrow> world \<Rightarrow> (error + unit) \<times> world" where
  "finish_samehost inst brand disk_info root =
     andthen (set_num_cpu (name inst) (vcpus inst) brand) (\<lambda>_.
     andthen (set_memory_cap (name inst) (memory_mb inst) brand) (\<lambda>_.
     case disk_info of
       None \<Rightarrow> ok ()
     | Some v \<Rightarrow>
         andthen (from_result (root_serial root)) (\<lambda>configured.
         resize_disk_migration inst configured (vol_id v) True)))"

definition finish_otherhost ::
  "nova_instance \<Rightarrow> volume_rec option \<Rightarrow> bdm_entry option \<Rightarrow> block_device_info option
     \<Rightarrow> world \<Rightarrow> (error + unit) \<times> world" where
  "finish_otherhost inst disk_info root bdi =
     andthen (from_result (root_serial root)) (\<lambda>configured.
     case disk_info of
       None \<Rightarrow> raise (TypeError ''NoneType object is not subscriptable'')
     | Some v \<Rightarrow>
         andthen (resize_disk_migration inst configured (vol_id v) False) (\<lambda>_.
         andthen (helper ''_create_config'' [name inst]) (\<lambda>_.
         andthen (get_zone_by_name (name inst)) (\<lambda>z.
         case z of
           None \<Rightarrow> raise (InstanceNotFound (name inst))
         | Some zone \<Rightarrow>
             andthen (invoke (ZoneAttach zone [''-x'', ''initialize-hostdata''])) (\<lambda>_.
             andthen (from_result (mapping_of bdi)) (\<lambda>bmap.
             attach_other_volumes inst (root_device_name inst) bmap))))))"

definition zlogin_autoexpand :: "string \<Rightarrow> string \<Rightarrow> string list" where
  "zlogin_autoexpand nm v =
     [''/usr/sbin/zlogin'', ''-S'', nm, ''/usr/sbin/zpool'', ''set'', ''autoexpand='' @ v, ''rpool'']"

definition finish_power_on :: "nova_instance \<Rightarrow> string \<Rightarrow> bool \<Rightarrow> world \<Rightarrow> (error + unit) \<times> world" where
  "finish_power_on inst brand power_on =
     (if power_on
      then andthen (helper ''_power_on'' [name inst]) (\<lambda>_.
           if brand = ZONE_BRAND_SOLARIS then ok ()
           else (\<lambda>w.
             andthen (execute (zlogin_autoexpand (name inst) ''off'')) (\<lambda>_.
             andthen (execute (zlogin_autoexpand (name inst) ''on'')) (\<lambda>_. ok ())) (sleep 15 w)))
      else ok ())"

definition finish_try ::
  "bool \<Rightarrow> volume_rec option \<Rightarrow> bdm_entry option \<Rightarrow> block_device_info option \<Rightarrow> bool
     \<Rightarrow> nova_instance \<Rightarrow> world \<Rightarrow> (error + unit) \<times> world" where
  "finish_try samehost disk_info root bdi power_on inst =
     (let brand = flavor_brand (get_flavor inst) in
      andthen (if samehost then finish_samehost inst brand disk_info root
               else finish_otherhost inst disk_info root bdi) (\<lambda>_.
      finish_power_on inst brand power_on))"

text \<open>
  The method: \<^verbatim>\<open>samehost\<close> compares the two nodes of the migration; on the same host the
  saved VM state is set to \<open>resized\<close>. An exception of the \<^verbatim>\<open>try\<close> block runs the cleanup
  and is then re-raised; an exception of the cleanup takes its place.
\<close>

definition note_resized :: "bool \<Rightarrow> nova_instance \<Rightarrow> nova_instance" where
  "note_resized samehost inst =
     (if samehost
      then inst\<lparr>system_metadata := (system_metadata inst)(''old_vm_state'' \<mapsto> RESIZED)\<rparr>
      else inst)"

definition finish_migration ::
  "string \<Rightarrow> string \<Rightarrow> volume_rec option \<Rightarrow> block_device_info option \<Rightarrow> bool
     \<Rightarrow> nova_instance \<times> world \<Rightarrow> (error + unit) \<times> nova_instance \<times> world" where
  "finish_migration dest_node source_node disk_info bdi power_on s =
     (let samehost = (dest_node = source_node);
          inst = note_resized samehost (fst s)
      in case (case disk_info of
                 None \<Rightarrow> Inr None
               | Some v \<Rightarrow> (case mapping_of bdi of
                              Inl e \<Rightarrow> Inl e
                            | Inr bmap \<Rightarrow> Inr (find_root_entry (root_device_name inst) bmap))) of
           Inl e \<Rightarrow> raise e (inst, snd s)
         | Inr root \<Rightarrow>
             catch (lift (finish_try samehost disk_info root bdi power_on inst))
                   (\<lambda>ex. andthen (cleanup_finish_migration disk_info samehost) (\<lambda>_. raise ex))
                   (inst, snd s))"

text \<open>
  The words of the specification for the cleanup, to compare \<^verbatim>\<open>finish_migration\<close> with:
  the calls that attach the original root volume again, for an instance whose system
  metadata records it (and the new volume); the instance object once both notes are
  removed; the state once the new volume of \<^verbatim>\<open>disk_info\<close> is detached and deleted and
  the original one attached again (\<open>volumes_restored\<close>); and the instance moved back to
  the host it was launched on.
\<close>

definition recorded_original :: "nova_instance \<Rightarrow> (string \<times> string) option" where
  "recorded_original inst =
     (case system_metadata inst ''old_instance_volid'' of
        None \<Rightarrow> None
      | Some old_rvid \<Rightarrow>
          if old_rvid = [] then None
          else (case system_metadata inst ''new_instance_volid'' of
                  None \<Rightarrow> None
                | Some new_rvid \<Rightarrow> Some (old_rvid, new_rvid)))"

definition reattach_calls :: "nova_instance \<Rightarrow> call list" where
  "reattach_calls inst =
     (case recorded_original inst of
        None \<Rightarrow> []
      | Some (old_rvid, new_rvid) \<Rightarrow>
          [Helper ''get_volume_connector'' [name inst], InitializeConnection old_rvid,
           VolumeAttach old_rvid (uuid inst) (root_device_name inst),
           BdmGetByVolumeId new_rvid, BdmSave new_rvid old_rvid])"

definition without_volids :: "nova_instance \<Rightarrow> nova_instance" where
  "without_volids inst =
     (case recorded_original inst of
        None \<Rightarrow> inst
      | Some r \<Rightarrow> inst\<lparr>system_metadata := (system_metadata inst)
                         (''new_instance_volid'' := None, ''old_instance_volid'' := None)\<rparr>)"

definition volumes_restored :: "volume_rec \<Rightarrow> nova_instance \<times> world \<Rightarrow> nova_instance \<times> world" where
  "volumes_restored v s =
     (without_volids (fst s),
      (snd s)\<lparr>trace := trace (snd s) @ [VolumeDetach (vol_id v), VolumeDelete (vol_id v)]
                                @ reattach_calls (fst s)\<rparr>)"

definition moved_back :: "nova_instance \<times> world \<Rightarrow> nova_instance \<times> world" where
  "moved_back s = ((fst s)\<lparr>host := launched_on (fst s), node := launched_on (fst s)\<rparr>, snd s)"

fun is_volume_attach :: "call \<Rightarrow> bool" where
  "is_volume_attach (VolumeAttach v u m) = True"
| "is_volume_attach c = False"

text \<open>
  \<open>quiet_after h w\<close>: in the world \<open>w\<close> no call raises once the calls \<open>h\<close> have been made.
\<close>

definition quiet_after :: "call list \<Rightarrow> world \<Rightarrow> bool" where
  "quiet_after h0 w = (\<forall>h c. prefix h0 h \<longrightarrow> fails w h c = None)"

section \<open>Concrete worlds and instances\<close>

text \<open>
  A world in which nothing has been called yet, no call raises, every zone exists, is a
  running kernel zone, and holds an empty configuration; every volume is a local one.
\<close>

definition some_volume :: volume_rec where
  "some_volume = \<lparr>vol_id = ''vol-new'', display_name = ''root'',
                  display_description = ''root disk'', status = ''available''\<rparr>"

definition local_connection :: connection_info where
  "local_connection = \<lparr>driver_volume_type = ''local'', volume_path = Some ''rpool/volumes/v1'',
                        serial = None, data = None\<rparr>"

definition quiet_text :: "call list \<Rightarrow> call \<Rightarrow> string" where
  "quiet_text h c =
     (case c of ZoneState z \<Rightarrow> ''running'' | ZoneBrand z \<Rightarrow> ''solaris-kz'' | _ \<Rightarrow> [])"

definition quiet_world :: world where
  "quiet_world =
     \<lparr>trace = [], fails = (\<lambda>h c. None), reply_bool = (\<lambda>h c. True),
      reply_text = quiet_text, reply_volume = (\<lambda>h c. some_volume),
      reply_kstat = (\<lambda>h c. []), reply_connection = (\<lambda>h c. local_connection),
      config = (\<lambda>z. []), pending = (\<lambda>z. None), fc_hbas = [], my_ip = ''10.0.0.1'',
      zones_suspend_path = ''/system/zones'', nfs_username = None, nfs_groupname = None,
      uid = 0, gid = 0\<rparr>"

definition kz_flavor :: flavor where
  "kz_flavor = \<lparr>flavor_name = ''kz.small'', extra_specs = [''zonecfg:brand'' \<mapsto> ''solaris-kz''],
                flavor_root_gb = 20\<rparr>"

definition i2 :: nova_instance where
  "i2 = \<lparr>name = ''instance-00000002'', uuid = ''uuid-2'', display_name_of = ''i2'',
         memory_mb = 2000, vcpus = 2, root_gb = 20, task_state = None,
         system_metadata = Map.empty, instance_flavor = kz_flavor, image_ref = Some ''image-1'',
         root_device_name = ''c1d0'', host = ''host-a'', node = ''host-a'',
         launched_on = ''host-a'', config_drive = False\<rparr>"

text \<open>A world like \<open>quiet_world\<close> in which the zone manager finds no zone.\<close>

definition absent_fails :: "call list \<Rightarrow> call \<Rightarrow> error option" where
  "absent_fails h c = (case c of GetZone z \<Rightarrow> Some NotFoundError | _ \<Rightarrow> None)"

definition absent_world :: world where
  "absent_world = quiet_world\<lparr>fails := absent_fails\<rparr>"

definition sol_flavor :: flavor where
  "sol_flavor = \<lparr>flavor_name = ''ngz.small'', extra_specs = [''zonecfg:brand'' \<mapsto> ''solaris''],
                 flavor_root_gb = 20\<rparr>"

definition i1 :: nova_instance where
  "i1 = \<lparr>name = ''instance-00000001'', uuid = ''uuid-1'', display_name_of = ''i1'',
         memory_mb = 2048, vcpus = 2, root_gb = 20, task_state = None,
         system_metadata = Map.empty, instance_flavor = sol_flavor, image_ref = Some ''image-1'',
         root_device_name = ''c1d0'', host = ''host-a'', node = ''host-a'',
         launched_on = ''host-a'', config_drive = False\<rparr>"

text \<open>
  An instance whose resize is being reverted: once with the saved state \<open>resized\<close>, once
  with no \<open>old_vm_state\<close> in its system metadata.
\<close>

definition i_reverting :: nova_instance where
  "i_reverting = i1\<lparr>task_state := Some ''resize_reverting'',
                      system_metadata := [''old_vm_state'' \<mapsto> ''resized'',
                                          ''old_instance_volid'' \<mapsto> ''vol-old'']\<rparr>"

definition i_reverting_bare :: nova_instance where
  "i_reverting_bare = i1\<lparr>task_state := Some ''resize_reverting''\<rparr>"

text \<open>
  A zone with one \<open>capped-memory\<close> resource, outside and inside an edit session; the same
  zone behind a zone manager whose \<^verbatim>\<open>cancelConfig\<close> raises; a session body that changes
  the memory cap and then raises.
\<close>

definition capped_memory :: resource where
  "capped_memory = Resource ''capped-memory'' [Property ''physical'' ''2048M'']"

definition editing_world :: world where
  "editing_world = quiet_world\<lparr>config := (\<lambda>z. [capped_memory]), pending := (\<lambda>z. Some [capped_memory])\<rparr>"

definition configured_world :: world where
  "configured_world = quiet_world\<lparr>config := (\<lambda>z. [capped_memory])\<rparr>"

definition cancel_fails :: "call list \<Rightarrow> call \<Rightarrow> error option" where
  "cancel_fails h c = (case c of CancelConfig z \<Rightarrow> Some (ObjectError ''SYSTEM_ERROR'') | _ \<Rightarrow> None)"

definition broken_cancel_world :: world where
  "broken_cancel_world = configured_world\<lparr>fails := cancel_fails\<rparr>"

definition zc1 :: zone_config where
  "zc1 = \<lparr>zc_zone = ''z1'', editing = True\<rparr>"

definition failing_session :: "statement list" where
  "failing_session = [Setprop ''capped-memory'' ''physical'' ''4096M'',
                      Raise (NotImplementedError ''must set mountpoint'')]"

text \<open>Flavors with a smaller root disk than the 20 GB of \<open>i1\<close> and \<open>i2\<close>.\<close>

definition kz_flavor_10 :: flavor where
  "kz_flavor_10 = kz_flavor\<lparr>flavor_name := ''kz.tiny'', flavor_root_gb := 10\<rparr>"

definition sol_flavor_10 :: flavor where
  "sol_flavor_10 = sol_flavor\<lparr>flavor_name := ''ngz.tiny'', flavor_root_gb := 10\<rparr>"

text \<open>
  A host whose only Fibre Channel port is an initiator port that is offline, as
  \<^verbatim>\<open>fcinfo hba-port\<close> prints it, and on which no lookup finds the volume; a host on which
  \<^verbatim>\<open>fcinfo\<close> fails; and a Fibre Channel volume.
\<close>

definition unlines :: "string list \<Rightarrow> string" where
  "unlines ls = concat (map (\<lambda>l. l @ [CHR 0x0A]) ls)"

definition fcinfo_offline :: string where
  "fcinfo_offline = unlines
     [''HBA Port WWN: 10000000c9aaaaaa'',
      ''        Port Mode: Initiator'',
      ''        Port ID: 0'',
      ''        OS Device Name: /dev/cfg/c5'',
      ''        State: offline'',
      ''        Node WWN: 20000000c9aaaaaa'',
      ''        Max NPIV Ports: 255'']"

definition offline_text :: "call list \<Rightarrow> call \<Rightarrow> string" where
  "offline_text h c =
     (case c of Execute cmd \<Rightarrow> if cmd = [''/usr/sbin/fcinfo'', ''hba-port''] then fcinfo_offline else []
      | _ \<Rightarrow> quiet_text h c)"

definition lookup_fails :: "call list \<Rightarrow> call \<Rightarrow> error option" where
  "lookup_fails h c = (if is_lookup c then Some (ProcessExecutionError ''no such LU'') else None)"

definition offline_port_world :: world where
  "offline_port_world = quiet_world\<lparr>reply_text := offline_text, fails := lookup_fails\<rparr>"

definition fcinfo_fails :: "call list \<Rightarrow> call \<Rightarrow> error option" where
  "fcinfo_fails h c =
     (if c = Execute [''/usr/sbin/fcinfo'', ''hba-port'']
      then Some (ProcessExecutionError ''fcinfo: no HBA'') else None)"

definition no_hba_world :: world where
  "no_hba_world = quiet_world\<lparr>fails := fcinfo_fails\<rparr>"

definition fc_volume :: connection_info where
  "fc_volume = \<lparr>driver_volume_type = ''fibre_channel'', volume_path = None, serial = Some ''vol-fc'',
                 data = Some [''target_wwn'' \<mapsto> PStr ''500a098280feeba5'', ''target_lun'' \<mapsto> PInt 1]\<rparr>"

text \<open>
  The kstat snapshots of a zone \<open>z1\<close> with two CPUs. In \<open>stable_world\<close> the generation
  number of the accumulator stays 7; in \<open>changing_world\<close> it is the number of calls made so
  far, so it differs from one read to the next; in \<open>down_world\<close> the zone is installed and
  not running.
\<close>

definition cpu_snapshot :: "int \<Rightarrow> int \<Rightarrow> (string \<times> kval) list" where
  "cpu_snapshot kern usr =
     [(''sys'', KKstat [(''cpu_nsec_kernel_cur'', KInt kern), (''cpu_nsec_user_cur'', KInt usr)])]"

definition accum_snapshot :: "int \<Rightarrow> (string \<times> kval) list" where
  "accum_snapshot gen =
     [(''gen_num'', KInt gen), (''cpu_nsec_user'', KInt 1000), (''cpu_nsec_kernel'', KInt 500)]"

definition z1_kstat :: "(call list \<Rightarrow> int) \<Rightarrow> call list \<Rightarrow> call \<Rightarrow> (string \<times> kval) list" where
  "z1_kstat gen h c =
     (if c = KstatGetMap ''kstat:/zones/z1/cpu/accum/sys'' then accum_snapshot (gen h)
      else if c = KstatGetMap ''kstat:/zones/z1/cpu''
      then [(''pset_accum'', KKstat []), (''accum'', KKstat []), (''0'', KKstat []), (''1'', KKstat [])]
      else if c = KstatGetMap ''kstat:/zones/z1/cpu/0'' then cpu_snapshot 10 20
      else if c = KstatGetMap ''kstat:/zones/z1/cpu/1'' then cpu_snapshot 30 40
      else [])"

definition stable_world :: world where
  "stable_world = quiet_world\<lparr>reply_kstat := z1_kstat (\<lambda>h. 7)\<rparr>"

definition changing_world :: world where
  "changing_world = quiet_world\<lparr>reply_kstat := z1_kstat (\<lambda>h. int (length h))\<rparr>"

definition installed_text :: "call list \<Rightarrow> call \<Rightarrow> string" where
  "installed_text h c = (case c of ZoneState z \<Rightarrow> ''installed'' | _ \<Rightarrow> quiet_text h c)"

definition down_world :: world where
  "down_world = stable_world\<lparr>reply_text := installed_text\<rparr>"

text \<open>
  A resize with a new root volume \<open>vol-new\<close> cloned from \<open>vol-old\<close>, which the block device
  mapping has at the root device. \<open>i_resizing\<close> carries the two notes that
  \<^verbatim>\<open>migrate_disk_and_power_off\<close> leaves in the system metadata; \<open>i_unnoted\<close> does not. In
  \<open>power_on_fails_world\<close> the first \<^verbatim>\<open>_power_on\<close> raises and nothing else does.
\<close>

definition new_volume :: volume_rec where
  "new_volume = \<lparr>vol_id = ''vol-new'', display_name = ''root-resized'',
                  display_description = ''root disk'', status = ''available''\<rparr>"

definition root_entry :: bdm_entry where
  "root_entry =
     \<lparr>mount_device = ''c1d0'',
      entry_connection_info = \<lparr>driver_volume_type = ''iscsi'', volume_path = None,
                                serial = Some ''vol-old'', data = Some Map.empty\<rparr>\<rparr>"

definition root_mapping :: block_device_info where
  "root_mapping = \<lparr>block_device_mapping = Some [root_entry]\<rparr>"

definition i_resizing :: nova_instance where
  "i_resizing = i2\<lparr>task_state := Some ''resize_finish'', host := ''host-b'', node := ''host-b'',
                    system_metadata := [''old_instance_volid'' \<mapsto> ''vol-old'',
                                        ''new_instance_volid'' \<mapsto> ''vol-new'']\<rparr>"

definition i_unnoted :: nova_instance where
  "i_unnoted = i_resizing\<lparr>system_metadata := Map.empty\<rparr>"

fun is_helper_power_on :: "call \<Rightarrow> bool" where
  "is_helper_power_on (Helper m args) = (m = ''_power_on'')"
| "is_helper_power_on c = False"

definition power_on_fails :: "call list \<Rightarrow> call \<Rightarrow> error option" where
  "power_on_fails h c =
     (case c of
        Helper m args \<Rightarrow>
          if m = ''_power_on'' \<and> \<not> list_ex is_helper_power_on h
          then Some (InstancePowerOnFailure ''boot failed'') else None
      | _ \<Rightarrow> None)"

definition power_on_fails_world :: world where
  "power_on_fails_world = quiet_world\<lparr>fails := power_on_fails\<rparr>"

text \<open>
  The same world once a migration to another host has attached \<open>vol-new\<close> in place of
  \<open>vol-old\<close>, configured the zone, and failed to power it on.
\<close>

definition failed_power_on_world :: world where
  "failed_power_on_world =
     power_on_fails_world\<lparr>trace :=
       [Helper ''get_volume_connector'' [''instance-00000002''],
        InitializeConnection ''vol-new'', VolumeDetach ''vol-old'',
        VolumeAttach ''vol-new'' ''uuid-2'' ''c1d0'',
        BdmGetByVolumeId ''vol-old'', BdmSave ''vol-old'' ''vol-new'',
        Helper ''_create_config'' [''instance-00000002''],
        GetZone ''instance-00000002'',
        ZoneAttach ''instance-00000002'' [''-x'', ''initialize-hostdata''],
        Helper ''_power_on'' [''instance-00000002'']]\<rparr>"

section \<open>Theorems\<close>

text \<open>
  C5. A spawn of an instance whose flavor selects the kernel-zone brand and whose memory
  size in MB is not a multiple of 256 raises \<open>MemoryAlignmentIncorrect\<close> and leaves the
  world as it was: no call has been issued, so nothing was fetched and no zone
  configuration was created.
\<close>

theorem spawn_unaligned_kernel_zone_rejected:
  assumes "flavor_brand (get_flavor inst) = ZONE_BRAND_SOLARIS_KZ"
    and "\<not> 256 dvd memory_mb inst"
  shows "spawn inst container_format power_on w =
           (Inl (MemoryAlignmentIncorrect (flavor_name (get_flavor inst))
                   (str_int (memory_mb inst)) ''256''), w)"
proof -
  from assms(2) have "memory_mb inst mod 256 \<noteq> 0"
    by (simp add: dvd_eq_mod_eq_0)
  with assms(1) have "validate_flavor inst =
      Inl (MemoryAlignmentIncorrect (flavor_name (get_flavor inst))
             (str_int (memory_mb inst)) ''256'')"
    by (simp add: validate_flavor_def Let_def MEMORY_ALIGNMENT_IN_MB_def)
  then show ?thesis
    by (simp add: spawn_def raise_def)
qed

theorem spawn_unaligned_kernel_zone_rejected_witness:
  "flavor_brand (get_flavor i2) = ZONE_BRAND_SOLARIS_KZ \<and> \<not> 256 dvd memory_mb i2 \<and>
   spawn i2 ''ovf'' True quiet_world =
     (Inl (MemoryAlignmentIncorrect ''kz.small'' ''2000'' ''256''), quiet_world)"
proof -
  have b: "flavor_brand (get_flavor i2) = ZONE_BRAND_SOLARIS_KZ"
    by (simp add: flavor_brand_def get_flavor_def i2_def kz_flavor_def ZONE_BRAND_SOLARIS_KZ_def)
  have m: "\<not> 256 dvd memory_mb i2"
    by (simp add: i2_def)
  have s: "str_int (memory_mb i2) = ''2000''"
    by (simp add: str_int_def i2_def digit_char_def)
  have f: "flavor_name (get_flavor i2) = ''kz.small''"
    by (simp add: get_flavor_def i2_def kz_flavor_def)
  from spawn_unaligned_kernel_zone_rejected [OF b m, of "''ovf''" True quiet_world] s f
  have "spawn i2 ''ovf'' True quiet_world =
     (Inl (MemoryAlignmentIncorrect ''kz.small'' ''2000'' ''256''), quiet_world)"
    by simp
  with b m show ?thesis by simp
qed

subsection \<open>What the parts of \<open>destroy\<close> leave unchanged\<close>

lemma invoke_fails [simp]: "fails (snd (invoke c w)) = fails w"
  by (simp add: invoke_def)

lemma destroy_console_returns:
  "\<exists>w'. destroy_console inst w = (Inr (), w') \<and> fails w' = fails w"
  by (auto simp: destroy_console_def swallow_def catch_def andthen_def has_vnc_console_service_def
        helper_def invoke_def ok_def split: option.splits)

lemma get_zone_by_name_absent:
  assumes "fails w (trace w) (GetZone n) = Some NotFoundError"
  shows "fst (get_zone_by_name n w) = Inr None"
  using assms by (simp add: get_zone_by_name_def invoke_def)

lemma destroy_rest_absent:
  assumes "\<forall>h. fails w h (GetZone (name inst)) = Some NotFoundError"
  shows "fst (destroy_rest (inst, w)) = Inr ()"
proof -
  obtain w1 where c: "destroy_console inst w = (Inr (), w1)" and f: "fails w1 = fails w"
    using destroy_console_returns by blast
  from assms f have "fails w1 (trace w1) (GetZone (name inst)) = Some NotFoundError"
    by simp
  then have "fst (get_zone_by_name (name inst) w1) = Inr None"
    by (rule get_zone_by_name_absent)
  then obtain w2 where z: "get_zone_by_name (name inst) w1 = (Inr None, w2)"
    by (cases "get_zone_by_name (name inst) w1") simp
  show ?thesis
    by (simp add: destroy_rest_def Let_def andthen_def lift_def c z ok_def)
qed

text \<open>
  C10. When the task state is \<open>resize_reverting\<close> and the saved old VM state is
  \<open>resized\<close>, \<open>destroy\<close> returns at once: the instance and the world are the ones it was
  given, so the trace has no new call (no console-service, zone or volume operation) and
  no zone configuration has changed, whether the zone exists or not.
\<close>

theorem destroy_resize_reverting_resized_untouched:
  assumes "task_state inst = Some RESIZE_REVERTING"
    and "system_metadata inst ''old_vm_state'' = Some RESIZED"
  shows "destroy (inst, w) = (Inr (), (inst, w))"
  using assms by (simp add: destroy_def ok_def)

theorem destroy_resize_reverting_resized_untouched_witness:
  "task_state i_reverting = Some RESIZE_REVERTING \<and>
   system_metadata i_reverting ''old_vm_state'' = Some RESIZED \<and>
   fst (get_zone_by_name (name i_reverting) quiet_world) = Inr (Some (name i_reverting)) \<and>
   destroy (i_reverting, quiet_world) = (Inr (), (i_reverting, quiet_world))"
proof -
  have t: "task_state i_reverting = Some RESIZE_REVERTING"
    by (simp add: i_reverting_def RESIZE_REVERTING_def)
  have m: "system_metadata i_reverting ''old_vm_state'' = Some RESIZED"
    by (simp add: i_reverting_def RESIZED_def)
  have z: "fst (get_zone_by_name (name i_reverting) quiet_world) = Inr (Some (name i_reverting))"
    by (simp add: get_zone_by_name_def invoke_def quiet_world_def)
  from destroy_resize_reverting_resized_untouched [OF t m, of quiet_world] t m z
  show ?thesis by simp
qed

text \<open>
  C4. The code departs from the claim: with the task state \<open>resize_reverting\<close> and no
  \<open>old_vm_state\<close> in the system metadata, \<open>destroy\<close> raises \<open>KeyError\<close> although the zone
  does not exist. The key is read with a subscript before the zone is looked up; the
  docstring of \<^verbatim>\<open>destroy\<close> says that the function should still succeed when the instance
  is not found, and the other reads of the system metadata in it use \<^verbatim>\<open>get\<close>.
\<close>

theorem destroy_absent_zone_keyerror:
  "fst (get_zone_by_name (name i_reverting_bare) absent_world) = Inr None \<and>
   destroy (i_reverting_bare, absent_world) =
     (Inl (KeyError ''old_vm_state''), (i_reverting_bare, absent_world))"
  by (simp add: destroy_def raise_def i_reverting_bare_def i1_def RESIZE_REVERTING_def
        get_zone_by_name_def invoke_def absent_world_def absent_fails_def quiet_world_def)

text \<open>
  Past that read the lookup is reached, and \<open>destroy\<close> returns normally when the zone
  manager finds no zone of the instance's name: for every instance whose system metadata
  has \<open>old_vm_state\<close> whenever its task state is \<open>resize_reverting\<close>, as long as saving the
  instance succeeds on the evacuation path (\<open>evac_from\<close> set, no task state).
\<close>

theorem destroy_absent_zone_returns:
  assumes "\<forall>h. fails w h (GetZone (name inst)) = Some NotFoundError"
    and "task_state inst = Some RESIZE_REVERTING \<longrightarrow> system_metadata inst ''old_vm_state'' \<noteq> None"
    and "system_metadata inst ''evac_from'' \<noteq> None \<and> task_state inst = None
           \<longrightarrow> fails w (trace w) InstanceSave = None"
  shows "fst (destroy (inst, w)) = Inr ()"
proof -
  have rest: "fst (destroy_rest (inst, w)) = Inr ()"
    using assms(1) by (rule destroy_rest_absent)
  have evac: "fst (destroy_unless_evacuated (inst, w)) = Inr ()"
    using assms(3) rest
    by (auto simp: destroy_unless_evacuated_def destroy_evacuated_def lift_def invoke_def
          split: option.splits)
  show ?thesis
    using assms(2) evac
    by (auto simp: destroy_def ok_def split: option.splits)
qed

theorem destroy_absent_zone_returns_witness:
  "(\<forall>h. fails absent_world h (GetZone (name i1)) = Some NotFoundError) \<and>
   fst (destroy (i1, absent_world)) = Inr ()"
proof -
  have a: "\<forall>h. fails absent_world h (GetZone (name i1)) = Some NotFoundError"
    by (simp add: absent_world_def absent_fails_def)
  have b: "task_state i1 = Some RESIZE_REVERTING \<longrightarrow> system_metadata i1 ''old_vm_state'' \<noteq> None"
    by (simp add: i1_def)
  have c: "system_metadata i1 ''evac_from'' \<noteq> None \<and> task_state i1 = None
             \<longrightarrow> fails absent_world (trace absent_world) InstanceSave = None"
    by (simp add: i1_def)
  from destroy_absent_zone_returns [OF a b c] a show ?thesis by simp
qed

subsection \<open>Edit sessions\<close>

lemma zone_call_trace: "trace (snd (zone_call c w)) = trace w @ [c]"
  by (cases c) (auto simp: zone_call_def andthen_def invoke_def set_pending_def split: option.splits)

lemma zone_call_config: "\<not> is_commit c \<Longrightarrow> config (snd (zone_call c w)) = config w"
  by (cases c) (auto simp: zone_call_def andthen_def invoke_def set_pending_def split: option.splits)

lemma zone_call_fails: "fails (snd (zone_call c w)) = fails w"
  by (cases c) (auto simp: zone_call_def andthen_def invoke_def set_pending_def split: option.splits)

lemma lookup_resource_property_world:
  "snd (lookup_resource_property z r p f w) = w\<lparr>trace := trace w @ [GetResourceProperties z (Resource r f) [p]]\<rparr>"
  by (auto simp: lookup_resource_property_def catch_def andthen_def getResourceProperties_def
      invoke_def ok_def raise_def split: option.splits error.splits list.splits)

lemma edits_refl: "edits w w" by (simp add: edits_def)

lemma edits_trans: "edits w w1 \<Longrightarrow> edits w1 w2 \<Longrightarrow> edits w w2"
  by (auto simp: edits_def)

lemma zone_call_edits: "\<not> is_commit c \<Longrightarrow> edits w (snd (zone_call c w))"
  by (simp add: edits_def zone_call_trace zone_call_config zone_call_fails)

lemma lookup_edits: "edits w (snd (lookup_resource_property z r p f w))"
  by (simp add: edits_def lookup_resource_property_world)

lemma andthen_edits:
  assumes "\<And>w. edits w (snd (m w))" and "\<And>x w. edits w (snd (f x w))"
  shows "edits w (snd (andthen m f w))"
proof (cases "m w")
  case (Pair r w1)
  with assms(1)[of w] have e1: "edits w w1" by simp
  show ?thesis
  proof (cases r)
    case (Inl e) with Pair e1 show ?thesis by (simp add: andthen_def)
  next
    case (Inr x)
    with Pair have "andthen m f w = f x w1" by (simp add: andthen_def)
    with assms(2)[of w1 x] e1 show ?thesis by (auto intro: edits_trans)
  qed
qed

lemma catch_edits:
  assumes "\<And>w. edits w (snd (m w))" and "\<And>x w. edits w (snd (h x w))"
  shows "edits w (snd (catch m h w))"
proof (cases "m w")
  case (Pair r w1)
  with assms(1)[of w] have e1: "edits w w1" by simp
  show ?thesis
  proof (cases r)
    case (Inr e) with Pair e1 show ?thesis by (simp add: catch_def)
  next
    case (Inl x)
    with Pair have "catch m h w = h x w1" by (simp add: catch_def)
    with assms(2)[of w1 x] e1 show ?thesis by (auto intro: edits_trans)
  qed
qed

lemma ok_edits: "edits w (snd (ok x w))" by (simp add: ok_def edits_refl)
lemma raise_edits: "edits w (snd (raise e w))" by (simp add: raise_def edits_refl)

lemma exec_edits: "edits w (snd (exec st zc w))"
proof (cases st)
  case (Setprop r p v)
  show ?thesis unfolding Setprop exec.simps setprop_def
    by (rule andthen_edits) (auto simp: lookup_edits ok_edits zone_call_edits)
next
  case (Addresource r ps i)
  show ?thesis unfolding Addresource exec.simps addresource_def
    by (rule catch_edits) (auto simp: raise_edits zone_call_edits)
qed (simp_all add: removeresources_def clear_resource_props_def zone_call_edits raise_edits)

lemma run_edits: "edits w (snd (run sts zc w))"
proof (induction sts arbitrary: w)
  case Nil show ?case by (simp add: ok_edits)
next
  case (Cons st sts)
  show ?case unfolding run.simps
    by (rule andthen_edits) (simp_all add: exec_edits Cons.IH)
qed


lemma lookup_resource_property_world':
  "lookup_resource_property z r p f w = (res, w1) \<Longrightarrow> w1 = w\<lparr>trace := trace w @ [GetResourceProperties z (Resource r f) [p]]\<rparr>"
  using lookup_resource_property_world [of z r p f w] by simp

text \<open>
  C2. When the lookup that \<open>setprop\<close> starts with finds the property with the value that
  is to be set, \<open>setprop\<close> returns normally and the world differs from the one before
  only by that one read in the trace: neither \<^verbatim>\<open>addResource\<close> nor
  \<^verbatim>\<open>setResourceProperties\<close> (nor any other mutation) is called.
\<close>

theorem setprop_current_value_noop:
  assumes "fst (lookup_resource_property (zc_zone self) resource prop [] w) = Inr (Some v)"
  shows "setprop self resource prop v w =
           (Inr (), w\<lparr>trace := trace w @ [GetResourceProperties (zc_zone self) (Resource resource []) [prop]]\<rparr>)
         \<and> \<not> list_ex is_mutation (calls_since w (snd (setprop self resource prop v w)))"
proof -
  obtain r w1 where l: "lookup_resource_property (zc_zone self) resource prop [] w = (r, w1)"
    by (cases "lookup_resource_property (zc_zone self) resource prop [] w")
  with assms have r: "r = Inr (Some v)" by simp
  from l have w1: "w1 = w\<lparr>trace := trace w @ [GetResourceProperties (zc_zone self) (Resource resource []) [prop]]\<rparr>"
    by (rule lookup_resource_property_world')
  have s: "setprop self resource prop v w = (Inr (), w1)"
    by (simp add: setprop_def andthen_def l r ok_def)
  show ?thesis
    by (simp add: s w1 calls_since_def)
qed

theorem setprop_current_value_noop_witness:
  "fst (lookup_resource_property (zc_zone zc1) ''capped-memory'' ''physical'' [] editing_world) = Inr (Some ''2048M'')
   \<and> setprop zc1 ''capped-memory'' ''physical'' ''2048M'' editing_world =
       (Inr (), editing_world\<lparr>trace := [GetResourceProperties ''z1'' (Resource ''capped-memory'' []) [''physical'']]\<rparr>)"
proof -
  have l: "fst (lookup_resource_property (zc_zone zc1) ''capped-memory'' ''physical'' [] editing_world) = Inr (Some ''2048M'')"
    by (simp add: lookup_resource_property_def catch_def andthen_def getResourceProperties_def
        invoke_def ok_def editing_world_def quiet_world_def working_copy_def matches_def
        capped_memory_def zc1_def)
  have t: "trace editing_world = []" "zc_zone zc1 = ''z1''"
    by (simp_all add: editing_world_def quiet_world_def zc1_def)
  from setprop_current_value_noop [OF l] l t show ?thesis by simp
qed

lemma enter_ok:
  assumes "ZoneConfig_enter (ZoneConfig_init z) w = (Inr zc, w1)"
  shows "zc = \<lparr>zc_zone = z, editing = True\<rparr>" and "config w1 = config w" and "fails w1 = fails w"
    and "trace w1 = trace w @ [EditConfig z]"
  using assms
  by (auto simp: ZoneConfig_enter_def ZoneConfig_init_def catch_def andthen_def zone_call_def
      invoke_def ok_def raise_def set_pending_def split: option.splits if_splits)

lemma cancel_result:
  "zone_call (CancelConfig z) w =
     (case fails w (trace w) (CancelConfig z) of
        None \<Rightarrow> (Inr (), set_pending z None (w\<lparr>trace := trace w @ [CancelConfig z]\<rparr>))
      | Some e' \<Rightarrow> (Inl e', w\<lparr>trace := trace w @ [CancelConfig z]\<rparr>))"
  by (simp add: zone_call_def andthen_def invoke_def split: option.splits)

text \<open>
  What \<^verbatim>\<open>__exit__\<close> does in an edit session whose \<^verbatim>\<open>editConfig\<close> succeeded and whose body
  raises \<open>e\<close>: it calls \<^verbatim>\<open>cancelConfig\<close> as the last call and never \<^verbatim>\<open>commitConfig\<close>, and
  the committed configuration of every zone is the one before the session. The
  exception that leaves the session is \<open>e\<close> when \<^verbatim>\<open>cancelConfig\<close> returns; when that call
  raises, its exception leaves the session.
\<close>

theorem edit_session_exception_cancels:
  assumes enter: "ZoneConfig_enter (ZoneConfig_init z) w = (Inr zc, w1)"
    and body: "run sts zc w1 = (Inl e, w2)"
  shows "fst (with_ZoneConfig z (run sts) w) =
           Inl (case fails w (trace w2) (CancelConfig z) of None \<Rightarrow> e | Some e' \<Rightarrow> e')
       \<and> config (snd (with_ZoneConfig z (run sts) w)) = config w
       \<and> trace (snd (with_ZoneConfig z (run sts) w)) = trace w2 @ [CancelConfig z]
       \<and> \<not> list_ex is_commit (calls_since w (snd (with_ZoneConfig z (run sts) w)))"
proof -
  note en = enter_ok [OF enter]
  from run_edits [of w1 sts zc] body have ed: "edits w1 w2" by simp
  then obtain cs where cs: "trace w2 = trace w1 @ cs" "\<not> list_ex is_commit cs"
    and c2: "config w2 = config w1" and f2: "fails w2 = fails w1"
    by (auto simp: edits_def)
  have zc: "editing zc" "zc_zone zc = z" using en(1) by simp_all
  have ex: "ZoneConfig_exit zc (Some e) w2 =
      (case fails w (trace w2) (CancelConfig z) of
        None \<Rightarrow> (Inl e, set_pending z None (w2\<lparr>trace := trace w2 @ [CancelConfig z]\<rparr>))
      | Some e' \<Rightarrow> (Inl e', w2\<lparr>trace := trace w2 @ [CancelConfig z]\<rparr>))"
    by (simp add: ZoneConfig_exit_def zc andthen_def cancel_result raise_def f2 en(3)
        split: option.splits)
  have w: "with_ZoneConfig z (run sts) w =
      (case fails w (trace w2) (CancelConfig z) of
        None \<Rightarrow> (Inl e, set_pending z None (w2\<lparr>trace := trace w2 @ [CancelConfig z]\<rparr>))
      | Some e' \<Rightarrow> (Inl e', w2\<lparr>trace := trace w2 @ [CancelConfig z]\<rparr>))"
    by (simp add: with_ZoneConfig_def enter body ex split: option.splits)
  show ?thesis
    by (simp add: w c2 en cs calls_since_def set_pending_def split: option.splits)
qed


lemmas session_defs = ZoneConfig_enter_def ZoneConfig_init_def ZoneConfig_exit_def with_ZoneConfig_def
  setprop_def lookup_resource_property_def getResourceProperties_def zone_call_def
  catch_def andthen_def invoke_def ok_def raise_def set_pending_def working_copy_def matches_def

theorem edit_session_exception_cancels_witness:
  "fst (ZoneConfig_enter (ZoneConfig_init ''z1'') configured_world) = Inr zc1
   \<and> fst (run failing_session zc1 (snd (ZoneConfig_enter (ZoneConfig_init ''z1'') configured_world)))
       = Inl (NotImplementedError ''must set mountpoint'')
   \<and> fst (with_ZoneConfig ''z1'' (run failing_session) configured_world)
       = Inl (NotImplementedError ''must set mountpoint'')
   \<and> config (snd (with_ZoneConfig ''z1'' (run failing_session) configured_world)) ''z1'' = [capped_memory]
   \<and> trace (snd (with_ZoneConfig ''z1'' (run failing_session) configured_world)) =
       [EditConfig ''z1'',
        GetResourceProperties ''z1'' (Resource ''capped-memory'' []) [''physical''],
        SetResourceProperties ''z1'' (Resource ''capped-memory'' []) [Property ''physical'' ''4096M''],
        CancelConfig ''z1'']"
proof -
  define w1 where "w1 = snd (ZoneConfig_enter (ZoneConfig_init ''z1'') configured_world)"
  define w2 where "w2 = snd (run failing_session zc1 w1)"
  have e1: "fst (ZoneConfig_enter (ZoneConfig_init ''z1'') configured_world) = Inr zc1"
    by (simp add: session_defs configured_world_def quiet_world_def zc1_def)
  have enter: "ZoneConfig_enter (ZoneConfig_init ''z1'') configured_world = (Inr zc1, w1)"
    using e1 by (simp add: w1_def prod_eq_iff)
  have b1: "fst (run failing_session zc1 w1) = Inl (NotImplementedError ''must set mountpoint'')"
    by (simp add: w1_def failing_session_def session_defs configured_world_def quiet_world_def
        zc1_def capped_memory_def set_properties_def)
  have body: "run failing_session zc1 w1 = (Inl (NotImplementedError ''must set mountpoint''), w2)"
    using b1 by (simp add: w2_def prod_eq_iff)
  have t2: "trace w2 = [EditConfig ''z1'',
        GetResourceProperties ''z1'' (Resource ''capped-memory'' []) [''physical''],
        SetResourceProperties ''z1'' (Resource ''capped-memory'' []) [Property ''physical'' ''4096M'']]"
    by (simp add: w2_def w1_def failing_session_def session_defs configured_world_def quiet_world_def
        zc1_def capped_memory_def set_properties_def)
  have f: "fails configured_world (trace w2) (CancelConfig ''z1'') = None"
    by (simp add: configured_world_def quiet_world_def)
  have c: "config configured_world ''z1'' = [capped_memory]"
    by (simp add: configured_world_def)
  from edit_session_exception_cancels [OF enter body] e1 b1 t2 f c
  show ?thesis by (simp add: w1_def)
qed

text \<open>
  C1. The code departs from the claim where \<^verbatim>\<open>cancelConfig\<close> itself raises: the call is
  not guarded, so the caller sees its exception and not the one raised inside the edit
  scope, which the docstring of \<^verbatim>\<open>__exit__\<close> says is re-raised. Here the body of the
  session raises \<open>NotImplementedError\<close> and the caller gets the \<open>ObjectError\<close> of
  \<^verbatim>\<open>cancelConfig\<close>.
\<close>

theorem edit_session_cancel_raises:
  "fst (ZoneConfig_enter (ZoneConfig_init ''z1'') broken_cancel_world) = Inr zc1
   \<and> fst (run failing_session zc1 (snd (ZoneConfig_enter (ZoneConfig_init ''z1'') broken_cancel_world)))
       = Inl (NotImplementedError ''must set mountpoint'')
   \<and> fst (with_ZoneConfig ''z1'' (run failing_session) broken_cancel_world)
       = Inl (ObjectError ''SYSTEM_ERROR'')"
  by (simp add: failing_session_def session_defs broken_cancel_world_def cancel_fails_def
      configured_world_def quiet_world_def zc1_def capped_memory_def set_properties_def)

subsection \<open>Suspend\<close>

lemma andthen_rel:
  assumes tr: "\<And>a b c. R a b \<Longrightarrow> R b c \<Longrightarrow> R a c"
    and m: "\<And>w. R w (snd (m w))" and f: "\<And>x w. R w (snd (f x w))"
  shows "R w (snd (andthen m f w))"
proof (cases "m w")
  case (Pair r w1)
  with m [of w] have e1: "R w w1" by simp
  show ?thesis
  proof (cases r)
    case (Inl e) with Pair e1 show ?thesis by (simp add: andthen_def)
  next
    case (Inr x)
    with Pair have "andthen m f w = f x w1" by (simp add: andthen_def)
    with f [of w1 x] e1 show ?thesis by (auto intro: tr)
  qed
qed

lemma catch_rel:
  assumes tr: "\<And>a b c. R a b \<Longrightarrow> R b c \<Longrightarrow> R a c"
    and m: "\<And>w. R w (snd (m w))" and h: "\<And>x w. R w (snd (h x w))"
  shows "R w (snd (catch m h w))"
proof (cases "m w")
  case (Pair r w1)
  with m [of w] have e1: "R w w1" by simp
  show ?thesis
  proof (cases r)
    case (Inr e) with Pair e1 show ?thesis by (simp add: catch_def)
  next
    case (Inl x)
    with Pair have "catch m h w = h x w1" by (simp add: catch_def)
    with h [of w1 x] e1 show ?thesis by (auto intro: tr)
  qed
qed

lemma adds_refl: "adds P w w" by (simp add: adds_def)

lemma adds_trans: "adds P a b \<Longrightarrow> adds P b c \<Longrightarrow> adds P a c"
  by (auto simp: adds_def)

lemma andthen_adds:
  assumes "\<And>w. adds P w (snd (m w))" and "\<And>x w. adds P w (snd (f x w))"
  shows "adds P w (snd (andthen m f w))"
  by (rule andthen_rel [where R = "adds P"]) (blast intro: adds_trans assms)+

lemma catch_adds:
  assumes "\<And>w. adds P w (snd (m w))" and "\<And>x w. adds P w (snd (h x w))"
  shows "adds P w (snd (catch m h w))"
  by (rule catch_rel [where R = "adds P"]) (blast intro: adds_trans assms)+

lemma ok_adds: "adds P w (snd (ok x w))" by (simp add: ok_def adds_refl)
lemma raise_adds: "adds P w (snd (raise e w))" by (simp add: raise_def adds_refl)

lemma invoke_adds: "P c \<Longrightarrow> adds P w (snd (invoke c w))"
  by (simp add: adds_def invoke_def)

lemma zone_call_adds: "P c \<Longrightarrow> adds P w (snd (zone_call c w))"
  by (simp add: adds_def zone_call_trace)

lemma ask_text_adds: "P c \<Longrightarrow> adds P w (snd (ask_text c w))"
  by (auto simp: adds_def ask_text_def invoke_def split: option.splits)

lemma get_zone_by_name_adds: "P (GetZone n) \<Longrightarrow> adds P w (snd (get_zone_by_name n w))"
  by (auto simp: adds_def get_zone_by_name_def invoke_def split: option.splits)

lemma get_state_adds: "P (ZoneState z) \<Longrightarrow> adds P w (snd (get_state z w))"
  unfolding get_state_def
  by (rule andthen_adds) (auto simp: ask_text_adds ok_adds raise_adds split: option.splits)

lemma lookup_resource_adds:
  "P (GetResources z (Resource r [])) \<Longrightarrow> adds P w (snd (lookup_resource z r w))"
  by (auto simp: adds_def lookup_resource_def catch_def andthen_def getResources_def invoke_def
      ok_def raise_def split: option.splits error.splits list.splits)

lemma lookup_resource_property_adds:
  "P (GetResourceProperties z (Resource r f) [p]) \<Longrightarrow> adds P w (snd (lookup_resource_property z r p f w))"
  by (simp add: adds_def lookup_resource_property_world)

lemma with_ZoneConfig_adds:
  fixes body :: "zone_config \<Rightarrow> world \<Rightarrow> (error + 'a) \<times> world"
  assumes "P (EditConfig z)" "P (CommitConfig z)" "P (CancelConfig z)"
    and body: "\<And>zc w. zc_zone zc = z \<Longrightarrow> adds P w (snd (body zc w))"
  shows "adds P w (snd (with_ZoneConfig z body w))"
proof -
  have en: "\<And>w. adds P w (snd (ZoneConfig_enter (ZoneConfig_init z) w))"
    unfolding ZoneConfig_enter_def ZoneConfig_init_def
    by (rule catch_adds, rule andthen_adds)
       (simp_all add: zone_call_adds assms ok_adds raise_adds)
  have ex: "\<And>(zc :: zone_config) exc w. zc_zone zc = z \<Longrightarrow> adds P w (snd (ZoneConfig_exit zc exc w))"
  proof -
    fix zc :: zone_config and exc w assume z: "zc_zone zc = z"
    have c: "\<And>ex w. adds P w (snd (andthen (zone_call (CancelConfig z)) (\<lambda>_. raise ex) w))"
      by (rule andthen_adds) (simp_all add: zone_call_adds assms raise_adds)
    have k: "\<And>w. adds P w (snd (catch (zone_call (CommitConfig z))
               (\<lambda>ex. andthen (zone_call (CancelConfig z)) (\<lambda>_. raise ex)) w))"
      by (rule catch_adds) (simp_all add: zone_call_adds assms c)
    show "adds P w (snd (ZoneConfig_exit zc exc w))"
      by (simp add: ZoneConfig_exit_def z c k split: option.splits)
  qed
  obtain r1 w1 where e: "ZoneConfig_enter (ZoneConfig_init z) w = (r1, w1)"
    by (cases "ZoneConfig_enter (ZoneConfig_init z) w")
  with en [of w] have a1: "adds P w w1" by simp
  show ?thesis
  proof (cases r1)
    case (Inl x) with e a1 show ?thesis by (simp add: with_ZoneConfig_def)
  next
    case (Inr zc)
    with e have zc: "zc_zone zc = z"
      by (auto simp: ZoneConfig_enter_def ZoneConfig_init_def catch_def andthen_def ok_def raise_def
          split: prod.splits sum.splits)
    obtain r2 w2 where b: "body zc w1 = (r2, w2)" by (cases "body zc w1")
    with body [OF zc, of w1] have a2: "adds P w1 w2" by simp
    obtain r3 w3 where x: "ZoneConfig_exit zc (case r2 of Inl e \<Rightarrow> Some e | Inr _ \<Rightarrow> None) w2 = (r3, w3)"
      by (cases "ZoneConfig_exit zc (case r2 of Inl e \<Rightarrow> Some e | Inr _ \<Rightarrow> None) w2")
    with ex [OF zc, where w = w2 and exc = "case r2 of Inl e \<Rightarrow> Some e | Inr _ \<Rightarrow> None"]
    have a3: "adds P w2 w3" by simp
    have "snd (with_ZoneConfig z body w) = w3"
      using e Inr b x by (auto simp: with_ZoneConfig_def split: sum.splits)
    with a1 a2 a3 show ?thesis by (auto intro: adds_trans)
  qed
qed

lemma addresource_adds:
  assumes "P (AddResource (zc_zone zc) (Resource r ps))"
    and "P (SetResourceProperties (zc_zone zc) (Resource r []) ps)"
  shows "adds P w (snd (addresource zc r ps i w))"
  unfolding addresource_def
  by (rule catch_adds) (simp_all add: zone_call_adds assms raise_adds)

lemma removeresources_adds:
  assumes "P (RemoveResources (zc_zone zc) (Resource r ps))"
  shows "adds P w (snd (removeresources zc r ps w))"
  unfolding removeresources_def by (simp add: zone_call_adds assms)

lemma set_suspend_adds: "adds (\<lambda>c. \<not> is_helper c) w (snd (set_suspend inst w))"
proof -
  have s: "\<And>zone w0 w. adds (\<lambda>c. \<not> is_helper c) w (snd (with_ZoneConfig zone
            (\<lambda>zc. addresource zc ''suspend'' [Property ''path'' (suspend_path w0)] False) w))"
    by (rule with_ZoneConfig_adds) (simp_all add: addresource_adds)
  show ?thesis
    unfolding set_suspend_def
  proof (rule andthen_adds)
    show "\<And>w. adds (\<lambda>c. \<not> is_helper c) w (snd (get_zone_by_name (name inst) w))"
      by (simp add: get_zone_by_name_adds)
  next
    fix x w
    show "adds (\<lambda>c. \<not> is_helper c) w (snd ((case x of None \<Rightarrow> raise (InstanceNotFound (name inst))
          | Some zone \<Rightarrow> \<lambda>w. with_ZoneConfig zone
             (\<lambda>zc. addresource zc ''suspend'' [Property ''path'' (suspend_path w)] False) w) w))"
      by (cases x) (simp_all add: raise_adds s)
  qed
qed

lemma ensure_suspend_resource_adds: "adds (\<lambda>c. \<not> is_helper c) w (snd (ensure_suspend_resource inst z w))"
  unfolding ensure_suspend_resource_def
proof (rule andthen_adds)
  show "\<And>w. adds (\<lambda>c. \<not> is_helper c) w (snd (lookup_resource z ''suspend'' w))"
    by (simp add: lookup_resource_adds)
next
  fix res w
  have r: "\<And>w. adds (\<lambda>c. \<not> is_helper c) w (snd (andthen (with_ZoneConfig z (\<lambda>zc. removeresources zc ''suspend'' []))
                (\<lambda>_. set_suspend inst) w))"
    by (rule andthen_adds, rule with_ZoneConfig_adds)
       (simp_all add: removeresources_adds set_suspend_adds)
  have p: "\<And>w. adds (\<lambda>c. \<not> is_helper c) w (snd (andthen (lookup_resource_property z ''suspend'' ''path'' []) (\<lambda>p w.
         if p \<noteq> Some (suspend_path w)
         then andthen (with_ZoneConfig z (\<lambda>zc. removeresources zc ''suspend'' []))
                (\<lambda>_. set_suspend inst) w
         else ok () w) w))"
    by (rule andthen_adds) (simp_all add: lookup_resource_property_adds r ok_adds)
  show "adds (\<lambda>c. \<not> is_helper c) w (snd ((case res of None \<Rightarrow> set_suspend inst
            | Some r \<Rightarrow> andthen (lookup_resource_property z ''suspend'' ''path'' []) (\<lambda>p w.
         if p \<noteq> Some (suspend_path w)
         then andthen (with_ZoneConfig z (\<lambda>zc. removeresources zc ''suspend'' []))
                (\<lambda>_. set_suspend inst) w
         else ok () w)) w))"
    by (cases res) (simp_all add: set_suspend_adds p)
qed

lemma andthen_Inr:
  assumes "andthen m f w = (Inr y, w')"
  obtains x w1 where "m w = (Inr x, w1)" and "f x w1 = (Inr y, w')"
  using assms by (auto simp: andthen_def split: prod.splits sum.splits)

text \<open>
  The order in general. When \<open>suspend\<close> returns normally, the calls it issued end with
  \<^verbatim>\<open>zone.suspend()\<close> followed by \<^verbatim>\<open>_unplug_vifs\<close>: the interfaces are unplugged after the
  suspend operation returned, as the last step, and everything before the suspend
  operation (the lookups and the edit sessions that ensure the suspend resource) contains
  no unplugging.
\<close>

theorem suspend_unplugs_after_suspending:
  assumes "fst (suspend inst w) = Inr ()"
  shows "\<exists>cs. calls_since w (snd (suspend inst w)) =
                 cs @ [ZoneSuspend (name inst), Helper ''_unplug_vifs'' [name inst]]
              \<and> \<not> list_ex is_helper cs"
proof -
  obtain w' where s: "suspend inst w = (Inr (), w')"
    using assms by (cases "suspend inst w") simp
  from s obtain z w1 where g: "get_zone_by_name (name inst) w = (Inr z, w1)"
    and s1: "(case z of None \<Rightarrow> raise (InstanceNotFound (name inst))
       | Some zone \<Rightarrow>
         andthen (ask_text (ZoneBrand zone)) (\<lambda>brand.
         if brand \<noteq> ZONE_BRAND_SOLARIS_KZ
         then raise (InstanceSuspendFailure (Reason ''branded zones do not currently support suspend''))
         else andthen (get_state zone) (\<lambda>st.
              if st \<noteq> RUNNING
              then raise (InstanceSuspendFailure (Reason ''Instance is not running.''))
              else catch (suspend_try inst zone)
                     (\<lambda>ex. raise (InstanceSuspendFailure (Strerror ex)))))) w1 = (Inr (), w')"
    unfolding suspend_def by (rule andthen_Inr)
  from g have z: "z = Some (name inst)"
    using s1 by (auto simp: get_zone_by_name_def raise_def split: prod.splits sum.splits if_splits)
  from s1 z obtain brand w2 where b: "ask_text (ZoneBrand (name inst)) w1 = (Inr brand, w2)"
    and s2: "(if brand \<noteq> ZONE_BRAND_SOLARIS_KZ
         then raise (InstanceSuspendFailure (Reason ''branded zones do not currently support suspend''))
         else andthen (get_state (name inst)) (\<lambda>st.
              if st \<noteq> RUNNING
              then raise (InstanceSuspendFailure (Reason ''Instance is not running.''))
              else catch (suspend_try inst (name inst))
                     (\<lambda>ex. raise (InstanceSuspendFailure (Strerror ex))))) w2 = (Inr (), w')"
    by (auto elim: andthen_Inr)
  from s2 obtain st w3 where t: "get_state (name inst) w2 = (Inr st, w3)"
    and s3: "(if st \<noteq> RUNNING
              then raise (InstanceSuspendFailure (Reason ''Instance is not running.''))
              else catch (suspend_try inst (name inst))
                     (\<lambda>ex. raise (InstanceSuspendFailure (Strerror ex)))) w3 = (Inr (), w')"
    by (auto simp: raise_def split: if_splits elim: andthen_Inr)
  from s3 have s4: "suspend_try inst (name inst) w3 = (Inr (), w')"
    by (auto simp: raise_def catch_def split: if_splits prod.splits sum.splits)
  from s4 obtain w4 where e: "ensure_suspend_resource inst (name inst) w3 = (Inr (), w4)"
    and s5: "andthen (invoke (ZoneSuspend (name inst))) (\<lambda>_. mark ''_unplug_vifs'' [name inst]) w4 = (Inr (), w')"
    unfolding suspend_try_def by (auto elim: andthen_Inr)
  from s5 have t': "trace w' = trace w4 @ [ZoneSuspend (name inst), Helper ''_unplug_vifs'' [name inst]]"
    by (auto simp: andthen_def invoke_def mark_def split: option.splits)
  have "adds (\<lambda>c. \<not> is_helper c) w w1" using get_zone_by_name_adds [of "\<lambda>c. \<not> is_helper c" "name inst" w] g by simp
  moreover have "adds (\<lambda>c. \<not> is_helper c) w1 w2" using ask_text_adds [of "\<lambda>c. \<not> is_helper c" "ZoneBrand (name inst)" w1] b by simp
  moreover have "adds (\<lambda>c. \<not> is_helper c) w2 w3" using get_state_adds [of "\<lambda>c. \<not> is_helper c" "name inst" w2] t by simp
  moreover have "adds (\<lambda>c. \<not> is_helper c) w3 w4" using ensure_suspend_resource_adds [of w3 inst "name inst"] e by simp
  ultimately have "adds (\<lambda>c. \<not> is_helper c) w w4" by (blast intro: adds_trans)
  then obtain cs where cs: "trace w4 = trace w @ cs" "list_all (\<lambda>c. \<not> is_helper c) cs"
    by (auto simp: adds_def)
  from cs(2) have "\<not> list_ex is_helper cs"
    by (simp add: list_all_iff list_ex_iff)
  with cs(1) t' s show ?thesis
    by (simp add: calls_since_def)
qed

lemmas suspend_defs = suspend_def suspend_try_def ensure_suspend_resource_def set_suspend_def
  get_zone_by_name_def get_state_def ask_text_def lookup_resource_def getResources_def
  addresource_def removeresources_def mark_def SOLARISZONES_POWER_STATE_def
  suspend_path_def os_path_join_def ZONE_BRAND_SOLARIS_KZ_def

lemma suspend_i2_trace:
  "trace (snd (suspend i2 quiet_world)) =
    [GetZone ''instance-00000002'', ZoneBrand ''instance-00000002'', ZoneState ''instance-00000002'',
     GetResources ''instance-00000002'' (Resource ''suspend'' []),
     GetZone ''instance-00000002'', EditConfig ''instance-00000002'',
     AddResource ''instance-00000002''
       (Resource ''suspend'' [Property ''path'' ''/system/zones/%{zonename}'']),
     CommitConfig ''instance-00000002'', ZoneSuspend ''instance-00000002'',
     Helper ''_unplug_vifs'' [''instance-00000002'']]"
  by (simp add: suspend_defs session_defs i2_def quiet_world_def quiet_text_def)

lemma suspend_i2_returns: "fst (suspend i2 quiet_world) = Inr ()"
  by (simp add: suspend_defs session_defs i2_def quiet_world_def quiet_text_def)

theorem suspend_unplugs_after_suspending_witness:
  "fst (suspend i2 quiet_world) = Inr () \<and>
   (\<exists>cs. calls_since quiet_world (snd (suspend i2 quiet_world)) =
            cs @ [ZoneSuspend (name i2), Helper ''_unplug_vifs'' [name i2]]
         \<and> \<not> list_ex is_helper cs)"
  using suspend_unplugs_after_suspending [OF suspend_i2_returns] suspend_i2_returns by simp

text \<open>
  C9. The code departs from the claim: for a running kernel zone with no suspend resource
  yet, \<open>suspend\<close> returns normally, the suspend operation comes before the unplugging in
  the trace, and no unplugging comes before the suspend operation. \<^verbatim>\<open>_power_off\<close> and
  \<^verbatim>\<open>reboot\<close> unplug the interfaces before they operate on the zone, as the claim has it.
\<close>

theorem suspend_issued_before_unplug:
  "fst (ask_text (ZoneBrand (name i2)) quiet_world) = Inr ZONE_BRAND_SOLARIS_KZ \<and>
   fst (get_state (name i2) quiet_world) = Inr RUNNING \<and>
   fst (suspend i2 quiet_world) = Inr () \<and>
   precedes (ZoneSuspend (name i2)) (Helper ''_unplug_vifs'' [name i2])
     (trace (snd (suspend i2 quiet_world))) \<and>
   \<not> precedes (Helper ''_unplug_vifs'' [name i2]) (ZoneSuspend (name i2))
     (trace (snd (suspend i2 quiet_world)))"
proof -
  have "fst (ask_text (ZoneBrand (name i2)) quiet_world) = Inr ZONE_BRAND_SOLARIS_KZ"
    by (simp add: suspend_defs andthen_def invoke_def i2_def quiet_world_def quiet_text_def)
  moreover have "fst (get_state (name i2) quiet_world) = Inr RUNNING"
    by (simp add: suspend_defs andthen_def invoke_def ok_def i2_def quiet_world_def quiet_text_def)
  moreover have "name i2 = ''instance-00000002''"
    by (simp add: i2_def)
  ultimately show ?thesis
    by (simp add: suspend_i2_returns suspend_i2_trace)
qed

subsection \<open>Resize\<close>

lemma brand_note_samehost [simp]:
  "flavor_brand (get_flavor (note_samehost b inst)) = flavor_brand (get_flavor inst)"
  by (simp add: note_samehost_def get_flavor_def)

lemma root_gb_note_samehost [simp]: "root_gb (note_samehost b inst) = root_gb inst"
  by (simp add: note_samehost_def)

text \<open>
  C6, amended. A resize request whose new flavor has a smaller root disk than the
  instance is rejected, and the world is the one before the call: nothing was called, so
  the instance was not powered off and no volume was read, created or extended. The
  exception is \<open>ResizeError\<close> when the two brand checks that come first pass, and
  \<open>MigrationPreCheckError\<close> when one of them does not. The instance object has at most
  gained the \<open>resize_samehost\<close> note.
\<close>

theorem migrate_smaller_root_rejected:
  assumes "flavor_root_gb fl < root_gb inst"
  shows "migrate_disk_and_power_off dest fl bdi (inst, w) =
           Some (Inl (if flavor_brand (get_flavor inst) \<noteq> ZONE_BRAND_SOLARIS_KZ \<and> dest \<noteq> my_ip w
                      then MigrationPreCheckError
                             ''branded zones do not currently support resize to a different host.''
                      else if extra_specs fl ''zonecfg:brand'' \<noteq> Some (flavor_brand (get_flavor inst))
                      then MigrationPreCheckError ''Unable to change brand of zone during resize.''
                      else ResizeError ''Unable to resize to a smaller boot volume.''),
                 (note_samehost (dest = my_ip w) inst, w))"
  using assms by (simp add: migrate_disk_and_power_off_def Let_def)

theorem migrate_smaller_root_rejected_witness:
  "flavor_root_gb kz_flavor_10 < root_gb i2 \<and>
   migrate_disk_and_power_off ''10.0.0.2'' kz_flavor_10 None (i2, quiet_world) =
     Some (Inl (ResizeError ''Unable to resize to a smaller boot volume.''), (i2, quiet_world))"
proof -
  have a: "flavor_root_gb kz_flavor_10 < root_gb i2"
    by (simp add: kz_flavor_10_def i2_def)
  have b: "flavor_brand (get_flavor i2) = ZONE_BRAND_SOLARIS_KZ"
    by (simp add: flavor_brand_def get_flavor_def i2_def kz_flavor_def ZONE_BRAND_SOLARIS_KZ_def)
  have c: "extra_specs kz_flavor_10 ''zonecfg:brand'' = Some ZONE_BRAND_SOLARIS_KZ"
    by (simp add: kz_flavor_10_def kz_flavor_def ZONE_BRAND_SOLARIS_KZ_def)
  have d: "note_samehost (''10.0.0.2'' = my_ip quiet_world) i2 = i2"
    by (simp add: note_samehost_def quiet_world_def)
  from migrate_smaller_root_rejected [OF a, where dest = "''10.0.0.2''" and w = quiet_world and bdi = None] a b c d
  show ?thesis by simp
qed

text \<open>
  C6, as stated, fails: a native zone that is to be resized to another host with a
  smaller root disk is rejected by the first check, with \<open>MigrationPreCheckError\<close> and not
  with a resize error.
\<close>

theorem migrate_smaller_root_precheck_error:
  "flavor_root_gb sol_flavor_10 < root_gb i1 \<and>
   migrate_disk_and_power_off ''10.0.0.2'' sol_flavor_10 None (i1, quiet_world) =
     Some (Inl (MigrationPreCheckError
                  ''branded zones do not currently support resize to a different host.''),
           (i1, quiet_world))"
  by (simp add: migrate_disk_and_power_off_def Let_def note_samehost_def flavor_brand_def
      get_flavor_def i1_def sol_flavor_10_def sol_flavor_def quiet_world_def
      ZONE_BRAND_SOLARIS_KZ_def)

subsection \<open>Fibre Channel volumes\<close>

lemmas text_defs = splitlines_def strip_def split_def is_space_def is_linebreak_def unlines_def

lemma offline_ports:
  "parse_hba_ports (splitlines fcinfo_offline) no_hba [] =
     [\<lparr>port_name = Some ''10000000c9aaaaaa'', port_state = Some ''offline'',
       node_name = Some ''20000000c9aaaaaa''\<rparr>]"
  by (simp add: fcinfo_offline_def text_defs no_hba_def complete_def Let_def)

lemma get_fc_hbas_offline:
  "get_fc_hbas offline_port_world =
     (Inr [\<lparr>port_name = Some ''10000000c9aaaaaa'', port_state = Some ''offline'',
            node_name = Some ''20000000c9aaaaaa''\<rparr>],
      offline_port_world\<lparr>trace := [Execute [''/usr/sbin/fcinfo'', ''hba-port'']],
         fc_hbas := [\<lparr>port_name = Some ''10000000c9aaaaaa'', port_state = Some ''offline'',
            node_name = Some ''20000000c9aaaaaa''\<rparr>]\<rparr>)"
  by (simp add: get_fc_hbas_def except_ProcessExecutionError_def catch_def andthen_def execute_def
      ask_text_def invoke_def ok_def offline_port_world_def quiet_world_def lookup_fails_def
      offline_text_def offline_ports Let_def)

lemma get_fc_hbas_empty_trace:
  assumes "fst (get_fc_hbas w) = Inr []"
  shows "trace (snd (get_fc_hbas w)) = trace w @ [Execute [''/usr/sbin/fcinfo'', ''hba-port'']]"
  using assms
  by (auto simp: get_fc_hbas_def except_ProcessExecutionError_def catch_def andthen_def execute_def
      ask_text_def invoke_def ok_def raise_def Let_def split: if_splits option.splits error.splits)

text \<open>
  C7, amended. For a Fibre Channel volume (with its \<open>data\<close> and \<open>target_wwn\<close> in place),
  when \<^verbatim>\<open>_get_fc_hbas\<close> finds no port at all, the resolution raises \<open>InvalidVolume\<close> with
  the reason "No host Fibre Channel initiator found", and the only call it has made is
  \<^verbatim>\<open>fcinfo hba-port\<close>: no rescan and no lookup.
\<close>

theorem fc_no_hba_fails_without_lookup:
  assumes "driver_volume_type ci = ''fibre_channel''"
    and "data ci = Some d" and "d ''target_wwn'' \<noteq> None"
    and "fst (get_fc_hbas w) = Inr []"
  shows "fst (suri_from_volume_info ci w) = Inl (InvalidVolume ''No host Fibre Channel initiator found'')
       \<and> calls_since w (snd (suri_from_volume_info ci w)) = [Execute [''/usr/sbin/fcinfo'', ''hba-port'']]
       \<and> \<not> list_ex is_lookup (calls_since w (snd (suri_from_volume_info ci w)))"
proof -
  obtain w1 where h: "get_fc_hbas w = (Inr [], w1)"
    using assms(4) by (cases "get_fc_hbas w") simp
  with get_fc_hbas_empty_trace [OF assms(4)]
  have t: "trace w1 = trace w @ [Execute [''/usr/sbin/fcinfo'', ''hba-port'']]" by simp
  obtain v where v: "d ''target_wwn'' = Some v" using assms(3) by auto
  have "suri_from_volume_info ci w =
          (Inl (InvalidVolume ''No host Fibre Channel initiator found''), w1)"
    by (simp add: suri_from_volume_info_def Let_def assms(1,2) suri_fibre_channel_def andthen_def
        from_result_def subscript_def v h raise_def)
  with t show ?thesis by (simp add: calls_since_def)
qed

lemma no_hba_world_hbas: "fst (get_fc_hbas no_hba_world) = Inr []"
  by (simp add: get_fc_hbas_def except_ProcessExecutionError_def catch_def andthen_def execute_def
      ask_text_def invoke_def ok_def no_hba_world_def quiet_world_def fcinfo_fails_def)

theorem fc_no_hba_fails_without_lookup_witness:
  "fst (get_fc_hbas no_hba_world) = Inr [] \<and>
   fst (suri_from_volume_info fc_volume no_hba_world) =
     Inl (InvalidVolume ''No host Fibre Channel initiator found'') \<and>
   calls_since no_hba_world (snd (suri_from_volume_info fc_volume no_hba_world)) =
     [Execute [''/usr/sbin/fcinfo'', ''hba-port'']]"
proof -
  have a: "driver_volume_type fc_volume = ''fibre_channel''"
    and b: "data fc_volume = Some [''target_wwn'' \<mapsto> PStr ''500a098280feeba5'', ''target_lun'' \<mapsto> PInt 1]"
    by (simp_all add: fc_volume_def)
  have c: "[''target_wwn'' \<mapsto> PStr ''500a098280feeba5'', ''target_lun'' \<mapsto> PInt 1] ''target_wwn'' \<noteq> None"
    by simp
  from fc_no_hba_fails_without_lookup [OF a b c no_hba_world_hbas] no_hba_world_hbas
  show ?thesis by simp
qed

lemma fc_offline_result:
  "suri_from_volume_info fc_volume offline_port_world =
    (Inl (InvalidVolume (''Unable to lookup URI of Fibre Channel volume with lun '' @ [CHR 0x27]
                            @ ''1'' @ [CHR 0x27] @ ''.'')),
     offline_port_world\<lparr>trace :=
       [Execute [''/usr/sbin/fcinfo'', ''hba-port''],
        Execute (lookup_uri_fc ''500a098280feeba5'' ''1''), Sleep 2,
        Execute (lookup_uri_fc ''500a098280feeba5'' ''1''), Sleep 2,
        Execute (lookup_uri_fc ''500a098280feeba5'' ''1''), Sleep 2],
       fc_hbas := [\<lparr>port_name = Some ''10000000c9aaaaaa'', port_state = Some ''offline'',
            node_name = Some ''20000000c9aaaaaa''\<rparr>]\<rparr>)"
  apply (simp add: suri_from_volume_info_def Let_def fc_volume_def suri_fibre_channel_def andthen_def
        from_result_def subscript_def get_fc_hbas_offline)
  apply (simp add: get_fc_wwpns_def andthen_def get_fc_hbas_def ok_def offline_port_world_def
      lookup_fc_volume_suri_def numeral_3_eq_3 except_ProcessExecutionError_def catch_def execute_def
      ask_text_def invoke_def lookup_fails_def lookup_uri_fc_def str_int_def digit_char_def sleep_def
      quiet_world_def)
  done

text \<open>
  C7, as stated, fails: on a host whose only port is offline there is no online
  initiator port (\<^verbatim>\<open>_get_fc_wwpns\<close> is empty), yet the check for ports passes, three
  lookups are made, and the error is the one of the exhausted lookup.
\<close>

theorem fc_offline_port_lookups_attempted:
  "fst (get_fc_wwpns offline_port_world) = Inr [] \<and>
   fst (suri_from_volume_info fc_volume offline_port_world) =
     Inl (InvalidVolume (''Unable to lookup URI of Fibre Channel volume with lun '' @ [CHR 0x27]
                            @ ''1'' @ [CHR 0x27] @ ''.'')) \<and>
   length (filter is_lookup (trace (snd (suri_from_volume_info fc_volume offline_port_world)))) = 3"
proof -
  have "fst (get_fc_wwpns offline_port_world) = Inr []"
    by (simp add: get_fc_wwpns_def andthen_def get_fc_hbas_offline ok_def)
  then show ?thesis
    by (simp add: fc_offline_result lookup_uri_fc_def)
qed

subsection \<open>CPU time\<close>

lemma sum_values_those:
  "those (map (statistic_of st) vs) = Some xs \<Longrightarrow> sum_values vs st tot = Inr (tot + sum_list xs)"
proof (induction vs arbitrary: tot xs)
  case Nil
  then show ?case by simp
next
  case (Cons v vs)
  from Cons.prems obtain x ys where x: "statistic_of st v = Some x"
    and ys: "those (map (statistic_of st) vs) = Some ys" and xs: "xs = x # ys"
    by (auto split: option.splits)
  from x obtain m where v: "v = KKstat m" and m: "map_of m st = Some (KInt x)"
    by (auto simp: statistic_of_def split: kval.splits option.splits)
  show ?case
    using Cons.IH [OF ys, of "tot + x"] by (simp add: v m xs)
qed

lemma sum_kstat_statistic_current:
  assumes "current_nsec cpu = Some t"
  shows "\<exists>k u. sum_kstat_statistic cpu ''cpu_nsec_kernel_cur'' = Inr k
             \<and> sum_kstat_statistic cpu ''cpu_nsec_user_cur'' = Inr u \<and> k + u = t"
proof -
  from assms obtain ks us where
    ks: "those (map (statistic_of ''cpu_nsec_kernel_cur'') (map snd cpu)) = Some ks"
    and us: "those (map (statistic_of ''cpu_nsec_user_cur'') (map snd cpu)) = Some us"
    and t: "t = sum_list ks + sum_list us"
    by (auto simp: current_nsec_def split: option.splits)
  show ?thesis
    using sum_values_those [OF ks, of 0] sum_values_those [OF us, of 0] t
    by (simp add: sum_kstat_statistic_def)
qed

lemma sum_cpus_aggregate:
  "read_cpus uri ns w = (Some cpus, w') \<Longrightarrow> aggregate cpus = Some s
     \<Longrightarrow> sum_cpus zone uri ns tot w = (Inr (Summed (tot + s)), w')"
proof (induction ns arbitrary: tot w cpus s)
  case Nil
  then show ?case by (simp add: aggregate_def)
next
  case (Cons n ns)
  from Cons.prems(1) obtain cpu w1 rest where
    k: "kstat_data (uri @ ''/'' @ n) w = (Inr (Some cpu), w1)"
    and r: "read_cpus uri ns w1 = (Some rest, w')" and c: "cpus = cpu # rest"
    by (auto split: prod.splits sum.splits option.splits)
  from Cons.prems(2) c obtain t s' where t: "current_nsec cpu = Some t"
    and s': "aggregate rest = Some s'" and s: "s = t + s'"
    by (auto simp: aggregate_def split: option.splits)
  from sum_kstat_statistic_current [OF t] obtain kn us where
    kn: "sum_kstat_statistic cpu ''cpu_nsec_kernel_cur'' = Inr kn"
    and us: "sum_kstat_statistic cpu ''cpu_nsec_user_cur'' = Inr us" and ku: "kn + us = t"
    by blast
  have "sum_cpus zone uri (n # ns) tot w = sum_cpus zone uri ns (tot + kn + us) w1"
    using k kn us by simp
  also have "\<dots> = (Inr (Summed (tot + kn + us + s')), w')"
    by (rule Cons.IH [OF r s'])
  also have "tot + kn + us + s' = tot + s"
    using ku s by simp
  finally show ?case .
qed

lemma attempt_stable_generation:
  assumes "kstat_data (accum_uri zone) w = (Inr (Some initial), w1)"
    and "kstat_data (cpu_uri zone) w1 = (Inr (Some cpus0), w2)"
    and "pop ''pset_accum'' cpus0 = Inr cpus1" and "pop ''accum'' cpus1 = Inr cpus2"
    and "cpus2 \<noteq> []"
    and "read_cpus (cpu_uri zone) (map fst cpus2) w2 = (Some cpus, w3)"
    and "aggregate cpus = Some s"
    and "kstat_data (accum_uri zone) w3 = (Inr (Some final), w4)"
    and "map_of initial ''gen_num'' = Some g" and "map_of final ''gen_num'' = Some g"
    and "map_of initial ''cpu_nsec_user'' = Some (KInt u)"
    and "map_of initial ''cpu_nsec_kernel'' = Some (KInt k)"
  shows "cpu_time_attempt zone w = (Inr (Return (s + (u + k))), w4)"
proof -
  have sc: "sum_cpus zone (cpu_uri zone) (map fst cpus2) 0 w2 = (Inr (Summed s), w3)"
    using sum_cpus_aggregate [OF assms(6,7), of zone 0] by simp
  have cg: "compare_generations (Some initial) final s = Inr (Return (s + (u + k)))"
    by (simp add: compare_generations_def item_def assms(9-12))
  show ?thesis
    by (simp add: cpu_time_attempt_def andthen_def assms(1-5,8) from_result_def sc cg)
qed

lemma attempts_return:
  "retries k zone w0 = Some wk \<Longrightarrow> cpu_time_attempt zone wk = (Inr (Return v), w')
     \<Longrightarrow> cpu_time_attempts (Suc (k + m)) zone w0 = (Inr v, w')"
proof (induction k arbitrary: w0)
  case 0
  then show ?case by simp
next
  case (Suc k)
  from Suc.prems(1) obtain y w1 where a: "cpu_time_attempt zone w0 = (Inr (Continue y), w1)"
    and r: "retries k zone w1 = Some wk"
    by (auto split: prod.splits sum.splits outcome.splits)
  from Suc.IH [OF r Suc.prems(2)] show ?case by (simp add: a)
qed

lemma get_cpu_time_running:
  assumes "ask_text (ZoneState zone) w = (Inr ZONE_STATE_RUNNING, w0)"
  shows "get_cpu_time zone w = cpu_time_attempts 3 zone w0"
  using assms by (simp add: get_cpu_time_def andthen_def)

text \<open>
  C3. Three facts about \<^verbatim>\<open>_get_cpu_time\<close>.
  \<^item> The zone is running on entry, the passes before pass \<open>k\<close> (\<open>k < 3\<close>) ended with
    \<^verbatim>\<open>continue\<close>, and in pass \<open>k\<close> the accumulator is read (\<open>initial\<close>), the CPUs are listed and
    their snapshots \<open>cpus\<close> are read, the accumulator is read again (\<open>final\<close>), and the two
    generation numbers are equal: then the result is the aggregate of the per-CPU
    current statistics plus the accumulated user and kernel nanoseconds of \<open>initial\<close>.
  \<^item> The zone is running on entry and each of three passes ends because the generation
    number changed: then the result is 0, not an exception.
  \<^item> The zone is not running on entry: then the result is 0 and the state read is the
    only call made.
\<close>

theorem get_cpu_time_consistent:
  "(ask_text (ZoneState zone) w = (Inr ZONE_STATE_RUNNING, w0) \<and>
    k < 3 \<and> retries k zone w0 = Some wk \<and>
    kstat_data (accum_uri zone) wk = (Inr (Some initial), w1) \<and>
    kstat_data (cpu_uri zone) w1 = (Inr (Some cpus0), w2) \<and>
    pop ''pset_accum'' cpus0 = Inr cpus1 \<and> pop ''accum'' cpus1 = Inr cpus2 \<and> cpus2 \<noteq> [] \<and>
    read_cpus (cpu_uri zone) (map fst cpus2) w2 = (Some cpus, w3) \<and>
    aggregate cpus = Some s \<and>
    kstat_data (accum_uri zone) w3 = (Inr (Some final), w4) \<and>
    map_of initial ''gen_num'' = Some g \<and> map_of final ''gen_num'' = Some g \<and>
    map_of initial ''cpu_nsec_user'' = Some (KInt u) \<and>
    map_of initial ''cpu_nsec_kernel'' = Some (KInt kn)
    \<longrightarrow> get_cpu_time zone w = (Inr (s + (u + kn)), w4))
   \<and>
   (ask_text (ZoneState zone) w = (Inr ZONE_STATE_RUNNING, w0) \<and>
    cpu_time_attempt zone w0 = (Inr (Continue GenerationChanged), a1) \<and>
    cpu_time_attempt zone a1 = (Inr (Continue GenerationChanged), a2) \<and>
    cpu_time_attempt zone a2 = (Inr (Continue GenerationChanged), a3)
    \<longrightarrow> get_cpu_time zone w = (Inr 0, a3))
   \<and>
   (ask_text (ZoneState zone) w = (Inr st, w0) \<and> st \<noteq> ZONE_STATE_RUNNING
    \<longrightarrow> get_cpu_time zone w = (Inr 0, w0))"
proof (intro conjI impI)
  assume h: "ask_text (ZoneState zone) w = (Inr ZONE_STATE_RUNNING, w0) \<and>
    k < 3 \<and> retries k zone w0 = Some wk \<and>
    kstat_data (accum_uri zone) wk = (Inr (Some initial), w1) \<and>
    kstat_data (cpu_uri zone) w1 = (Inr (Some cpus0), w2) \<and>
    pop ''pset_accum'' cpus0 = Inr cpus1 \<and> pop ''accum'' cpus1 = Inr cpus2 \<and> cpus2 \<noteq> [] \<and>
    read_cpus (cpu_uri zone) (map fst cpus2) w2 = (Some cpus, w3) \<and>
    aggregate cpus = Some s \<and>
    kstat_data (accum_uri zone) w3 = (Inr (Some final), w4) \<and>
    map_of initial ''gen_num'' = Some g \<and> map_of final ''gen_num'' = Some g \<and>
    map_of initial ''cpu_nsec_user'' = Some (KInt u) \<and>
    map_of initial ''cpu_nsec_kernel'' = Some (KInt kn)"
  then have f: "kstat_data (accum_uri zone) wk = (Inr (Some initial), w1)"
    "kstat_data (cpu_uri zone) w1 = (Inr (Some cpus0), w2)"
    "pop ''pset_accum'' cpus0 = Inr cpus1" "pop ''accum'' cpus1 = Inr cpus2" "cpus2 \<noteq> []"
    "read_cpus (cpu_uri zone) (map fst cpus2) w2 = (Some cpus, w3)"
    "aggregate cpus = Some s"
    "kstat_data (accum_uri zone) w3 = (Inr (Some final), w4)"
    "map_of initial ''gen_num'' = Some g" "map_of final ''gen_num'' = Some g"
    "map_of initial ''cpu_nsec_user'' = Some (KInt u)"
    "map_of initial ''cpu_nsec_kernel'' = Some (KInt kn)"
    by simp_all
  have a: "cpu_time_attempt zone wk = (Inr (Return (s + (u + kn))), w4)"
    by (rule attempt_stable_generation [OF f])
  from h have k: "3 = Suc (k + (2 - k))" by simp
  from h have r: "retries k zone w0 = Some wk" by simp
  have "cpu_time_attempts (Suc (k + (2 - k))) zone w0 = (Inr (s + (u + kn)), w4)"
    by (rule attempts_return [OF r a])
  with k have "cpu_time_attempts 3 zone w0 = (Inr (s + (u + kn)), w4)" by simp
  with h show "get_cpu_time zone w = (Inr (s + (u + kn)), w4)"
    by (simp add: get_cpu_time_running)
next
  assume h: "ask_text (ZoneState zone) w = (Inr ZONE_STATE_RUNNING, w0) \<and>
    cpu_time_attempt zone w0 = (Inr (Continue GenerationChanged), a1) \<and>
    cpu_time_attempt zone a1 = (Inr (Continue GenerationChanged), a2) \<and>
    cpu_time_attempt zone a2 = (Inr (Continue GenerationChanged), a3)"
  then have "cpu_time_attempts 3 zone w0 = (Inr 0, a3)"
    by (simp add: numeral_3_eq_3)
  with h show "get_cpu_time zone w = (Inr 0, a3)"
    by (simp add: get_cpu_time_running)
next
  assume "ask_text (ZoneState zone) w = (Inr st, w0) \<and> st \<noteq> ZONE_STATE_RUNNING"
  then show "get_cpu_time zone w = (Inr 0, w0)"
    by (simp add: get_cpu_time_def andthen_def ok_def)
qed

theorem get_cpu_time_consistent_witness:
  "aggregate [cpu_snapshot 10 20, cpu_snapshot 30 40] = Some 100 \<and>
   fst (get_cpu_time ''z1'' stable_world) = Inr (100 + (1000 + 500)) \<and>
   fst (cpu_time_attempt ''z1'' (snd (ask_text (ZoneState ''z1'') changing_world)))
     = Inr (Continue GenerationChanged) \<and>
   fst (get_cpu_time ''z1'' changing_world) = Inr 0 \<and>
   get_cpu_time ''z1'' down_world = (Inr 0, down_world\<lparr>trace := [ZoneState ''z1'']\<rparr>)"
proof -
  define w0 where "w0 = snd (ask_text (ZoneState ''z1'') stable_world)"
  define w1 where "w1 = snd (kstat_data (accum_uri ''z1'') w0)"
  define w2 where "w2 = snd (kstat_data (cpu_uri ''z1'') w1)"
  define w3 where "w3 = snd (read_cpus (cpu_uri ''z1'') [''0'', ''1''] w2)"
  define w4 where "w4 = snd (kstat_data (accum_uri ''z1'') w3)"
  define cpus0 where "cpus0 = [(''pset_accum'', KKstat []), (''accum'', KKstat []),
                               (''0'', KKstat []), (''1'', KKstat [])]"
  define cpus1 where "cpus1 = [(''accum'', KKstat []), (''0'', KKstat []), (''1'', KKstat [])]"
  define cpus2 where "cpus2 = [(''0'', KKstat []), (''1'', KKstat [])]"
  have s0: "fst (ask_text (ZoneState ''z1'') stable_world) = Inr ZONE_STATE_RUNNING"
    by code_simp
  have s1: "fst (kstat_data (accum_uri ''z1'') w0) = Inr (Some (accum_snapshot 7))"
    unfolding w0_def by code_simp
  have s2: "fst (kstat_data (cpu_uri ''z1'') w1) = Inr (Some cpus0)"
    unfolding w1_def w0_def cpus0_def by code_simp
  have s3: "fst (read_cpus (cpu_uri ''z1'') [''0'', ''1''] w2)
              = Some [cpu_snapshot 10 20, cpu_snapshot 30 40]"
    unfolding w2_def w1_def w0_def by code_simp
  have s4: "fst (kstat_data (accum_uri ''z1'') w3) = Inr (Some (accum_snapshot 7))"
    unfolding w3_def w2_def w1_def w0_def by code_simp
  have ag: "aggregate [cpu_snapshot 10 20, cpu_snapshot 30 40] = Some 100"
    by code_simp
  have p: "pop ''pset_accum'' cpus0 = Inr cpus1" "pop ''accum'' cpus1 = Inr cpus2" "cpus2 \<noteq> []"
    "map fst cpus2 = [''0'', ''1'']"
    by (simp_all add: pop_def cpus0_def cpus1_def cpus2_def)
  have m: "map_of (accum_snapshot 7) ''gen_num'' = Some (KInt 7)"
    "map_of (accum_snapshot 7) ''cpu_nsec_user'' = Some (KInt 1000)"
    "map_of (accum_snapshot 7) ''cpu_nsec_kernel'' = Some (KInt 500)"
    by (simp_all add: accum_snapshot_def)
  have stable: "get_cpu_time ''z1'' stable_world = (Inr (100 + (1000 + 500)), w4)"
    using get_cpu_time_consistent [where zone = "''z1''" and w = stable_world and ?w0.0 = w0
        and k = 0 and wk = w0 and initial = "accum_snapshot 7" and ?w1.0 = w1 and ?cpus0.0 = cpus0
        and ?w2.0 = w2 and ?cpus1.0 = cpus1 and ?cpus2.0 = cpus2
        and cpus = "[cpu_snapshot 10 20, cpu_snapshot 30 40]" and ?w3.0 = w3 and s = 100
        and final = "accum_snapshot 7" and ?w4.0 = w4 and g = "KInt 7" and u = 1000 and kn = 500]
      s0 s1 s2 s3 s4 ag p m
    by (simp add: prod_eq_iff w0_def w1_def w2_def w3_def w4_def)
  define c0 where "c0 = snd (ask_text (ZoneState ''z1'') changing_world)"
  define c1 where "c1 = snd (cpu_time_attempt ''z1'' c0)"
  define c2 where "c2 = snd (cpu_time_attempt ''z1'' c1)"
  define c3 where "c3 = snd (cpu_time_attempt ''z1'' c2)"
  have g0: "fst (ask_text (ZoneState ''z1'') changing_world) = Inr ZONE_STATE_RUNNING"
    by code_simp
  have g1: "fst (cpu_time_attempt ''z1'' c0) = Inr (Continue GenerationChanged)"
    unfolding c0_def by code_simp
  have g2: "fst (cpu_time_attempt ''z1'' c1) = Inr (Continue GenerationChanged)"
    unfolding c1_def c0_def by code_simp
  have g3: "fst (cpu_time_attempt ''z1'' c2) = Inr (Continue GenerationChanged)"
    unfolding c2_def c1_def c0_def by code_simp
  have changing: "get_cpu_time ''z1'' changing_world = (Inr 0, c3)"
    using get_cpu_time_consistent [where zone = "''z1''" and w = changing_world and ?w0.0 = c0
        and ?a1.0 = c1 and ?a2.0 = c2 and ?a3.0 = c3] g0 g1 g2 g3
    by (simp add: prod_eq_iff c0_def c1_def c2_def c3_def)
  have d0: "ask_text (ZoneState ''z1'') down_world
              = (Inr ''installed'', down_world\<lparr>trace := [ZoneState ''z1'']\<rparr>)"
    by (simp add: ask_text_def invoke_def down_world_def stable_world_def quiet_world_def
        installed_text_def)
  have down: "get_cpu_time ''z1'' down_world = (Inr 0, down_world\<lparr>trace := [ZoneState ''z1'']\<rparr>)"
    using get_cpu_time_consistent [where zone = "''z1''" and w = down_world
        and ?w0.0 = "down_world\<lparr>trace := [ZoneState ''z1'']\<rparr>" and st = "''installed''"] d0
    by (simp add: ZONE_STATE_RUNNING_def)
  from stable changing down ag g1 show ?thesis
    by (simp add: c0_def)
qed

subsection \<open>Finishing a migration\<close>

text \<open>
  Once no call raises any more, \<^verbatim>\<open>destroy\<close> returns (unless the saved VM state is missing
  while a resize is reverted), and the first part of the cleanup issues exactly the calls
  of \<open>volumes_restored\<close>.
\<close>

lemma swallow_returns: "fst (swallow m w) = Inr ()"
  by (cases "m w") (auto simp: swallow_def catch_def ok_def split: sum.splits)

lemma delete_tagged_volume_returns: "fst (delete_tagged_volume tag s) = Inr ()"
  by (auto simp: delete_tagged_volume_def ok_def split: option.splits prod.splits sum.splits)

lemma destroy_volumes_returns: "fst (destroy_volumes s) = Inr ()"
proof -
  obtain s1 where "delete_tagged_volume ''old_instance_volid'' s = (Inr (), s1)"
    using delete_tagged_volume_returns [of "''old_instance_volid''" s]
    by (cases "delete_tagged_volume ''old_instance_volid'' s") simp
  then show ?thesis
    by (simp add: destroy_volumes_def andthen_def delete_tagged_volume_returns)
qed

lemma destroy_console_grows:
  "\<exists>w'. destroy_console inst w = (Inr (), w') \<and> fails w' = fails w \<and> prefix (trace w) (trace w')"
  by (auto simp: destroy_console_def swallow_def catch_def andthen_def has_vnc_console_service_def
        helper_def invoke_def ok_def split: option.splits)

lemma invoke_quiet:
  assumes "quiet_after h0 w" and "prefix h0 (trace w)"
  shows "invoke c w = (Inr (), w\<lparr>trace := trace w @ [c]\<rparr>)"
  using assms by (simp add: invoke_def quiet_after_def)

lemma destroy_rest_quiet:
  assumes q: "quiet_after h0 w" and p: "prefix h0 (trace w)"
  shows "fst (destroy_rest (inst, w)) = Inr ()"
proof -
  obtain w1 where c: "destroy_console inst w = (Inr (), w1)" and f: "fails w1 = fails w"
    and g: "prefix (trace w) (trace w1)"
    using destroy_console_grows by blast
  from q f have q1: "quiet_after h0 w1" by (simp add: quiet_after_def)
  from p g have p1: "prefix h0 (trace w1)" by (rule prefix_order.trans)
  have z: "get_zone_by_name (name inst) w1 = (Inr (Some (name inst)), w1\<lparr>trace := trace w1 @ [GetZone (name inst)]\<rparr>)"
    by (simp add: get_zone_by_name_def invoke_quiet [OF q1 p1])
  have "fst (destroy_zone inst (name inst) (w1\<lparr>trace := trace w1 @ [GetZone (name inst)]\<rparr>)) = Inr ()"
    unfolding destroy_zone_def by (rule swallow_returns)
  then obtain w3 where d: "destroy_zone inst (name inst) (w1\<lparr>trace := trace w1 @ [GetZone (name inst)]\<rparr>) = (Inr (), w3)"
    by (cases "destroy_zone inst (name inst) (w1\<lparr>trace := trace w1 @ [GetZone (name inst)]\<rparr>)") simp
  show ?thesis
    by (simp add: destroy_rest_def Let_def andthen_def lift_def c z d ok_def destroy_volumes_returns)
qed

lemma destroy_quiet:
  assumes q: "quiet_after h0 w" and p: "prefix h0 (trace w)"
    and r: "task_state inst = Some RESIZE_REVERTING \<longrightarrow> system_metadata inst ''old_vm_state'' \<noteq> None"
  shows "fst (destroy (inst, w)) = Inr ()"
proof -
  have rest: "fst (destroy_rest (inst, w)) = Inr ()"
    using q p by (rule destroy_rest_quiet)
  have "fails w (trace w) InstanceSave = None"
    using q p by (simp add: quiet_after_def)
  then have evac: "fst (destroy_unless_evacuated (inst, w)) = Inr ()"
    using rest
    by (auto simp: destroy_unless_evacuated_def destroy_evacuated_def lift_def invoke_def
          split: option.splits)
  show ?thesis
    using r evac by (auto simp: destroy_def ok_def split: option.splits)
qed


lemma quiet_after_trace [simp]: "quiet_after h (w\<lparr>trace := t\<rparr>) = quiet_after h w"
  by (simp add: quiet_after_def)

lemma cleanup_volumes_quiet:
  assumes q: "quiet_after (trace w1) w1"
    and k: "truthy (system_metadata inst ''old_instance_volid'')
              \<longrightarrow> system_metadata inst ''new_instance_volid'' \<noteq> None"
  shows "cleanup_volumes (Some v) (inst, w1) = (Inr (), volumes_restored v (inst, w1))"
proof -
  have f: "\<And>cs c. fails w1 (trace w1 @ cs) c = None"
    using q by (simp add: quiet_after_def)
  have f0: "\<And>c. fails w1 (trace w1) c = None"
    using q by (simp add: quiet_after_def)
  show ?thesis
    using k
    by (auto simp: cleanup_volumes_def reattach_original_def andthen_def lift_def invoke_def helper_def
        initialize_volume_connection_def ask_connection_def f f0 ok_def raise_def Let_def volumes_restored_def without_volids_def reattach_calls_def
        recorded_original_def truthy_def split: option.splits)
qed

text \<open>
  On the same host the boot device is set without a mount point, which
  \<^verbatim>\<open>_set_boot_device\<close> refuses for a kernel zone: it never returns normally there, and a
  same-host finish of a kernel zone with a new volume fails before any volume is
  exchanged.
\<close>

lemma set_boot_device_kernel_zone_no_mountpoint:
  "fst (set_boot_device nm ci ZONE_BRAND_SOLARIS_KZ None w) \<noteq> Inr ()"
  by (auto simp: set_boot_device_def andthen_def with_ZoneConfig_def raise_def
      split: prod.splits sum.splits option.splits)

lemma finish_samehost_kernel_zone_not_implemented:
  "fst (finish_migration ''host-a'' ''host-a'' (Some new_volume) (Some root_mapping) True
          (i2, quiet_world)) = Inl (NotImplementedError ''must set mountpoint'') \<and>
   filter is_volume_attach
     (trace (snd (snd (finish_migration ''host-a'' ''host-a'' (Some new_volume) (Some root_mapping)
                         True (i2, quiet_world))))) = [] \<and>
   VolumeDetach ''vol-old'' \<notin> set
     (trace (snd (snd (finish_migration ''host-a'' ''host-a'' (Some new_volume) (Some root_mapping)
                         True (i2, quiet_world)))))"
  by code_simp

text \<open>
  C8, amended. Let \<^verbatim>\<open>finish_migration\<close> be called with a new volume \<open>v\<close> as \<^verbatim>\<open>disk_info\<close>, and
  let its \<^verbatim>\<open>try\<close> block raise \<open>e\<close> in the world \<open>w1\<close>, at any point: also after the new
  volume was attached and before power-on completes. If no step of the cleanup raises
  (no call it makes fails, \<open>new_instance_volid\<close> is recorded whenever \<open>old_instance_volid\<close>
  is, and \<open>old_vm_state\<close> whenever the task state is \<open>resize_reverting\<close>),
  then \<open>e\<close> is the exception that reaches the caller, and before that the cleanup has
  detached and deleted \<open>v\<close>; has attached the original root volume again at the root
  device and pointed the block device mapping back to it exactly when the system metadata
  records that volume under \<open>old_instance_volid\<close>; and, when the two nodes of the migration
  differ, has then run \<^verbatim>\<open>destroy\<close> and set host and node back to \<open>launched_on\<close>. On the
  same host nothing is destroyed.
\<close>

theorem finish_migration_failure_cleanup:
  assumes prelude: "mapping_of bdi = Inr bmap"
    and body: "finish_try (dest_node = source_node) (Some v)
                 (find_root_entry (root_device_name inst) bmap) bdi power_on
                 (note_resized (dest_node = source_node) inst) w = (Inl e, w1)"
    and quiet: "quiet_after (trace w1) w1"
    and keys: "truthy (system_metadata inst ''old_instance_volid'')
                 \<longrightarrow> system_metadata inst ''new_instance_volid'' \<noteq> None"
    and rev: "task_state inst = Some RESIZE_REVERTING
                 \<longrightarrow> system_metadata inst ''old_vm_state'' \<noteq> None"
  shows "finish_migration dest_node source_node (Some v) bdi power_on (inst, w) =
           (Inl e,
            if dest_node = source_node
            then volumes_restored v (note_resized True inst, w1)
            else moved_back (snd (destroy (volumes_restored v (inst, w1)))))"
proof -
  define samehost where "samehost = (dest_node = source_node)"
  define inst0 where "inst0 = note_resized samehost inst"
  have md: "system_metadata inst0 ''old_instance_volid'' = system_metadata inst ''old_instance_volid''"
    "system_metadata inst0 ''new_instance_volid'' = system_metadata inst ''new_instance_volid''"
    "root_device_name inst0 = root_device_name inst"
    by (simp_all add: inst0_def note_resized_def)
  have cv: "cleanup_volumes (Some v) (inst0, w1) = (Inr (), volumes_restored v (inst0, w1))"
    using quiet keys by (intro cleanup_volumes_quiet) (simp_all add: md)
  have fin: "finish_migration dest_node source_node (Some v) bdi power_on (inst, w) =
      andthen (cleanup_instance samehost) (\<lambda>_. raise e) (volumes_restored v (inst0, w1))"
    using body
    by (simp add: finish_migration_def Let_def prelude md catch_def lift_def andthen_def
        cleanup_finish_migration_def cv samehost_def [symmetric] inst0_def [symmetric])
  show ?thesis
  proof (cases samehost)
    case True
    then show ?thesis
      using fin by (simp add: cleanup_instance_def andthen_def ok_def raise_def inst0_def
          samehost_def)
  next
    case False
    then have i0: "inst0 = inst" by (simp add: inst0_def note_resized_def)
    have q2: "quiet_after (trace w1) (snd (volumes_restored v (inst, w1)))"
      using quiet by (simp add: volumes_restored_def)
    have p2: "prefix (trace w1) (trace (snd (volumes_restored v (inst, w1))))"
      by (simp add: volumes_restored_def)
    have r2: "task_state (fst (volumes_restored v (inst, w1))) = Some RESIZE_REVERTING
        \<longrightarrow> system_metadata (fst (volumes_restored v (inst, w1))) ''old_vm_state'' \<noteq> None"
      using rev by (simp add: volumes_restored_def without_volids_def split: option.splits)
    have "fst (destroy (fst (volumes_restored v (inst, w1)), snd (volumes_restored v (inst, w1)))) = Inr ()"
      by (rule destroy_quiet [OF q2 p2 r2])
    then obtain s3 where d: "destroy (volumes_restored v (inst, w1)) = (Inr (), s3)"
      by (cases "destroy (volumes_restored v (inst, w1))") simp
    show ?thesis
      using fin False
      by (simp add: cleanup_instance_def andthen_def ok_def raise_def i0 d moved_back_def
          samehost_def)
  qed
qed

lemmas finish_defs = finish_try_def finish_otherhost_def finish_power_on_def
  resize_disk_migration_def initialize_volume_connection_def ask_connection_def root_serial_def
  mapping_of_def from_result_def get_zone_by_name_def helper_def invoke_def andthen_def ok_def
  raise_def

lemmas resizing_defs = root_mapping_def root_entry_def new_volume_def i_resizing_def i2_def
  power_on_fails_world_def power_on_fails_def quiet_world_def flavor_brand_def get_flavor_def
  kz_flavor_def ZONE_BRAND_SOLARIS_def ZONE_BRAND_SOLARIS_KZ_def

lemma failed_power_on_world_quiet:
  "quiet_after (trace failed_power_on_world) failed_power_on_world"
  by (auto simp: quiet_after_def failed_power_on_world_def power_on_fails_world_def
      power_on_fails_def prefix_def split: call.splits)

lemma finish_try_otherhost_i_resizing:
  "finish_try False (Some new_volume) (Some root_entry) (Some root_mapping) True i_resizing
     power_on_fails_world =
   (Inl (InstancePowerOnFailure ''boot failed''), failed_power_on_world)"
  by (simp add: finish_defs Let_def resizing_defs failed_power_on_world_def)

theorem finish_migration_failure_cleanup_witness:
  "mapping_of (Some root_mapping) = Inr [root_entry] \<and>
   finish_try False (Some new_volume) (Some root_entry) (Some root_mapping) True i_resizing
     power_on_fails_world = (Inl (InstancePowerOnFailure ''boot failed''), failed_power_on_world) \<and>
   quiet_after (trace failed_power_on_world) failed_power_on_world \<and>
   system_metadata i_resizing ''new_instance_volid'' = Some ''vol-new'' \<and>
   task_state i_resizing \<noteq> Some RESIZE_REVERTING \<and>
   finish_migration ''host-b'' ''host-a'' (Some new_volume) (Some root_mapping) True
     (i_resizing, power_on_fails_world) =
     (Inl (InstancePowerOnFailure ''boot failed''),
      moved_back (snd (destroy (volumes_restored new_volume (i_resizing, failed_power_on_world))))) \<and>
   calls_since failed_power_on_world
     (snd (volumes_restored new_volume (i_resizing, failed_power_on_world))) =
     [VolumeDetach ''vol-new'', VolumeDelete ''vol-new'',
      Helper ''get_volume_connector'' [''instance-00000002''], InitializeConnection ''vol-old'',
      VolumeAttach ''vol-old'' ''uuid-2'' ''c1d0'',
      BdmGetByVolumeId ''vol-new'', BdmSave ''vol-new'' ''vol-old'']"
proof -
  have m: "mapping_of (Some root_mapping) = Inr [root_entry]"
    by (simp add: mapping_of_def root_mapping_def)
  have n: "(''host-b'' = ''host-a'') = False" by simp
  have r: "find_root_entry (root_device_name i_resizing) [root_entry] = Some root_entry"
    by (simp add: i_resizing_def i2_def root_entry_def)
  have b: "finish_try (''host-b'' = ''host-a'') (Some new_volume)
             (find_root_entry (root_device_name i_resizing) [root_entry]) (Some root_mapping) True
             (note_resized (''host-b'' = ''host-a'') i_resizing) power_on_fails_world =
           (Inl (InstancePowerOnFailure ''boot failed''), failed_power_on_world)"
    unfolding n r by (simp add: note_resized_def finish_try_otherhost_i_resizing)
  have k: "truthy (system_metadata i_resizing ''old_instance_volid'')
             \<longrightarrow> system_metadata i_resizing ''new_instance_volid'' \<noteq> None"
    by (simp add: i_resizing_def)
  have t: "task_state i_resizing \<noteq> Some RESIZE_REVERTING"
    by (simp add: i_resizing_def RESIZE_REVERTING_def)
  then have v: "task_state i_resizing = Some RESIZE_REVERTING
             \<longrightarrow> system_metadata i_resizing ''old_vm_state'' \<noteq> None"
    by simp
  have c: "calls_since failed_power_on_world
     (snd (volumes_restored new_volume (i_resizing, failed_power_on_world))) =
     [VolumeDetach ''vol-new'', VolumeDelete ''vol-new'',
      Helper ''get_volume_connector'' [''instance-00000002''], InitializeConnection ''vol-old'',
      VolumeAttach ''vol-old'' ''uuid-2'' ''c1d0'',
      BdmGetByVolumeId ''vol-new'', BdmSave ''vol-new'' ''vol-old'']"
    by (simp add: calls_since_def volumes_restored_def reattach_calls_def recorded_original_def
        i_resizing_def i2_def new_volume_def)
  from finish_migration_failure_cleanup [OF m b failed_power_on_world_quiet k v]
  have "finish_migration ''host-b'' ''host-a'' (Some new_volume) (Some root_mapping) True
     (i_resizing, power_on_fails_world) =
     (Inl (InstancePowerOnFailure ''boot failed''),
      moved_back (snd (destroy (volumes_restored new_volume (i_resizing, failed_power_on_world)))))"
    by simp
  with m finish_try_otherhost_i_resizing failed_power_on_world_quiet t c show ?thesis
    by (simp add: i_resizing_def)
qed

text \<open>
  C8, as stated, fails: the original root volume is attached again only under the guard
  \<^verbatim>\<open>if old_rvid\<close>. For an instance whose system metadata has no \<open>old_instance_volid\<close>, a
  finish on another host that has exchanged \<open>vol-old\<close> for \<open>vol-new\<close> and then fails in
  \<^verbatim>\<open>_power_on\<close> detaches and deletes \<open>vol-new\<close>, destroys the instance and re-raises;
  \<open>vol-old\<close>, detached before the failure, is not attached again: the only \<^verbatim>\<open>attach\<close> of
  the whole run is that of \<open>vol-new\<close>.
\<close>

theorem finish_migration_original_not_reattached:
  "fst (finish_migration ''host-b'' ''host-a'' (Some new_volume) (Some root_mapping) True
          (i_unnoted, power_on_fails_world)) = Inl (InstancePowerOnFailure ''boot failed'') \<and>
   precedes (VolumeDetach ''vol-old'') (Helper ''_power_on'' [''instance-00000002''])
     (trace (snd (snd (finish_migration ''host-b'' ''host-a'' (Some new_volume) (Some root_mapping)
                         True (i_unnoted, power_on_fails_world))))) \<and>
   filter is_volume_attach
     (trace (snd (snd (finish_migration ''host-b'' ''host-a'' (Some new_volume) (Some root_mapping)
                         True (i_unnoted, power_on_fails_world))))) =
     [VolumeAttach ''vol-new'' ''uuid-2'' ''c1d0''] \<and>
   take 3 (dropWhile (\<lambda>c. \<not> is_helper_power_on c)
     (trace (snd (snd (finish_migration ''host-b'' ''host-a'' (Some new_volume) (Some root_mapping)
                         True (i_unnoted, power_on_fails_world)))))) =
     [Helper ''_power_on'' [''instance-00000002''], VolumeDetach ''vol-new'', VolumeDelete ''vol-new'']"
  by code_simp

end
